(* ===== verification/Prelude.thy ===== *)
theory Prelude
  imports Complex_Main "HOL-Library.Word" "HOL-Library.List_Lexorder" "HOL-Library.Char_ord"
begin

text \<open>
  Shared vocabulary of the development: the byte type that Go's \<open>byte\<close> and
  \<open>[N]byte\<close> arrays are modelled with, the bit-level reasoning used for the
  identifier codec, the outcome of a Go call that may panic, and generic facts on
  the partial maps that model Go maps, and digit lists read as numbers, whose
  value order is the lexicographic order of the lists.
\<close>

unbundle bit_operations_syntax

section \<open>Bytes\<close>

type_synonym byte = "8 word"

text \<open>The bit positions of a byte, as a case split that \<open>elim disjE\<close> takes apart.\<close>

lemma byte_bit_positions:
  "(n::nat) < 8 \<longleftrightarrow> n = 0 \<or> n = 1 \<or> n = 2 \<or> n = 3 \<or> n = 4 \<or> n = 5 \<or> n = 6 \<or> n = 7"
  by auto

text \<open>
  Bit extensionality for bytes with the bit index already split into its eight
  values, so that \<open>bit_simps\<close> evaluates every shift and mask at a literal
  position.
\<close>

lemma byte_eqI:
  assumes "\<And>n. n = 0 \<or> n = 1 \<or> n = 2 \<or> n = 3 \<or> n = 4 \<or> n = 5 \<or> n = 6 \<or> n = 7 \<Longrightarrow>
             bit (a::byte) n = bit b n"
  shows "a = b"
  using assms by (intro bit_word_eqI) (simp add: byte_bit_positions)

text \<open>
  The simp set for byte identities at literal bit positions. \<open>push_bit_Suc\<close>
  would turn \<open>push_bit 1\<close> into a multiplication and is left out.
\<close>

named_theorems byte_simps
declare bit_simps [byte_simps] eval_nat_numeral [byte_simps]

lemma byte_bit_beyond [byte_simps]:
  "\<not> bit (w::byte) (Suc (Suc (Suc (Suc (Suc (Suc (Suc (Suc n))))))))"
  using bit_imp_le_length[of w] by fastforce

text \<open>A byte below 32 is one that masking with \<open>0x1F\<close> keeps: the 5-bit digits of base32.\<close>

lemma byte_lt_32_iff: "(x::byte) < 32 \<longleftrightarrow> x AND 31 = x"
proof
  assume "x < 32"
  then have "x AND mask 5 = x" by (intro less_mask_eq) simp
  then show "x AND 31 = x" by (simp add: mask_eq_exp_minus_1)
next
  assume eq: "x AND 31 = x"
  have "x AND mask 5 < 2 ^ 5" by (rule and_mask_less_size) (simp add: word_size)
  then show "x < 32" using eq by (simp add: mask_eq_exp_minus_1)
qed

section \<open>Go calls that may panic\<close>

text \<open>
  A Go call either returns a value or panics. In the handlers of this repository a
  panic is recovered by \<open>net/http\<close>, which drops the connection without writing a
  response; the model keeps it as a value so that no branch of the source is lost.
\<close>

datatype 'a go = Returns 'a | Panics string

section \<open>Go maps as partial maps\<close>

text \<open>A Go map is a partial map with a finite domain; \<open>len(m)\<close> is the size of the domain.\<close>

definition go_len :: "('k \<rightharpoonup> 'v) \<Rightarrow> nat" where
  "go_len m = card (dom m)"

lemma go_len_empty [simp]: "go_len Map.empty = 0"
  by (simp add: go_len_def)

lemma go_len_zero_iff: "finite (dom m) \<Longrightarrow> go_len m = 0 \<longleftrightarrow> m = Map.empty"
  by (auto simp: go_len_def)

lemma go_len_upd_fresh:
  "finite (dom m) \<Longrightarrow> m k = None \<Longrightarrow> go_len (m(k \<mapsto> v)) = Suc (go_len m)"
  by (simp add: go_len_def domIff)

lemma go_len_upd_existing:
  "m k \<noteq> None \<Longrightarrow> go_len (m(k \<mapsto> v)) = go_len m"
  by (simp add: go_len_def insert_absorb domIff)

lemma go_len_delete:
  "finite (dom m) \<Longrightarrow> m k \<noteq> None \<Longrightarrow> Suc (go_len (m(k := None))) = go_len m"
proof -
  assume fin: "finite (dom m)" and k: "m k \<noteq> None"
  then have "k \<in> dom m" by blast
  with fin have "Suc (card (dom m - {k})) = card (dom m)" by (rule card_Suc_Diff1)
  then show ?thesis by (simp add: go_len_def)
qed

section \<open>Maps and lists\<close>

text \<open>Copying the keys \<open>ks\<close> of \<open>m\<close> into \<open>f\<close>, one assignment per key.\<close>

lemma fold_upd_restrict:
  "fold (\<lambda>k rf. rf(k := m k)) ks f = (\<lambda>k'. if k' \<in> set ks then m k' else f k')"
  by (induction ks arbitrary: f) (auto simp: fun_eq_iff)

lemma map_filter_dom:
  "set ks \<subseteq> dom m \<Longrightarrow> List.map_filter m ks = map (\<lambda>k. the (m k)) ks"
  by (induction ks) (auto simp: List.map_filter_simps)

section \<open>Counters modulo a power of two\<close>

text \<open>Two offsets in \<open>1..M\<close> from the same base are equal if they agree modulo \<open>M\<close>.\<close>

lemma mod_cancel_small:
  fixes x a b M :: nat
  assumes "(x + a) mod M = (x + b) mod M" and "a \<le> M" and "b \<le> M" and "0 < a" and "0 < b"
  shows "a = b"
proof (rule ccontr)
  assume ne: "a \<noteq> b"
  have "(int x + int a) mod int M = (int x + int b) mod int M"
    using assms(1) by (metis of_nat_add of_nat_mod)
  then have "int M dvd (int a - int b)"
    by (metis mod_eq_dvd_iff add_diff_cancel_left)
  then have "\<bar>int M\<bar> \<le> \<bar>int a - int b\<bar>" using ne by (intro dvd_imp_le_int) simp_all
  with assms(2-5) show False by linarith
qed

section \<open>Digit lists as numbers, and their order\<close>

text \<open>
  A list of digits, most significant first, read in base \<open>B\<close> with
  \<open>horner_sum\<close> of its reverse; on lists of one length whose digits are below
  \<open>B\<close>, the lexicographic order is the order of these numbers.
\<close>

lemma horner_sum_map_id: "horner_sum f a xs = horner_sum (\<lambda>x. x) a (map f xs)"
  by (induction xs) simp_all

lemma horner_sum_bound:
  fixes xs :: "nat list"
  assumes "\<forall>x\<in>set xs. x < B"
  shows "horner_sum (\<lambda>x. x) B xs < B ^ length xs"
  using assms
proof (induction xs)
  case (Cons x xs)
  let ?h = "horner_sum (\<lambda>x. x) B xs"
  have "x + B * ?h < B * Suc ?h" using Cons.prems by simp
  also have "\<dots> \<le> B * B ^ length xs" using Cons by (intro mult_le_mono2) (simp add: Suc_le_eq)
  finally show ?case by simp
qed simp

lemma lex_horner:
  fixes xs ys :: "nat list"
  assumes "length xs = length ys" and "\<forall>x\<in>set xs. x < B" and "\<forall>y\<in>set ys. y < B"
  shows "xs < ys \<longleftrightarrow> horner_sum (\<lambda>x. x) B (rev xs) < horner_sum (\<lambda>x. x) B (rev ys)"
  using assms
proof (induction xs ys rule: list_induct2)
  case (Cons x xs y ys)
  let ?n = "length xs" and ?v = "horner_sum (\<lambda>x. x) B (rev xs)" and ?w = "horner_sum (\<lambda>x. x) B (rev ys)"
  have v: "?v < B ^ ?n" and w: "?w < B ^ ?n"
    using horner_sum_bound[of "rev xs" B] horner_sum_bound[of "rev ys" B] Cons by simp_all
  have hx: "horner_sum (\<lambda>x. x) B (rev xs @ [x]) = ?v + B ^ ?n * x"
   and hy: "horner_sum (\<lambda>x. x) B (rev ys @ [y]) = ?w + B ^ ?n * y"
    using Cons.hyps by (simp_all add: horner_sum_append)
  have lt: "a < b \<Longrightarrow> p < B ^ ?n \<Longrightarrow> p + B ^ ?n * a < q + B ^ ?n * b" for a b p q :: nat
  proof -
    assume "a < b" "p < B ^ ?n"
    then have "p + B ^ ?n * a < B ^ ?n * Suc a" by simp
    also have "\<dots> \<le> B ^ ?n * b" using \<open>a < b\<close> by (intro mult_le_mono2) simp
    finally show ?thesis by simp
  qed
  consider "x < y" | "x = y" | "y < x" by linarith
  then show ?case
  proof cases
    case 1 then show ?thesis using lt[OF 1 v, of ?w] by (simp add: hx hy)
  next
    case 2
    have "(x # xs < y # ys) = (?v + B ^ ?n * x < ?w + B ^ ?n * y)"
      using Cons 2 by simp
    then show ?thesis by (simp only: rev.simps hx hy)
  next
    case 3 then show ?thesis using lt[OF 3 w, of ?v] by (auto simp: hx hy)
  qed
qed simp

lemma byte_unat_less: "unat (d::byte) < 256"
  using unsigned_less[of d] by simp

lemma map_less_iff:
  assumes "\<forall>a\<in>A. \<forall>b\<in>A. f a < f b \<longleftrightarrow> a < b" and "\<forall>a\<in>A. \<forall>b\<in>A. f a = f b \<longleftrightarrow> a = b"
    and "set xs \<subseteq> A" and "set ys \<subseteq> A"
  shows "map f xs < map f ys \<longleftrightarrow> xs < ys"
  using assms(3,4)
proof (induction xs arbitrary: ys)
  case Nil then show ?case by (cases ys) simp_all
next
  case (Cons x xs)
  then show ?case using assms(1,2) by (cases ys) auto
qed

lemma append_less_prefix:
  fixes a b c d :: "'a::linorder list"
  assumes "length a = length c" and "a < c"
  shows "a @ b < c @ d"
  using assms
proof (induction a c rule: list_induct2)
  case (Cons x xs y ys)
  then show ?case by auto
qed simp

lemma horner_sum_digit_bits:
  fixes ds :: "byte list"
  assumes "k \<le> 8" and "\<forall>d\<in>set ds. unat d < 2 ^ k"
  shows "horner_sum unat (2 ^ k) ds = horner_sum of_bool (2::nat) (concat (map (\<lambda>d. map (bit d) [0..<k]) ds))"
  using assms(2)
proof (induction ds)
  case (Cons d ds)
  have "horner_sum of_bool (2::nat) (map (bit d) [0..<k]) = horner_sum of_bool 2 (map (bit (unat d)) [0..<k])"
    using assms(1) by (intro arg_cong[where f = "horner_sum of_bool 2"]) (auto simp: bit_unsigned_iff)
  also have "\<dots> = take_bit k (unat d)" by (rule horner_sum_bit_eq_take_bit)
  also have "\<dots> = unat d" using Cons.prems by (simp add: take_bit_nat_eq_self_iff)
  finally show ?case using Cons by (simp add: horner_sum_append)
qed simp

lemma horner_less_iff:
  fixes xs ys :: "byte list"
  assumes "length xs = length ys" and "\<forall>x\<in>set xs. unat x < B" and "\<forall>y\<in>set ys. unat y < B"
  shows "xs < ys \<longleftrightarrow> horner_sum unat B (rev xs) < horner_sum unat B (rev ys)"
proof -
  have "xs < ys \<longleftrightarrow> map unat xs < map unat ys"
    by (rule map_less_iff[symmetric, where A = UNIV]) (auto simp: word_less_nat_alt word_unat_eq_iff)
  also have "\<dots> \<longleftrightarrow> horner_sum (\<lambda>x. x) B (rev (map unat xs)) < horner_sum (\<lambda>x. x) B (rev (map unat ys))"
    using assms by (intro lex_horner) auto
  finally show ?thesis by (simp add: horner_sum_map_id[of unat] rev_map)
qed

end
