(* ===== verification/Xid.thy ===== *)
theory Xid
  imports Prelude
begin

text \<open>
  The identifier type of the repository, \<open>xid.ID\<close> of the \<open>github.com/rs/xid\<close>
  library, which \<open>src/rest/parseid.go\<close> parses from the URL and
  \<open>src/mock/manager.go\<close> generates in \<open>Create\<close>. The library is not under
  \<open>src/\<close>; it is modelled from its source (version 1.5): a 12-byte array, its
  20-character base32hex text form (\<open>encode\<close>, \<open>decode\<close>,
  \<open>UnmarshalText\<close>, \<open>FromString\<close>, \<open>IsNil\<close>) and the generator
  \<open>NewWithTime\<close>. The lemmas show that the text form round-trips, that the parser
  accepts exactly the canonical encodings, that it rejects every string of the wrong
  length, that generated identifiers are non-nil and pairwise distinct, and that
  the text order of identifiers is their byte order, so they sort by creation time.
\<close>

unbundle bit_operations_syntax

section \<open>The identifier and its alphabet\<close>

text \<open>\<open>type ID [rawLen]byte\<close>, \<open>rawLen = 12\<close>; well-formed values have 12 bytes.\<close>

type_synonym xid = "byte list"

definition raw_len :: nat where
  "raw_len = 12"

definition encoded_len :: nat where
  "encoded_len = 20"

definition encoding :: string where
  "encoding = ''0123456789abcdefghijklmnopqrstuv''"

datatype xid_error = ErrInvalidID

text \<open>\<open>nilID\<close> is the zero array; \<open>IsNil\<close> compares with it.\<close>

definition nil_id :: xid where
  "nil_id = replicate raw_len 0"

definition is_nil :: "xid \<Rightarrow> bool" where
  "is_nil x \<longleftrightarrow> x = nil_id"

text \<open>\<open>encoding[d]\<close>: the digit \<open>d\<close> of the alphabet (Go panics for \<open>d \<ge> 32\<close>, which
  no caller produces: see \<open>encode_digits_lt_32\<close>).\<close>

definition enc :: "byte \<Rightarrow> char" where
  "enc d = encoding ! unat d"

text \<open>
  The \<open>dec\<close> table, filled by \<open>init\<close>: every entry \<open>0xFF\<close>, then
  \<open>dec[encoding[i]] = byte(i)\<close> for each position of the alphabet. The alphabet has
  no repeated character, so scanning it for the first match gives the same table.
\<close>

fun dec_scan :: "string \<Rightarrow> nat \<Rightarrow> char \<Rightarrow> byte" where
  "dec_scan [] i c = 0xFF"
| "dec_scan (e # es) i c = (if e = c then of_nat i else dec_scan es (Suc i) c)"

definition dec :: "char \<Rightarrow> byte" where
  "dec c = dec_scan encoding 0 c"

section \<open>Encoding\<close>

text \<open>
  \<open>encode(dst, id)\<close>: the 20 five-bit digits, most significant first, each written
  as in the source (\<open><<\<close> is \<open>push_bit\<close>, \<open>>>\<close> is \<open>drop_bit\<close>, on bytes, so
  bits shifted out are lost; \<open>&\<close> binds tighter than \<open>|\<close>).
\<close>

definition encode_digits :: "xid \<Rightarrow> byte list" where
  "encode_digits x =
    [drop_bit 3 (x ! 0),
     drop_bit 6 (x ! 1) OR (push_bit 2 (x ! 0) AND 0x1F),
     drop_bit 1 (x ! 1) AND 0x1F,
     drop_bit 4 (x ! 2) OR (push_bit 4 (x ! 1) AND 0x1F),
     drop_bit 7 (x ! 3) OR (push_bit 1 (x ! 2) AND 0x1F),
     drop_bit 2 (x ! 3) AND 0x1F,
     drop_bit 5 (x ! 4) OR (push_bit 3 (x ! 3) AND 0x1F),
     x ! 4 AND 0x1F,
     drop_bit 3 (x ! 5),
     drop_bit 6 (x ! 6) OR (push_bit 2 (x ! 5) AND 0x1F),
     drop_bit 1 (x ! 6) AND 0x1F,
     drop_bit 4 (x ! 7) OR (push_bit 4 (x ! 6) AND 0x1F),
     drop_bit 7 (x ! 8) OR (push_bit 1 (x ! 7) AND 0x1F),
     drop_bit 2 (x ! 8) AND 0x1F,
     drop_bit 5 (x ! 9) OR (push_bit 3 (x ! 8) AND 0x1F),
     x ! 9 AND 0x1F,
     drop_bit 3 (x ! 10),
     drop_bit 6 (x ! 11) OR (push_bit 2 (x ! 10) AND 0x1F),
     drop_bit 1 (x ! 11) AND 0x1F,
     push_bit 4 (x ! 11) AND 0x1F]"

text \<open>\<open>String()\<close>: the encoded text, each digit looked up in the alphabet.\<close>

definition encode :: "xid \<Rightarrow> string" where
  "encode x = map enc (encode_digits x)"

section \<open>Decoding\<close>

text \<open>
  \<open>decode(id, src)\<close> for a 20-byte \<open>src\<close>: byte 11 first, then the check that
  the last character carries no bits beyond the 96 of the identifier
  (\<open>encoding[(id[11]<<4)&0x1F] != src[19]\<close> returns false), then bytes 10 to 0.
\<close>

definition decode :: "string \<Rightarrow> xid option" where
  "decode src =
    (let d = (\<lambda>k. dec (src ! k));
         b11 = push_bit 6 (d 17) OR push_bit 1 (d 18) OR drop_bit 4 (d 19)
     in if enc (push_bit 4 b11 AND 0x1F) \<noteq> src ! 19 then None
        else Some
          [push_bit 3 (d 0) OR drop_bit 2 (d 1),
           push_bit 6 (d 1) OR push_bit 1 (d 2) OR drop_bit 4 (d 3),
           push_bit 4 (d 3) OR drop_bit 1 (d 4),
           push_bit 7 (d 4) OR push_bit 2 (d 5) OR drop_bit 3 (d 6),
           push_bit 5 (d 6) OR d 7,
           push_bit 3 (d 8) OR drop_bit 2 (d 9),
           push_bit 6 (d 9) OR push_bit 1 (d 10) OR drop_bit 4 (d 11),
           push_bit 4 (d 11) OR drop_bit 1 (d 12),
           push_bit 7 (d 12) OR push_bit 2 (d 13) OR drop_bit 3 (d 14),
           push_bit 5 (d 14) OR d 15,
           push_bit 3 (d 16) OR drop_bit 2 (d 17),
           b11])"

text \<open>
  \<open>(*ID).UnmarshalText\<close>: the receiver's value and the error it returns. A wrong
  length or a character outside the alphabet returns before the receiver is written;
  a failed \<open>decode\<close> resets it to \<open>nilID\<close>.
\<close>

definition unmarshal_text :: "string \<Rightarrow> xid \<Rightarrow> xid \<times> xid_error option" where
  "unmarshal_text text x =
    (if length text \<noteq> encoded_len then (x, Some ErrInvalidID)
     else if list_ex (\<lambda>c. dec c = 0xFF) text then (x, Some ErrInvalidID)
     else (case decode text of
             None \<Rightarrow> (nil_id, Some ErrInvalidID)
           | Some x' \<Rightarrow> (x', None)))"

text \<open>\<open>FromString\<close>: \<open>UnmarshalText\<close> into a fresh zero \<open>ID\<close>.\<close>

definition from_string :: "string \<Rightarrow> xid \<times> xid_error option" where
  "from_string s = unmarshal_text s nil_id"

section \<open>Generation\<close>

text \<open>
  The generator's process-wide state: \<open>machineID\<close> (3 bytes read at start-up),
  \<open>pid\<close> and the atomic \<open>objectIDCounter\<close> (a \<open>uint32\<close>, seeded randomly).
\<close>

record xid_gen =
  machine_id :: "byte list"
  pid :: int
  object_id_counter :: "32 word"

text \<open>\<open>binary.BigEndian.PutUint32\<close>: the four bytes of a 32-bit value, high byte first.\<close>

definition put_uint32 :: "32 word \<Rightarrow> byte list" where
  "put_uint32 v = [ucast (drop_bit 24 v), ucast (drop_bit 16 v), ucast (drop_bit 8 v), ucast v]"

text \<open>
  \<open>NewWithTime(t)\<close>: 4 bytes of \<open>uint32(t.Unix())\<close>, 3 bytes of machine id,
  2 bytes of pid (\<open>byte(pid >> 8)\<close>, \<open>byte(pid)\<close>), and 3 bytes of the counter
  after \<open>atomic.AddUint32(&objectIDCounter, 1)\<close>. The argument is the Unix time in
  seconds; \<open>New()\<close> is \<open>NewWithTime(time.Now())\<close>.
\<close>

definition new_with_time :: "int \<Rightarrow> xid_gen \<Rightarrow> xid \<times> xid_gen" where
  "new_with_time t g =
    (let i = object_id_counter g + 1
     in (put_uint32 (word_of_int t) @
         [machine_id g ! 0, machine_id g ! 1, machine_id g ! 2,
          word_of_int (pid g div 256), word_of_int (pid g),
          ucast (drop_bit 16 i), ucast (drop_bit 8 i), ucast i],
         g\<lparr>object_id_counter := i\<rparr>))"

text \<open>Successive calls at the given times, as the mock manager makes them in \<open>Create\<close>.\<close>

fun new_ids :: "int list \<Rightarrow> xid_gen \<Rightarrow> xid list" where
  "new_ids [] g = []"
| "new_ids (t # ts) g = (let (x, g') = new_with_time t g in x # new_ids ts g')"

text \<open>The three counter bytes \<open>id[9..11]\<close> of an identifier.\<close>

abbreviation counter_bytes :: "32 word \<Rightarrow> byte list" where
  "counter_bytes i \<equiv> [ucast (drop_bit 16 i), ucast (drop_bit 8 i), ucast i]"

section \<open>The codec: digits and table\<close>

lemma length_nil_id [simp]: "length nil_id = raw_len"
  by (simp add: nil_id_def)

lemma nil_id_bytes: "nil_id = [0, 0, 0, 0, 0, 0, 0, 0, 0, 0, 0, 0]"
  by (simp add: nil_id_def raw_len_def eval_nat_numeral)

lemma dec_enc_table: "list_all (\<lambda>n. dec (enc (of_nat n)) = of_nat n) [0..<32]"
  by (simp add: dec_def enc_def encoding_def upt_rec unat_of_nat)

lemma dec_enc: "d < 32 \<Longrightarrow> dec (enc d) = d"
proof -
  assume "d < 32"
  then have "unat d < 32" by (simp add: word_less_nat_alt)
  moreover have "d = of_nat (unat d)" by simp
  ultimately show ?thesis
    using dec_enc_table by (metis (mono_tags, lifting) atLeastLessThan_iff list_all_iff set_upt zero_le)
qed

text \<open>Every index the encoder looks up is a 5-bit digit: \<open>encoding[\<dots>]\<close> never panics.\<close>

lemma encode_digits_lt_32: "list_all (\<lambda>d. d < 32) (encode_digits x)"
  unfolding encode_digits_def list_all_iff byte_lt_32_iff set_simps ball_simps
  by (intro conjI TrueI; rule byte_eqI, elim disjE; simp add: byte_simps del: push_bit_Suc)

lemma length_encode_digits [simp]: "length (encode_digits x) = 20"
  by (simp add: encode_digits_def)

lemma length_encode [simp]: "length (encode x) = encoded_len"
  by (simp add: encode_def encoded_len_def)

lemma dec_encode_nth: "k < 20 \<Longrightarrow> dec (encode x ! k) = encode_digits x ! k"
  using encode_digits_lt_32[of x] by (simp add: encode_def dec_enc list_all_length)

lemma encode_valid_chars: "\<not> list_ex (\<lambda>c. dec c = 0xFF) (encode x)"
proof -
  have "\<forall>d \<in> set (encode_digits x). dec (enc d) \<noteq> 0xFF"
    using encode_digits_lt_32[of x] by (auto simp: list_all_iff dec_enc)
  then show ?thesis by (auto simp: encode_def list_ex_iff)
qed

lemma xid_bytes:
  assumes "length (x::xid) = raw_len"
  obtains a0 a1 a2 a3 a4 a5 a6 a7 a8 a9 a10 a11
  where "x = [a0, a1, a2, a3, a4, a5, a6, a7, a8, a9, a10, a11]"
  using assms by (auto simp: raw_len_def length_Suc_conv numeral_eq_Suc)

section \<open>Round trip\<close>

text \<open>Decoding an encoding gives the bytes back; each byte is reassembled from its digits.\<close>

lemma decode_encode_bytes:
  "decode (encode [a0, a1, a2, a3, a4, a5, a6, a7, a8, a9, a10, a11]) =
     Some [a0, a1, a2, a3, a4, a5, a6, a7, a8, a9, a10, a11]"
  apply (simp add: decode_def Let_def dec_encode_nth del: push_bit_Suc)
  apply (simp add: encode_digits_def encode_def del: push_bit_Suc)
  apply (intro conjI impI arg_cong[where f = enc];
         rule byte_eqI, elim disjE; simp add: byte_simps del: push_bit_Suc)
  done

lemma decode_encode: "length x = raw_len \<Longrightarrow> decode (encode x) = Some x"
  by (elim xid_bytes) (simp only: decode_encode_bytes)

text \<open>The text form of every identifier parses back to the identifier, without error.\<close>

lemma from_string_encode:
  "length x = raw_len \<Longrightarrow> from_string (encode x) = (x, None)"
  by (simp add: from_string_def unmarshal_text_def encode_valid_chars decode_encode)

section \<open>Canonical encodings\<close>

text \<open>The \<open>dec\<close> table inverts the alphabet on the characters it accepts.\<close>

lemma dec_scan_found:
  "dec_scan es i c \<noteq> 0xFF \<Longrightarrow> \<exists>k < length es. es ! k = c \<and> dec_scan es i c = of_nat (i + k)"
proof (induction es arbitrary: i)
  case Nil
  then show ?case by simp
next
  case (Cons e es)
  show ?case
  proof (cases "e = c")
    case True
    then show ?thesis by auto
  next
    case False
    with Cons.prems have "dec_scan es (Suc i) c \<noteq> 0xFF" by simp
    then obtain k where "k < length es" "es ! k = c" "dec_scan es (Suc i) c = of_nat (Suc i + k)"
      using Cons.IH by blast
    with False show ?thesis by (intro exI[of _ "Suc k"]) simp
  qed
qed

lemma dec_valid:
  assumes "dec c \<noteq> 0xFF"
  shows "dec c < 32" and "enc (dec c) = c"
proof -
  obtain k where k: "k < length encoding" "encoding ! k = c" "dec c = of_nat k"
    using dec_scan_found[of encoding 0 c] assms by (auto simp: dec_def)
  have "length encoding = 32" by (simp add: encoding_def)
  with k have "unat (dec c) = k" by (simp add: unat_of_nat)
  with k \<open>length encoding = 32\<close> show "dec c < 32" and "enc (dec c) = c"
    by (simp_all add: word_less_nat_alt enc_def)
qed

lemma digit_bits:
  assumes "(d::byte) < 32"
  shows "\<not> bit d 5" "\<not> bit d 6" "\<not> bit d 7"
proof -
  from assms have eq: "d AND 31 = d" by (simp add: byte_lt_32_iff)
  have up: "bit d n \<Longrightarrow> bit (31::byte) n" for n
    using bit_and_iff[of d 31 n] eq by simp
  have "\<not> bit (31::byte) 5" "\<not> bit (31::byte) 6" "\<not> bit (31::byte) 7"
    by (simp_all add: bit_simps)
  with up show "\<not> bit d 5" "\<not> bit d 6" "\<not> bit d 7" by blast+
qed

lemma check_bits:
  assumes check: "push_bit 4 (push_bit 6 d17 OR push_bit 1 d18 OR drop_bit 4 (d19::byte)) AND 0x1F = d19"
  shows "\<not> bit d19 0" "\<not> bit d19 1" "\<not> bit d19 2" "\<not> bit d19 3"
proof -
  let ?b = "push_bit 6 d17 OR push_bit 1 d18 OR drop_bit 4 d19"
  have low: "\<not> bit (push_bit 4 ?b AND 0x1F) k" if "k < 4" for k
    using that by (simp add: bit_simps)
  then show "\<not> bit d19 0" "\<not> bit d19 1" "\<not> bit d19 2" "\<not> bit d19 3"
    unfolding check by simp_all
qed

lemma encode_digits_decode:
  assumes digits: "list_all (\<lambda>d. d < 32) [d0, d1, d2, d3, d4, d5, d6, d7, d8, d9, d10, d11, d12, d13, d14, d15, d16, d17, d18, d19]"
    and check: "push_bit 4 (push_bit 6 d17 OR push_bit 1 d18 OR drop_bit 4 d19) AND 0x1F = d19"
  shows "encode_digits
     [push_bit 3 d0 OR drop_bit 2 d1,
      push_bit 6 d1 OR push_bit 1 d2 OR drop_bit 4 d3,
      push_bit 4 d3 OR drop_bit 1 d4,
      push_bit 7 d4 OR push_bit 2 d5 OR drop_bit 3 d6,
      push_bit 5 d6 OR d7,
      push_bit 3 d8 OR drop_bit 2 d9,
      push_bit 6 d9 OR push_bit 1 d10 OR drop_bit 4 d11,
      push_bit 4 d11 OR drop_bit 1 d12,
      push_bit 7 d12 OR push_bit 2 d13 OR drop_bit 3 d14,
      push_bit 5 d14 OR d15,
      push_bit 3 d16 OR drop_bit 2 d17,
      push_bit 6 d17 OR push_bit 1 d18 OR drop_bit 4 d19] =
    [d0, d1, d2, d3, d4, d5, d6, d7, d8, d9, d10, d11, d12, d13, d14, d15, d16, d17, d18, d19]"
proof -
  have hi: "\<forall>d \<in> set [d0, d1, d2, d3, d4, d5, d6, d7, d8, d9, d10, d11, d12, d13, d14, d15, d16, d17, d18, d19].
      \<not> bit d 5 \<and> \<not> bit d 6 \<and> \<not> bit d 7"
    using digits by (simp add: list_all_iff digit_bits)
  note lo = check_bits[OF check]
  show ?thesis
    using hi lo
    apply (simp add: encode_digits_def del: push_bit_Suc)
    apply (intro conjI; rule byte_eqI, elim disjE; simp add: byte_simps del: push_bit_Suc)
    done
qed

lemma text_chars:
  assumes "length (s::string) = encoded_len"
  obtains c0 c1 c2 c3 c4 c5 c6 c7 c8 c9 c10 c11 c12 c13 c14 c15 c16 c17 c18 c19
  where "s = [c0, c1, c2, c3, c4, c5, c6, c7, c8, c9, c10, c11, c12, c13, c14, c15, c16, c17, c18, c19]"
  using assms by (auto simp: encoded_len_def length_Suc_conv numeral_eq_Suc)

text \<open>
  The parser accepts only canonical text: whatever it parses without error is the
  encoding of the identifier it returns. With \<open>from_string_encode\<close>,
  \<open>FromString\<close> and \<open>String\<close> are inverse bijections between identifiers and
  accepted strings, so two different accepted strings never name the same identifier.
\<close>

lemma from_string_canonical:
  assumes "from_string s = (x, None)"
  shows "encode x = s"
proof -
  from assms have len: "length s = encoded_len"
    and valid: "\<not> list_ex (\<lambda>c. dec c = 0xFF) s"
    and dcd: "decode s = Some x"
    by (auto simp: from_string_def unmarshal_text_def split: if_splits option.splits)
  from valid have lt: "list_all (\<lambda>d. d < 32) (map dec s)" and inv: "map enc (map dec s) = s"
    by (auto simp: list_all_iff list_ex_iff dec_valid intro: map_idI)
  from len obtain c0 c1 c2 c3 c4 c5 c6 c7 c8 c9 c10 c11 c12 c13 c14 c15 c16 c17 c18 c19
    where s: "s = [c0, c1, c2, c3, c4, c5, c6, c7, c8, c9, c10, c11, c12, c13, c14, c15, c16, c17, c18, c19]"
    by (rule text_chars)
  let ?b11 = "push_bit 6 (dec c17) OR push_bit 1 (dec c18) OR drop_bit 4 (dec c19)"
  from dcd have chk: "enc (push_bit 4 ?b11 AND 0x1F) = c19" and x: "x =
     [push_bit 3 (dec c0) OR drop_bit 2 (dec c1),
      push_bit 6 (dec c1) OR push_bit 1 (dec c2) OR drop_bit 4 (dec c3),
      push_bit 4 (dec c3) OR drop_bit 1 (dec c4),
      push_bit 7 (dec c4) OR push_bit 2 (dec c5) OR drop_bit 3 (dec c6),
      push_bit 5 (dec c6) OR dec c7,
      push_bit 3 (dec c8) OR drop_bit 2 (dec c9),
      push_bit 6 (dec c9) OR push_bit 1 (dec c10) OR drop_bit 4 (dec c11),
      push_bit 4 (dec c11) OR drop_bit 1 (dec c12),
      push_bit 7 (dec c12) OR push_bit 2 (dec c13) OR drop_bit 3 (dec c14),
      push_bit 5 (dec c14) OR dec c15,
      push_bit 3 (dec c16) OR drop_bit 2 (dec c17),
      ?b11]"
    by (simp_all add: s decode_def Let_def split: if_splits del: push_bit_Suc)
  have "push_bit 4 ?b11 AND 0x1F < 32" by (simp add: byte_lt_32_iff word_bw_assocs)
  then have "push_bit 4 ?b11 AND 0x1F = dec c19"
    using chk dec_enc by metis
  moreover have "list_all (\<lambda>d. d < 32) [dec c0, dec c1, dec c2, dec c3, dec c4, dec c5, dec c6, dec c7, dec c8, dec c9,
      dec c10, dec c11, dec c12, dec c13, dec c14, dec c15, dec c16, dec c17, dec c18, dec c19]"
    using lt by (simp add: s)
  ultimately have "encode_digits x = map dec s"
    unfolding x s by (simp only: encode_digits_decode list.map)
  then have "encode x = map enc (map dec s)" by (simp only: encode_def)
  with inv show ?thesis by simp
qed

lemma unmarshal_text_length: "unmarshal_text s cur = (x, None) \<Longrightarrow> length x = raw_len"
  by (auto simp: unmarshal_text_def decode_def Let_def raw_len_def split: if_splits option.splits)

lemma from_string_length: "from_string s = (x, None) \<Longrightarrow> length x = raw_len"
  by (simp add: from_string_def unmarshal_text_length)

lemma from_string_wrong_length:
  "length s \<noteq> encoded_len \<Longrightarrow> from_string s = (nil_id, Some ErrInvalidID)"
  by (simp add: from_string_def unmarshal_text_def)

section \<open>Generated identifiers\<close>

text \<open>The four bytes of a 32-bit value determine it.\<close>

lemma byte_of_word_bit:
  assumes "(ucast (drop_bit k v) :: byte) = ucast (drop_bit k (w :: 32 word))" and "k \<le> n" and "n < k + 8"
  shows "bit v n = bit w n"
proof -
  have "bit (ucast (drop_bit k v) :: byte) (n - k) = bit (ucast (drop_bit k w) :: byte) (n - k)"
    using assms(1) by simp
  moreover have "n - k < 8" and "k + (n - k) = n" using assms(2,3) by arith+
  ultimately show ?thesis by (simp add: bit_simps)
qed

lemma put_uint32_inj: "put_uint32 v = put_uint32 w \<Longrightarrow> v = w"
proof (rule bit_word_eqI)
  fix n assume eq: "put_uint32 v = put_uint32 w" and n: "n < LENGTH(32)"
  from eq have b0: "(ucast (drop_bit 0 v) :: byte) = ucast (drop_bit 0 w)"
    and b8: "(ucast (drop_bit 8 v) :: byte) = ucast (drop_bit 8 w)"
    and b16: "(ucast (drop_bit 16 v) :: byte) = ucast (drop_bit 16 w)"
    and b24: "(ucast (drop_bit 24 v) :: byte) = ucast (drop_bit 24 w)"
    by (simp_all add: put_uint32_def)
  have n32: "n < 32" using n by simp
  consider "n < 8" | "8 \<le> n" "n < 16" | "16 \<le> n" "n < 24" | "24 \<le> n" "n < 32"
    using n32 by linarith
  then show "bit v n = bit w n"
  proof cases
    case 1 then show ?thesis using byte_of_word_bit[OF b0] by simp
  next
    case 2 then show ?thesis using byte_of_word_bit[OF b8] by simp
  next
    case 3 then show ?thesis using byte_of_word_bit[OF b16] by simp
  next
    case 4 then show ?thesis using byte_of_word_bit[OF b24] by simp
  qed
qed

lemma put_uint32_zero: "put_uint32 0 = [0, 0, 0, 0]"
  by (simp add: put_uint32_def)

lemma length_new_with_time: "length (fst (new_with_time t g)) = raw_len"
  by (simp add: new_with_time_def Let_def put_uint32_def raw_len_def)

lemma new_with_time_not_nil:
  assumes "(word_of_int t :: 32 word) \<noteq> 0"
  shows "\<not> is_nil (fst (new_with_time t g))"
proof
  assume "is_nil (fst (new_with_time t g))"
  then have "take 4 (fst (new_with_time t g)) = take 4 nil_id" by (simp add: is_nil_def)
  then have "put_uint32 (word_of_int t) = put_uint32 0"
    by (simp add: new_with_time_def Let_def nil_id_bytes put_uint32_zero put_uint32_def)
  then have "(word_of_int t :: 32 word) = 0" by (rule put_uint32_inj)
  with assms show False by simp
qed
section \<open>Successive identifiers\<close>

text \<open>
  The last three bytes of an identifier are the counter's low 24 bits, so fewer
  than \<open>2^24\<close> successive identifiers differ whatever the clock does, even across
  the wrap-around of the 32-bit counter.
\<close>

lemma length_new_ids [simp]: "length (new_ids ts g) = length ts"
  by (induction ts arbitrary: g) (auto simp: Let_def split: prod.splits)

lemma new_with_time_counter:
  "drop 9 (fst (new_with_time t g)) =
     (let i = object_id_counter g + 1 in [ucast (drop_bit 16 i), ucast (drop_bit 8 i), ucast i])"
  "object_id_counter (snd (new_with_time t g)) = object_id_counter g + 1"
  by (simp_all add: new_with_time_def Let_def put_uint32_def)

lemma new_ids_nth_counter:
  "k < length ts \<Longrightarrow> drop 9 (new_ids ts g ! k) =
     (let i = object_id_counter g + of_nat (Suc k) in [ucast (drop_bit 16 i), ucast (drop_bit 8 i), ucast i])"
proof (induction ts arbitrary: g k)
  case (Cons t ts)
  obtain x g' where nw: "new_with_time t g = (x, g')" by fastforce
  show ?case
  proof (cases k)
    case 0 then show ?thesis using new_with_time_counter[of t g] nw by simp
  next
    case (Suc k')
    then have "drop 9 (new_ids ts g' ! k') =
       (let i = object_id_counter g' + of_nat (Suc k') in [ucast (drop_bit 16 i), ucast (drop_bit 8 i), ucast i])"
      using Cons by simp
    moreover have "object_id_counter g' = object_id_counter g + 1" using new_with_time_counter(2)[of t g] nw by simp
    ultimately show ?thesis using Suc nw by (simp add: Let_def add.assoc)
  qed
qed simp

lemma low_bytes_eq:
  fixes v w :: "32 word"
  assumes "[ucast (drop_bit 16 v), ucast (drop_bit 8 v), ucast v] = ([ucast (drop_bit 16 w), ucast (drop_bit 8 w), ucast w] :: byte list)"
  shows "take_bit 24 v = take_bit 24 w"
proof (rule bit_eqI)
  fix n
  have b: "bit (ucast (drop_bit d u) :: byte) j = (j < 8 \<and> bit u (d + j))" for d j and u :: "32 word"
    by (auto simp: bit_ucast_iff bit_drop_bit_eq)
  show "bit (take_bit 24 v) n = bit (take_bit 24 w) n"
  proof (cases "n < 24")
    case True
    then consider "n < 8" | "8 \<le> n \<and> n < 16" | "16 \<le> n \<and> n < 24" by linarith
    then show ?thesis
    proof cases
      case 1
      have "bit (ucast (drop_bit 0 v) :: byte) n = bit (ucast (drop_bit 0 w) :: byte) n" using assms by simp
      then show ?thesis using 1 by (simp only: b) (simp add: bit_take_bit_iff)
    next
      case 2
      then have lt: "n - 8 < 8" by linarith
      have "bit (ucast (drop_bit 8 v) :: byte) (n - 8) = bit (ucast (drop_bit 8 w) :: byte) (n - 8)"
        using assms by simp
      then show ?thesis using 2 lt by (simp only: b) (simp add: bit_take_bit_iff)
    next
      case 3
      then have lt: "n - 16 < 8" by linarith
      have "bit (ucast (drop_bit 16 v) :: byte) (n - 16) = bit (ucast (drop_bit 16 w) :: byte) (n - 16)"
        using assms by simp
      then show ?thesis using 3 lt by (simp only: b) (simp add: bit_take_bit_iff)
    qed
  qed (simp add: bit_take_bit_iff)
qed

lemma take_bit_24_counter:
  fixes c :: "32 word"
  assumes "take_bit 24 (c + of_nat a) = take_bit 24 (c + of_nat b)" and "a \<le> 2 ^ 24" and "b \<le> 2 ^ 24" and "0 < a" and "0 < b"
  shows "a = b"
proof -
  have "unat (take_bit 24 (c + of_nat a)) = unat (take_bit 24 (c + of_nat b))" using assms(1) by simp
  then have "(unat c + a) mod 2 ^ 32 mod 2 ^ 24 = (unat c + b) mod 2 ^ 32 mod 2 ^ 24"
    using assms(2,3) by (simp add: unsigned_take_bit_eq take_bit_eq_mod unat_word_ariths unat_of_nat)
  then have "(unat c + a) mod 2 ^ 24 = (unat c + b) mod 2 ^ 24"
    by (simp add: mod_mod_cancel)
  then show ?thesis using assms(2-5) by (rule mod_cancel_small)
qed
lemma new_ids_distinct:
  assumes "length ts \<le> 2 ^ 24"
  shows "distinct (new_ids ts g)"
proof (subst distinct_conv_nth, intro allI impI)
  fix i j assume i: "i < length (new_ids ts g)" and j: "j < length (new_ids ts g)" and ij: "i \<noteq> j"
  show "new_ids ts g ! i \<noteq> new_ids ts g ! j"
  proof
    assume "new_ids ts g ! i = new_ids ts g ! j"
    then have "drop 9 (new_ids ts g ! i) = drop 9 (new_ids ts g ! j)" by simp
    with i j have "take_bit 24 (object_id_counter g + of_nat (Suc i)) = take_bit 24 (object_id_counter g + of_nat (Suc j))"
      by (intro low_bytes_eq) (simp add: new_ids_nth_counter Let_def)
    then have "Suc i = Suc j" using i j assms by (intro take_bit_24_counter) auto
    with ij show False by simp
  qed
qed

lemma new_with_time_gen: "snd (new_with_time t g) = g\<lparr>object_id_counter := object_id_counter g + 1\<rparr>"
  by (simp add: new_with_time_def Let_def)

text \<open>After \<open>2^24\<close> identifiers the counter bytes repeat.\<close>

lemma new_with_time_wraps:
  "fst (new_with_time t (g\<lparr>object_id_counter := 2 ^ 24\<rparr>)) = fst (new_with_time t (g\<lparr>object_id_counter := 0\<rparr>))"
  by (simp add: new_with_time_def Let_def)

section \<open>Text of particular identifiers\<close>

lemma encode_nil_id: "encode nil_id = ''00000000000000000000''"
  by (simp add: nil_id_bytes encode_def encode_digits_def enc_def encoding_def)

lemma unmarshal_text_encode:
  "length x = raw_len \<Longrightarrow> unmarshal_text (encode x) cur = (x, None)"
  by (simp add: unmarshal_text_def encode_valid_chars decode_encode)

section \<open>Identifiers sort as their texts\<close>

text \<open>
  The 20 digits carry the 96 bits of the identifier followed by four zero bits, and
  the alphabet is in ascending order: the text of an identifier sorts exactly as its
  bytes, which sort by their first four, the creation time.
\<close>

lemma encode_digits_bits:
  assumes "length x = raw_len"
  shows "concat (map (\<lambda>d. map (bit d) [0..<5]) (rev (encode_digits x))) =
         replicate 4 False @ concat (map (\<lambda>b. map (bit b) [0..<8]) (rev x))"
proof -
  obtain b0 b1 b2 b3 b4 b5 b6 b7 b8 b9 b10 b11 where x: "x = [b0, b1, b2, b3, b4, b5, b6, b7, b8, b9, b10, b11]"
    using xid_bytes[OF assms] by blast
  show ?thesis
    by (simp add: x encode_digits_def upt_rec byte_simps del: push_bit_Suc)
qed

lemma encoding_sorted: "sorted_wrt (<) encoding"
  by (simp add: encoding_def less_char_def)

lemma enc_less_iff: "a < 32 \<Longrightarrow> b < 32 \<Longrightarrow> enc a < enc b \<longleftrightarrow> a < b"
proof -
  assume a: "a < 32" and b: "b < 32"
  have len: "length encoding = 32" by (simp add: encoding_def)
  have ua: "unat a < 32" and ub: "unat b < 32" using a b by (simp_all add: word_less_nat_alt)
  have mono: "i < j \<Longrightarrow> j < 32 \<Longrightarrow> encoding ! i < encoding ! j" for i j
    using sorted_wrt_nth_less[OF encoding_sorted] len by simp
  show ?thesis
  proof
    assume "enc a < enc b"
    then have "\<not> unat b \<le> unat a" using mono[of "unat b" "unat a"] ua by (auto simp: enc_def le_less)
    then show "a < b" by (simp add: word_less_nat_alt)
  next
    assume "a < b"
    then show "enc a < enc b" using mono[of "unat a" "unat b"] ub by (simp add: enc_def word_less_nat_alt)
  qed
qed

lemma enc_inj: "a < 32 \<Longrightarrow> b < 32 \<Longrightarrow> enc a = enc b \<longleftrightarrow> a = b"
  using enc_less_iff[of a b] enc_less_iff[of b a] by (metis less_irrefl neqE)

lemma encode_value:
  assumes "length x = raw_len"
  shows "horner_sum unat (32::nat) (rev (encode_digits x)) = 16 * horner_sum unat (256::nat) (rev x)"
proof -
  have d: "\<forall>d\<in>set (rev (encode_digits x)). unat d < 2 ^ 5"
    using encode_digits_lt_32[of x] by (auto simp: list_all_iff word_less_nat_alt)
  have b: "\<forall>d\<in>set (rev x). unat d < 2 ^ 8" using byte_unat_less by simp
  have "horner_sum unat (32::nat) (rev (encode_digits x)) =
        horner_sum of_bool 2 (replicate 4 False @ concat (map (\<lambda>b. map (bit b) [0..<8]) (rev x)))"
    using horner_sum_digit_bits[of 5 "rev (encode_digits x)"] d encode_digits_bits[OF assms] by simp
  also have "\<dots> = 16 * horner_sum of_bool (2::nat) (concat (map (\<lambda>b. map (bit b) [0..<8]) (rev x)))"
    by (simp add: horner_sum_append numeral_eq_Suc)
  also have "\<dots> = 16 * horner_sum unat (256::nat) (rev x)"
    using horner_sum_digit_bits[of 8 "rev x"] b by simp
  finally show ?thesis .
qed

lemma encode_less_iff:
  assumes "length x = raw_len" and "length y = raw_len"
  shows "encode x < encode y \<longleftrightarrow> x < y"
proof -
  have dx: "\<forall>d\<in>set (encode_digits x). d < 32" and dy: "\<forall>d\<in>set (encode_digits y). d < 32"
    using encode_digits_lt_32[of x] encode_digits_lt_32[of y] by (simp_all add: list_all_iff)
  have "encode x < encode y \<longleftrightarrow> encode_digits x < encode_digits y"
    unfolding encode_def
    by (rule map_less_iff[where A = "{d. d < 32}"]) (use dx dy enc_less_iff enc_inj in auto)
  also have "\<dots> \<longleftrightarrow> horner_sum unat (32::nat) (rev (encode_digits x)) < horner_sum unat 32 (rev (encode_digits y))"
    using dx dy by (intro horner_less_iff) (auto simp: word_less_nat_alt)
  also have "\<dots> \<longleftrightarrow> horner_sum unat (256::nat) (rev x) < horner_sum unat 256 (rev y)"
    by (simp add: encode_value assms)
  also have "\<dots> \<longleftrightarrow> x < y"
    using assms byte_unat_less by (intro horner_less_iff[symmetric]) auto
  finally show ?thesis .
qed

lemma put_uint32_bits:
  "concat (map (\<lambda>b. map (bit b) [0..<8]) (rev (put_uint32 v))) = map (bit v) [0..<32]"
  by (simp add: put_uint32_def upt_rec bit_simps eval_nat_numeral)

lemma put_uint32_value: "horner_sum unat (256::nat) (rev (put_uint32 v)) = unat v"
proof -
  have "horner_sum unat (2 ^ 8::nat) (rev (put_uint32 v)) = horner_sum of_bool (2::nat) (map (bit v) [0..<32])"
    using horner_sum_digit_bits[of 8 "rev (put_uint32 v)"] byte_unat_less put_uint32_bits[of v] by simp
  also have "\<dots> = horner_sum of_bool 2 (map (bit (unat v)) [0..<32])"
    by (intro arg_cong[where f = "horner_sum of_bool 2"]) (auto simp: bit_unsigned_iff)
  also have "\<dots> = unat v" using unsigned_less[of v] by (simp add: horner_sum_bit_eq_take_bit take_bit_nat_eq_self_iff)
  finally show ?thesis by simp
qed

lemma put_uint32_less_iff: "put_uint32 v < put_uint32 w \<longleftrightarrow> v < w"
proof -
  have "put_uint32 v < put_uint32 w \<longleftrightarrow>
      horner_sum unat (256::nat) (rev (put_uint32 v)) < horner_sum unat 256 (rev (put_uint32 w))"
    using byte_unat_less by (intro horner_less_iff) (simp_all add: put_uint32_def)
  then show ?thesis by (simp add: put_uint32_value word_less_nat_alt)
qed

lemma new_with_time_time_order:
  assumes "(word_of_int t1 :: 32 word) < word_of_int t2"
  shows "fst (new_with_time t1 g1) < fst (new_with_time t2 g2)"
proof -
  have "put_uint32 (word_of_int t1) < put_uint32 (word_of_int t2)" using assms by (simp add: put_uint32_less_iff)
  then show ?thesis
    by (simp add: new_with_time_def Let_def) (rule append_less_prefix, simp_all add: put_uint32_def)
qed

end
