(* ===== verification/Json.thy ===== *)
theory Json
  imports Prelude
begin

text \<open>
  The boundary with \<open>encoding/json\<close>, which the handlers use to decode request
  bodies. A body is read as its first JSON value (\<open>json.NewDecoder(pl).Decode\<close>
  stops after it); the lexical layer is not modelled, so the model takes that value,
  or the decoder's failure, as given. What depends on the decoding target is
  modelled: Go's \<open>int\<close> fields, and \<open>map[string]interface{}\<close>
  (\<open>crud.PartialUpdateData\<close>). Numbers are modelled by their exact rational value:
  the rounding of a literal to \<open>float64\<close> when it is decoded into \<open>interface{}\<close>,
  the decoder's failure on a literal beyond the \<open>float64\<close> range (\<open>1e400\<close>), and the
  rejection of a literal such as \<open>2.0\<close> for an \<open>int\<close> field are not. On the numbers
  \<open>float64\<close> represents exactly (\<open>is_float64\<close>) the rational value is the value Go
  decodes, and the properties about \<open>interface{}\<close> numbers assume it.
\<close>

section \<open>JSON values\<close>

datatype json =
    JNull
  | JBool bool
  | JNumber rat
  | JString string
  | JArray "json list"
  | JObject "(string \<times> json) list"

section \<open>Go's int\<close>

text \<open>\<open>int\<close> is 64 bits wide on the platforms the service runs on.\<close>

definition int64_min :: int where
  "int64_min = - (2 ^ 63)"

definition int64_max :: int where
  "int64_max = 2 ^ 63 - 1"

definition in_int64 :: "int \<Rightarrow> bool" where
  "in_int64 i \<longleftrightarrow> int64_min \<le> i \<and> i \<le> int64_max"

text \<open>
  Decoding a JSON value into an \<open>int\<close> field holding \<open>cur\<close>: \<open>null\<close> leaves the
  field as it is; a number that is an integer in range is stored; anything else is an
  \<open>UnmarshalTypeError\<close> (\<open>None\<close>).
\<close>

definition decode_int :: "json \<Rightarrow> int \<Rightarrow> int option" where
  "decode_int j cur =
    (case j of
       JNull \<Rightarrow> Some cur
     | JNumber r \<Rightarrow>
         (if r = of_int (\<lfloor>r\<rfloor>) \<and> in_int64 \<lfloor>r\<rfloor> then Some \<lfloor>r\<rfloor> else None)
     | _ \<Rightarrow> None)"

text \<open>
  The conversion \<open>int(f)\<close> of a \<open>float64\<close>: truncation towards zero. A value out
  of range has an implementation-defined result; on amd64 it is the minimum
  \<open>int\<close> (the "integer indefinite" of \<open>CVTTSD2SI\<close>), which the model takes.
\<close>

definition go_float_to_int :: "rat \<Rightarrow> int" where
  "go_float_to_int r =
    (let t = (if 0 \<le> r then \<lfloor>r\<rfloor> else \<lceil>r\<rceil>)
     in if in_int64 t then t else int64_min)"

text \<open>
  The finite values of IEEE 754 binary64: \<open>m * 2^e\<close> with \<open>|m| < 2^53\<close> and
  \<open>-1074 \<le> e \<le> 971\<close> (normal and subnormal numbers). A literal with such a
  value decodes into \<open>interface{}\<close> as exactly that \<open>float64\<close>.
\<close>

definition is_float64 :: "rat \<Rightarrow> bool" where
  "is_float64 f \<longleftrightarrow>
    list_ex (\<lambda>e. let m = f * 2 powi (- e) in m = of_int \<lfloor>m\<rfloor> \<and> \<bar>m\<bar> < 2 ^ 53) [-1074..971]"

section \<open>map[string]interface{}\<close>

text \<open>
  Decoding into a non-nil map: each member of an object is stored under its key, a
  later duplicate overwriting an earlier one; \<open>null\<close> sets the map to \<open>nil\<close>,
  which reads as empty; any other value is an \<open>UnmarshalTypeError\<close>.
\<close>

definition decode_object_map :: "json \<Rightarrow> (string \<rightharpoonup> json) \<Rightarrow> (string \<rightharpoonup> json) option" where
  "decode_object_map j m =
    (case j of
       JNull \<Rightarrow> Some Map.empty
     | JObject ms \<Rightarrow> Some (fold (\<lambda>(k, v) acc. acc(k \<mapsto> v)) ms m)
     | _ \<Rightarrow> None)"

section \<open>Lemmas\<close>

lemma go_float_to_int_in_int64: "in_int64 (go_float_to_int r)"
  by (simp add: go_float_to_int_def Let_def in_int64_def int64_min_def int64_max_def)

lemma decode_int_in_int64: "in_int64 cur \<Longrightarrow> decode_int j cur = Some i \<Longrightarrow> in_int64 i"
  by (auto simp: decode_int_def split: json.splits if_splits)

lemma go_float_to_int_of_int: "in_int64 i \<Longrightarrow> go_float_to_int (of_int i) = i"
  by (simp add: go_float_to_int_def Let_def)

lemma is_float64I:
  assumes "-1074 \<le> e" "e \<le> 971" "\<bar>m\<bar> < 2 ^ 53" "f = of_int m * 2 powi e"
  shows "is_float64 f"
proof -
  have "f * 2 powi (- e) = of_int m"
    using assms(4) by (simp add: power_int_minus_mult power_int_add[symmetric] mult.assoc)
  moreover have "\<bar>(of_int m :: rat)\<bar> < 2 ^ 53"
    using assms(3) by (metis of_int_abs of_int_less_iff of_int_numeral of_int_power)
  ultimately show ?thesis
    unfolding is_float64_def list_ex_iff set_upto
    by (intro bexI[of _ e]) (use assms(1,2) in \<open>simp_all add: Let_def\<close>)
qed

lemma fold_upd_lookup:
  "fold (\<lambda>(k, v) acc. acc(k \<mapsto> v)) ms m k =
     (case filter (\<lambda>(k', _). k' = k) (rev ms) of [] \<Rightarrow> m k | (_, v) # _ \<Rightarrow> Some v)"
  by (induction ms arbitrary: m) (auto split: list.splits)

end
