(* ===== verification/Crud.thy ===== *)
theory Crud
  imports Xid Json
begin

text \<open>
  The interface between the handlers and a manager, package \<open>crud\<close>
  (\<open>src/mgr.go\<close>, \<open>src/updates.go\<close>), and the error responses of
  \<open>github.com/induzo/gohttperror\<close> that the handlers render.

  \<open>MgrI\<close> is modelled as a record of operations over a manager state \<open>'s\<close>,
  with the entity value \<open>'e\<close> decoded from the request, the \<open>interface{}\<close>
  results \<open>'v\<close> the handlers serialise, and the manager's error type \<open>'err\<close>.
  Each operation returns Go's \<open>(value, error)\<close> pair as a sum (\<open>Inl\<close> the error:
  the handlers never read the value when the error is not nil) and the new state.
  \<open>PartialUpdate\<close> may panic, so its result is a \<^typ>\<open>'a go\<close>, beside the state
  the manager has reached when it panics. \<open>Update\<close> takes the entity as an option:
  the \<open>interface{}\<close> the PUT handler passes is nil after decoding \<open>null\<close>. The request
  \<open>context.Context\<close> is not modelled.
\<close>

section \<open>Error values and error responses\<close>

text \<open>
  A Go \<open>error\<close> as the responses carry it: its \<open>Error()\<close> text, or an error
  of \<open>encoding/json\<close> (whose text is the library's and is not modelled).
\<close>

datatype go_err = GoError string | JsonError

text \<open>\<open>gohttperror.ErrResponse\<close>: the status written and the error it wraps.\<close>

record err_response =
  http_status_code :: nat
  err_value :: "go_err option"

definition err_bad_request :: "go_err \<Rightarrow> err_response" where
  "err_bad_request e = \<lparr>http_status_code = 400, err_value = Some e\<rparr>"

definition err_not_found :: err_response where
  "err_not_found = \<lparr>http_status_code = 404, err_value = None\<rparr>"

definition err_forbidden :: "go_err \<Rightarrow> err_response" where
  "err_forbidden e = \<lparr>http_status_code = 403, err_value = Some e\<rparr>"

definition err_internal :: "go_err \<Rightarrow> err_response" where
  "err_internal e = \<lparr>http_status_code = 500, err_value = Some e\<rparr>"

section \<open>Payload types\<close>

text \<open>\<open>PartialUpdateData map[string]interface{}\<close>: a merge-patch document.\<close>

type_synonym partial_update_data = "string \<rightharpoonup> json"

text \<open>\<open>ListModifiers\<close>: query keys to their values, in the order they appeared.\<close>

type_synonym list_modifiers = "string \<rightharpoonup> string list"

section \<open>The manager interface\<close>

text \<open>
  \<open>MgrI\<close>, one field per method, plus two things the handlers use of a manager
  that Go provides implicitly: the \<open>Error()\<close> of its error values, and
  \<open>encoding/json\<close>'s decoding into the entity type (by reflection over the
  struct returned by \<open>NewEmptyEntity\<close>; \<open>None\<close> is a decoding error).
\<close>

record ('s, 'e, 'v, 'err) mgr_i =
  new_empty_entity :: 'e
  create :: "'e \<Rightarrow> string \<Rightarrow> 's \<Rightarrow> ('err + 'v) \<times> 's"
  delete :: "xid \<Rightarrow> 's \<Rightarrow> 'err option \<times> 's"
  get :: "xid \<Rightarrow> 's \<Rightarrow> ('err + 'v) \<times> 's"
  get_list :: "list_modifiers \<Rightarrow> 's \<Rightarrow> ('err + 'v) \<times> 's"
  update :: "xid \<Rightarrow> 'e option \<Rightarrow> string \<Rightarrow> 's \<Rightarrow> ('err + 'v) \<times> 's"
  partial_update :: "xid \<Rightarrow> partial_update_data \<Rightarrow> string \<Rightarrow> 's \<Rightarrow> 'err option go \<times> 's"
  map_error_to_http_error :: "'err \<Rightarrow> err_response"
  error_value :: "'err \<Rightarrow> go_err"
  decode_entity :: "json \<Rightarrow> 'e \<Rightarrow> 'e option"

section \<open>Lemmas\<close>

lemma err_codes [simp]:
  "http_status_code (err_bad_request e) = 400" "http_status_code err_not_found = 404"
  "http_status_code (err_forbidden e) = 403" "http_status_code (err_internal e) = 500"
  by (simp_all add: err_bad_request_def err_not_found_def err_forbidden_def err_internal_def)

end
