(* ===== verification/Url.thy ===== *)
theory Url
  imports Crud "HOL-Library.While_Combinator"
begin

text \<open>
  \<open>url.URL.Query()\<close> of \<open>net/url\<close>, which \<open>ListModifiersFromURL\<close>
  (\<open>src/rest/listmodifiers.go\<close>) reads: \<open>ParseQuery\<close> of the raw query with its
  error dropped. The library is not under \<open>src/\<close>; it is modelled from its source:
  the query is cut at each \<open>&\<close>, a piece holding \<open>;\<close> or empty is skipped, the
  rest is cut at the first \<open>=\<close> and both halves are unescaped
  (\<open>QueryUnescape\<close>: \<open>%XY\<close> is a byte, \<open>+\<close> a space, a malformed escape an
  error that skips the piece); each value is appended to its key's list. A
  reference parser that splits the query first is proved equal to the loop
  (\<open>parse_query_loop_pairs\<close>), which gives the values of each key in order
  (\<open>query_values\<close>). Go's loop itself, one iteration at a time under
  \<^term>\<open>while_option\<close> (\<open>parse_query_while\<close>), stops on every query, having
  consumed it, with the same map (\<open>parse_query_while_query\<close>).
\<close>

section \<open>Unescaping\<close>

text \<open>\<open>unhex\<close>: the value of a hexadecimal digit, if the character is one.\<close>

definition unhex :: "char \<Rightarrow> nat option" where
  "unhex c =
    (let n = of_char c :: nat
     in if 48 \<le> n \<and> n \<le> 57 then Some (n - 48)
        else if 97 \<le> n \<and> n \<le> 102 then Some (n - 87)
        else if 65 \<le> n \<and> n \<le> 70 then Some (n - 55)
        else None)"

text \<open>\<open>unescape(s, encodeQueryComponent)\<close>: \<open>None\<close> is the \<open>EscapeError\<close>.\<close>

fun query_unescape :: "string \<Rightarrow> string option" where
  "query_unescape [] = Some []"
| "query_unescape (c # cs) =
    (if c = CHR ''%'' then
       (case cs of
          h1 # h2 # rest \<Rightarrow>
            (case (unhex h1, unhex h2) of
               (Some a, Some b) \<Rightarrow> map_option (Cons (char_of (16 * a + b))) (query_unescape rest)
             | _ \<Rightarrow> None)
        | _ \<Rightarrow> None)
     else if c = CHR ''+'' then map_option (Cons CHR '' '') (query_unescape cs)
     else map_option (Cons c) (query_unescape cs))"

section \<open>Parsing\<close>

text \<open>\<open>strings.Cut(s, sep)\<close>: the text before the first \<open>sep\<close>, the text after it, and whether there was one.\<close>

definition cut :: "char \<Rightarrow> string \<Rightarrow> string \<times> string \<times> bool" where
  "cut sep s =
    (let before = takeWhile (\<lambda>c. c \<noteq> sep) s
     in (before, drop (Suc (length before)) s, sep \<in> set s))"

text \<open>The loop of \<open>parseQuery(m, query)\<close>, one piece per call.\<close>

function parse_query_loop :: "string \<Rightarrow> list_modifiers \<Rightarrow> list_modifiers" where
  "parse_query_loop query m =
    (if query = [] then m
     else
       (let (key, rest, _) = cut CHR ''&'' query
        in if CHR '';'' \<in> set key then parse_query_loop rest m
           else if key = [] then parse_query_loop rest m
           else
             (let (k, v, _) = cut CHR ''='' key
              in case (query_unescape k, query_unescape v) of
                   (Some k', Some v') \<Rightarrow>
                     parse_query_loop rest (m(k' \<mapsto> (case m k' of None \<Rightarrow> [] | Some vs \<Rightarrow> vs) @ [v']))
                 | _ \<Rightarrow> parse_query_loop rest m)))"
  by pat_completeness auto

termination
  by (relation "measure (\<lambda>(q, m). length q)") (auto simp: cut_def Let_def)

declare parse_query_loop.simps [simp del]

text \<open>\<open>u.Query()\<close>: the values parsed from the raw query into an empty map.\<close>

definition query :: "string \<Rightarrow> list_modifiers" where
  "query raw = parse_query_loop raw Map.empty"

section \<open>The loop as Go writes it\<close>

text \<open>
  \<open>for query != "" { ... }\<close>: one iteration of the body on the remaining query
  and the map, run by \<open>while_option\<close> from the raw query and an empty map.
\<close>

definition parse_query_body :: "string \<times> list_modifiers \<Rightarrow> string \<times> list_modifiers" where
  "parse_query_body st =
    (let (q, m) = st; (key, rest, _) = cut CHR ''&'' q
     in if CHR '';'' \<in> set key then (rest, m)
        else if key = [] then (rest, m)
        else
          (let (k, v, _) = cut CHR ''='' key
           in case (query_unescape k, query_unescape v) of
                (Some k', Some v') \<Rightarrow> (rest, m(k' \<mapsto> (case m k' of None \<Rightarrow> [] | Some vs \<Rightarrow> vs) @ [v']))
              | _ \<Rightarrow> (rest, m)))"

definition parse_query_while :: "string \<Rightarrow> (string \<times> list_modifiers) option" where
  "parse_query_while raw = while_option (\<lambda>(q, m). q \<noteq> []) parse_query_body (raw, Map.empty)"

section \<open>A reference parser\<close>

text \<open>
  The same query read the other way round: split it at every \<open>&\<close>, turn each
  piece into a key and a value (or nothing), then append each value to its key's
  list. The loop above is proved equal to it.
\<close>

primrec split_amp :: "string \<Rightarrow> string list" where
  "split_amp [] = [[]]"
| "split_amp (c # cs) =
    (if c = CHR ''&'' then [] # split_amp cs else (c # hd (split_amp cs)) # tl (split_amp cs))"

definition piece_pair :: "string \<Rightarrow> (string \<times> string) option" where
  "piece_pair p =
    (if CHR '';'' \<in> set p \<or> p = [] then None
     else (let (k, v, _) = cut CHR ''='' p
           in case (query_unescape k, query_unescape v) of
                (Some k', Some v') \<Rightarrow> Some (k', v')
              | _ \<Rightarrow> None))"

definition query_pairs :: "string \<Rightarrow> (string \<times> string) list" where
  "query_pairs raw = List.map_filter piece_pair (split_amp raw)"

definition add_pair :: "string \<times> string \<Rightarrow> list_modifiers \<Rightarrow> list_modifiers" where
  "add_pair kv m = m(fst kv \<mapsto> (case m (fst kv) of None \<Rightarrow> [] | Some vs \<Rightarrow> vs) @ [snd kv])"

section \<open>An example\<close>

lemma char_of_space: "char_of (32::nat) = CHR '' ''"
  by code_simp

text \<open>The query of the test case \<open>same querystring param name\<close> of \<open>listmodifiers_test.go\<close>.\<close>

lemma query_orderby_example:
  "query ''orderby=test%20ASC&orderby=pol%20DESC'' = [''orderby'' \<mapsto> [''test ASC'', ''pol DESC'']]"
  by (simp add: query_def parse_query_loop.simps cut_def unhex_def char_of_space)

section \<open>The loop against the reference\<close>

lemma parse_query_loop_nil [simp]: "parse_query_loop [] m = m"
  by (simp add: parse_query_loop.simps)

lemma split_amp_nonempty: "split_amp q \<noteq> []"
  by (induction q) auto

lemma split_amp_cut:
  "split_amp q = takeWhile (\<lambda>c. c \<noteq> CHR ''&'') q #
     (if CHR ''&'' \<in> set q then split_amp (drop (Suc (length (takeWhile (\<lambda>c. c \<noteq> CHR ''&'') q))) q) else [])"
proof (induction q)
  case (Cons c cs)
  show ?case
  proof (cases "c = CHR ''&''")
    case False
    then show ?thesis using Cons split_amp_nonempty[of cs] by (cases "split_amp cs") auto
  qed simp
qed simp

lemma piece_pair_nil [simp]: "piece_pair [] = None"
  by (simp add: piece_pair_def)

lemma query_pairs_nil [simp]: "query_pairs [] = []"
  by (simp add: query_pairs_def List.map_filter_simps)

lemma query_pairs_cut:
  assumes "q \<noteq> []" and "cut CHR ''&'' q = (key, rest, found)"
  shows "query_pairs q = (case piece_pair key of None \<Rightarrow> [] | Some kv \<Rightarrow> [kv]) @ query_pairs rest"
proof -
  have key: "key = takeWhile (\<lambda>c. c \<noteq> CHR ''&'') q"
    and rest: "rest = drop (Suc (length key)) q" using assms(2) by (auto simp: cut_def Let_def)
  have "CHR ''&'' \<notin> set q \<Longrightarrow> rest = []"
  proof -
    assume "CHR ''&'' \<notin> set q"
    then have "takeWhile (\<lambda>c. c \<noteq> CHR ''&'') q = q" by (subst takeWhile_eq_all_conv) blast
    with key have "key = q" by (rule trans)
    then show "rest = []" using rest by simp
  qed
  then show ?thesis
    using split_amp_cut[of q] key rest
    by (cases "CHR ''&'' \<in> set q") (auto simp: query_pairs_def List.map_filter_simps split: option.splits)
qed

lemma cut_rest_shorter: "q \<noteq> [] \<Longrightarrow> cut c q = (key, rest, found) \<Longrightarrow> length rest < length q"
  by (auto simp: cut_def Let_def)

lemma parse_query_loop_pairs: "parse_query_loop q m = fold add_pair (query_pairs q) m"
proof (induction "length q" arbitrary: q m rule: less_induct)
  case less
  show ?case
  proof (cases "q = []")
    case False
    obtain key rest found where c: "cut CHR ''&'' q = (key, rest, found)" by (cases "cut CHR ''&'' q") auto
    obtain k v f where kv: "cut CHR ''='' key = (k, v, f)" by (cases "cut CHR ''='' key") auto
    have IH: "parse_query_loop rest m' = fold add_pair (query_pairs rest) m'" for m'
      using less cut_rest_shorter[OF False c] by blast
    show ?thesis
      using False c kv IH query_pairs_cut[OF False c]
      by (subst parse_query_loop.simps)
         (auto simp: piece_pair_def add_pair_def split: option.splits)
  qed simp
qed

lemma fold_add_pair:
  "fold add_pair ps m k =
     (if [v. (k', v) \<leftarrow> ps, k' = k] = [] then m k
      else Some ((case m k of None \<Rightarrow> [] | Some vs \<Rightarrow> vs) @ [v. (k', v) \<leftarrow> ps, k' = k]))"
  by (induction ps arbitrary: m) (auto simp: add_pair_def split: option.splits)

lemma query_values:
  "query raw k = (if [v. (k', v) \<leftarrow> query_pairs raw, k' = k] = [] then None
                  else Some [v. (k', v) \<leftarrow> query_pairs raw, k' = k])"
  by (simp only: query_def parse_query_loop_pairs fold_add_pair) simp

lemma query_premier_example: "query ''premier=1'' = [''premier'' \<mapsto> [''1'']]"
  by (simp add: query_def parse_query_loop.simps cut_def unhex_def)

section \<open>The Go loop\<close>

lemma parse_query_body_shorter:
  "q \<noteq> [] \<Longrightarrow> length (fst (parse_query_body (q, m))) < length q"
  using cut_rest_shorter[of q "CHR ''&''"]
  by (auto simp: parse_query_body_def Let_def split: prod.splits option.splits)

lemma parse_query_body_loop:
  "q \<noteq> [] \<Longrightarrow> parse_query_loop q m = parse_query_loop (fst (parse_query_body (q, m))) (snd (parse_query_body (q, m)))"
  by (subst parse_query_loop.simps)
     (simp add: parse_query_body_def Let_def split: prod.splits option.splits)

lemma parse_query_while_query: "parse_query_while raw = Some ([], query raw)"
proof -
  let ?b = "\<lambda>(q, m). q \<noteq> ([] :: string)"
  have "\<exists>st. while_option ?b parse_query_body (raw, Map.empty) = Some st"
    by (rule measure_while_option_Some[where P = "\<lambda>_. True" and f = "\<lambda>st. length (fst st)"])
       (auto simp: parse_query_body_shorter)
  then obtain st where w: "while_option ?b parse_query_body (raw, Map.empty) = Some st" by blast
  have inv: "parse_query_loop (fst st) (snd st) = query raw"
    by (rule while_option_rule[OF _ w]) (auto simp: query_def parse_query_body_loop)
  have stop: "fst st = []" using while_option_stop[OF w] by (cases st) simp
  then have "snd st = query raw" using inv by simp
  then show ?thesis using w stop by (cases st) (simp add: parse_query_while_def)
qed

end
