(* ===== verification/Rest.thy ===== *)
theory Rest
  imports Url
begin

text \<open>
  Package \<open>rest\<close> (\<open>src/rest/parseid.go\<close>, \<open>src/rest/listmodifiers.go\<close>,
  \<open>src/rest/handler.go\<close>): the six handlers, each a function of a manager, a
  request and the manager's state, giving the response written and the new state.
  A handler holds no state of its own; everything it changes is the manager's.
  The render layer (\<open>render.Render\<close>, \<open>render.DefaultResponder\<close>) is modelled
  by the response it produces: the status code and the body (the value serialised,
  the error response, or none). The \<open>log.Fatalf\<close> on a failed render is not
  modelled: rendering an error response into a response writer does not fail in the
  model.
\<close>

section \<open>Requests and responses\<close>

text \<open>
  What a handler reads of an \<open>*http.Request\<close>: the \<open>ID\<close> path parameter
  (\<open>chi.URLParam(r, "ID")\<close>, empty when absent), the raw query, the order in which
  Go's map iteration visits the keys of \<open>u.Query()\<close> (chosen by the runtime), the
  body's bytes, and the first JSON value of the body (\<open>None\<close> when the decoder
  fails on it: malformed or empty input).
\<close>

record request =
  url_id :: string
  raw_query :: string
  query_order :: "string list"
  body :: string
  body_json :: "json option"

datatype 'v resp_body = NoBody | JsonBody 'v | ErrBody err_response

record 'v http_response =
  status :: nat
  payload :: "'v resp_body"

text \<open>\<open>render.Render(w, r, e)\<close> of an \<open>*ErrResponse\<close>: its status and the error document.\<close>

definition render_error :: "err_response \<Rightarrow> 'v http_response" where
  "render_error e = \<lparr>status = http_status_code e, payload = ErrBody e\<rparr>"

section \<open>Identifier and list modifiers\<close>

text \<open>
  \<open>parseIDFromRequest\<close>: \<open>xid.FromString\<close> of the path parameter; an error or
  the nil identifier fails with the message
  \<open>fmt.Errorf("parseIDFromRequest(%s): %v", idStr, errConv)\<close> (\<open><nil>\<close> when the
  parse succeeded on the nil identifier). The \<open>xid.NilID()\<close> returned beside the
  error is never read.
\<close>

definition parse_id_from_request :: "request \<Rightarrow> go_err + xid" where
  "parse_id_from_request r =
    (let id_str = url_id r; (i, err_conv) = from_string id_str
     in if is_nil i \<or> err_conv \<noteq> None
        then Inl (GoError (''parseIDFromRequest('' @ id_str @ ''): '' @
                           (case err_conv of None \<Rightarrow> ''<nil>'' | Some _ \<Rightarrow> ''xid: invalid ID'')))
        else Inr i)"

text \<open>
  \<open>GetTestContextWithID\<close>: the request's context with a chi route context whose
  URL parameter \<open>ID\<close> is \<open>ID.String()\<close>.
\<close>

definition get_test_context_with_id :: "request \<Rightarrow> xid \<Rightarrow> request" where
  "get_test_context_with_id r x = r\<lparr>url_id := encode x\<rparr>"

text \<open>
  \<open>ListModifiersFromURL\<close>: a fresh map, then \<open>rf[k] = v\<close> for each key of
  \<open>u.Query()\<close> in the order the range loop visits them.
\<close>

definition list_modifiers_from_url :: "request \<Rightarrow> list_modifiers" where
  "list_modifiers_from_url r =
    fold (\<lambda>k rf. rf(k := query (raw_query r) k)) (query_order r) Map.empty"

section \<open>Handlers\<close>

text \<open>
  \<open>POSTHandler\<close>: decode the body into \<open>NewEmptyEntity()\<close> (400 on failure),
  \<open>Create\<close> with the buffered payload (500 on error, whatever the error), then 201
  with the created value.
\<close>

definition post_handler ::
  "('s, 'e, 'v, 'err) mgr_i \<Rightarrow> request \<Rightarrow> 's \<Rightarrow> 'v http_response \<times> 's" where
  "post_handler m r s =
    (let ent = new_empty_entity m
     in case body_json r of
          None \<Rightarrow> (render_error (err_bad_request JsonError), s)
        | Some j \<Rightarrow>
            (case decode_entity m j ent of
               None \<Rightarrow> (render_error (err_bad_request JsonError), s)
             | Some ent' \<Rightarrow>
                 (case create m ent' (body r) s of
                    (Inl err, s') \<Rightarrow> (render_error (err_internal (error_value m err)), s')
                  | (Inr e, s') \<Rightarrow> (\<lparr>status = 201, payload = JsonBody e\<rparr>, s'))))"

text \<open>\<open>GETListHandler\<close>: \<open>GetList\<close> with the request's list modifiers; 200 with the list.\<close>

definition get_list_handler ::
  "('s, 'e, 'v, 'err) mgr_i \<Rightarrow> request \<Rightarrow> 's \<Rightarrow> 'v http_response \<times> 's" where
  "get_list_handler m r s =
    (case get_list m (list_modifiers_from_url r) s of
       (Inl err, s') \<Rightarrow> (render_error (map_error_to_http_error m err), s')
     | (Inr es, s') \<Rightarrow> (\<lparr>status = 200, payload = JsonBody es\<rparr>, s'))"

text \<open>\<open>GETHandler\<close>: parse the identifier (400), \<open>Get\<close> (mapped error), 200 with the entity.\<close>

definition get_handler ::
  "('s, 'e, 'v, 'err) mgr_i \<Rightarrow> request \<Rightarrow> 's \<Rightarrow> 'v http_response \<times> 's" where
  "get_handler m r s =
    (case parse_id_from_request r of
       Inl e \<Rightarrow> (render_error (err_bad_request e), s)
     | Inr i \<Rightarrow>
         (case get m i s of
            (Inl err, s') \<Rightarrow> (render_error (map_error_to_http_error m err), s')
          | (Inr e, s') \<Rightarrow> (\<lparr>status = 200, payload = JsonBody e\<rparr>, s')))"

text \<open>\<open>DELETEHandler\<close>: parse the identifier (400), \<open>Delete\<close> (mapped error), 202 with no body.\<close>

definition delete_handler ::
  "('s, 'e, 'v, 'err) mgr_i \<Rightarrow> request \<Rightarrow> 's \<Rightarrow> 'v http_response \<times> 's" where
  "delete_handler m r s =
    (case parse_id_from_request r of
       Inl e \<Rightarrow> (render_error (err_bad_request e), s)
     | Inr i \<Rightarrow>
         (case delete m i s of
            (Some err, s') \<Rightarrow> (render_error (map_error_to_http_error m err), s')
          | (None, s') \<Rightarrow> (\<lparr>status = 202, payload = NoBody\<rparr>, s')))"

text \<open>
  \<open>PUTHandler\<close>: parse the identifier (400), decode the body into \<open>&ent\<close>, the
  address of the interface holding \<open>NewEmptyEntity()\<close> (400): \<open>null\<close> sets the
  interface itself to nil (\<open>None\<close>), any other value decodes into the entity it
  points to; \<open>Update\<close> (mapped error), then 200 with the result.
\<close>

definition decode_into_interface :: "('s, 'e, 'v, 'err) mgr_i \<Rightarrow> json \<Rightarrow> 'e \<Rightarrow> 'e option option" where
  "decode_into_interface m j ent =
    (if j = JNull then Some None else map_option Some (decode_entity m j ent))"

definition put_handler ::
  "('s, 'e, 'v, 'err) mgr_i \<Rightarrow> request \<Rightarrow> 's \<Rightarrow> 'v http_response \<times> 's" where
  "put_handler m r s =
    (case parse_id_from_request r of
       Inl e \<Rightarrow> (render_error (err_bad_request e), s)
     | Inr i \<Rightarrow>
         (let ent = new_empty_entity m
          in case body_json r of
               None \<Rightarrow> (render_error (err_bad_request JsonError), s)
             | Some j \<Rightarrow>
                 (case decode_into_interface m j ent of
                    None \<Rightarrow> (render_error (err_bad_request JsonError), s)
                  | Some ent' \<Rightarrow>
                      (case update m i ent' (body r) s of
                         (Inl err, s') \<Rightarrow> (render_error (map_error_to_http_error m err), s')
                       | (Inr e, s') \<Rightarrow> (\<lparr>status = 200, payload = JsonBody e\<rparr>, s')))))"

text \<open>
  \<open>PATCHHandler\<close>: parse the identifier (400), decode the body into a fresh
  \<open>PartialUpdateData{}\<close> (400), \<open>PartialUpdate\<close> (mapped error), then 204 with
  no body. A panic of the manager propagates: no response is written.
\<close>

definition patch_handler ::
  "('s, 'e, 'v, 'err) mgr_i \<Rightarrow> request \<Rightarrow> 's \<Rightarrow> 'v http_response go \<times> 's" where
  "patch_handler m r s =
    (case parse_id_from_request r of
       Inl e \<Rightarrow> (Returns (render_error (err_bad_request e)), s)
     | Inr i \<Rightarrow>
         (case body_json r of
            None \<Rightarrow> (Returns (render_error (err_bad_request JsonError)), s)
          | Some j \<Rightarrow>
              (case decode_object_map j Map.empty of
                 None \<Rightarrow> (Returns (render_error (err_bad_request JsonError)), s)
               | Some updates \<Rightarrow>
                   (case partial_update m i updates (body r) s of
                      (Panics msg, s') \<Rightarrow> (Panics msg, s')
                    | (Returns (Some err), s') \<Rightarrow> (Returns (render_error (map_error_to_http_error m err)), s')
                    | (Returns None, s') \<Rightarrow> (Returns \<lparr>status = 204, payload = NoBody\<rparr>, s')))))"

section \<open>Status codes\<close>

text \<open>The codes a manager's \<open>MapErrorToHTTPError\<close> produces lie in \<open>C\<close>.\<close>

definition codes_within :: "('s, 'e, 'v, 'err) mgr_i \<Rightarrow> nat set \<Rightarrow> bool" where
  "codes_within m C \<longleftrightarrow> (\<forall>err. http_status_code (map_error_to_http_error m err) \<in> C)"

text \<open>
  A response as the handlers write it is well formed when an error document carries
  the status it is written with, a JSON body comes with 200 or 201, and an empty
  body with 202 or 204.
\<close>

definition resp_wf :: "'v http_response \<Rightarrow> bool" where
  "resp_wf p =
    (case payload p of
       ErrBody e \<Rightarrow> status p = http_status_code e
     | JsonBody _ \<Rightarrow> status p \<in> {200, 201}
     | NoBody \<Rightarrow> status p \<in> {202, 204})"

lemma render_error_status [simp]: "status (render_error e) = http_status_code e"
  by (simp add: render_error_def)

section \<open>Parsing the identifier\<close>

lemma parse_id_from_request_encode:
  "length x = raw_len \<Longrightarrow> \<not> is_nil x \<Longrightarrow> url_id r = encode x \<Longrightarrow> parse_id_from_request r = Inr x"
  by (simp add: parse_id_from_request_def from_string_encode)

lemma parse_id_from_request_ok:
  assumes "parse_id_from_request r = Inr x"
  shows "length x = raw_len \<and> \<not> is_nil x \<and> url_id r = encode x"
proof -
  obtain i err where fs: "from_string (url_id r) = (i, err)" by fastforce
  with assms have "err = None" and "i = x" and "\<not> is_nil x"
    by (auto simp: parse_id_from_request_def Let_def split: if_splits)
  with fs show ?thesis using from_string_canonical from_string_length by metis
qed

text \<open>
  C1: \<open>parseIDFromRequest\<close> accepts exactly the text forms of the non-nil
  identifiers: it returns \<open>x\<close> if and only if the path parameter is
  \<open>x.String()\<close> and \<open>x\<close> is not the nil identifier. Every other parameter (empty,
  of the wrong length, outside the alphabet, non-canonical, or the nil identifier's
  text) is an error.
\<close>

theorem parse_id_from_request_iff:
  "parse_id_from_request r = Inr x \<longleftrightarrow>
     length x = raw_len \<and> \<not> is_nil x \<and> url_id r = encode x"
  using parse_id_from_request_ok parse_id_from_request_encode by blast

theorem parse_id_from_request_iff_witness:
  "parse_id_from_request
     \<lparr>url_id = encode [1, 0, 0, 0, 0, 0, 0, 0, 0, 0, 0, 0], raw_query = [], query_order = [],
      body = [], body_json = None\<rparr> = Inr [1, 0, 0, 0, 0, 0, 0, 0, 0, 0, 0, 0]"
  using parse_id_from_request_iff
    [of "\<lparr>url_id = encode [1, 0, 0, 0, 0, 0, 0, 0, 0, 0, 0, 0], raw_query = [], query_order = [],
          body = [], body_json = None\<rparr>" "[1, 0, 0, 0, 0, 0, 0, 0, 0, 0, 0, 0]"]
  by (simp add: raw_len_def is_nil_def nil_id_bytes)

text \<open>
  C2: a path parameter of the wrong length (the empty one included) fails with the
  message \<open>parseIDFromRequest(<param>): xid: invalid ID\<close>.
\<close>

theorem parse_id_wrong_length:
  assumes "length (url_id r) \<noteq> encoded_len"
  shows "parse_id_from_request r =
           Inl (GoError (''parseIDFromRequest('' @ url_id r @ ''): xid: invalid ID''))"
  using assms by (simp add: parse_id_from_request_def from_string_wrong_length)

theorem parse_id_wrong_length_witness:
  "length ''abc'' \<noteq> encoded_len \<and>
   parse_id_from_request \<lparr>url_id = ''abc'', raw_query = [], query_order = [], body = [], body_json = None\<rparr> =
     Inl (GoError ''parseIDFromRequest(abc): xid: invalid ID'')"
  using parse_id_wrong_length
    [of "\<lparr>url_id = ''abc'', raw_query = [], query_order = [], body = [], body_json = None\<rparr>"]
  by (simp add: encoded_len_def)

section \<open>Handlers\<close>

text \<open>
  C3: a malformed identifier never reaches the manager: each of the four handlers on
  \<open>/{ID}\<close> answers 400 with the parse error and leaves the manager's state as it
  was, for every manager.
\<close>

theorem id_handlers_reject_bad_id:
  assumes "parse_id_from_request r = Inl e"
  shows "get_handler m r s = (\<lparr>status = 400, payload = ErrBody (err_bad_request e)\<rparr>, s)
       \<and> delete_handler m r s = (\<lparr>status = 400, payload = ErrBody (err_bad_request e)\<rparr>, s)
       \<and> put_handler m r s = (\<lparr>status = 400, payload = ErrBody (err_bad_request e)\<rparr>, s)
       \<and> patch_handler m r s = (Returns \<lparr>status = 400, payload = ErrBody (err_bad_request e)\<rparr>, s)"
  using assms
  by (simp add: get_handler_def delete_handler_def put_handler_def patch_handler_def render_error_def)

text \<open>
  C4: the status codes of the six handlers are those of the interface table: for a
  manager whose error mapping yields codes in \<open>C\<close>, POST answers 201, 400 or 500
  (its create errors are never mapped), and each other handler answers its success
  code, 400 where it parses an identifier or a body, or a code of \<open>C\<close>.
\<close>

theorem handler_status_codes:
  assumes "codes_within m C"
  shows "status (fst (post_handler m r s)) \<in> {201, 400, 500}
       \<and> status (fst (get_list_handler m r s)) \<in> insert 200 C
       \<and> status (fst (get_handler m r s)) \<in> {200, 400} \<union> C
       \<and> status (fst (delete_handler m r s)) \<in> {202, 400} \<union> C
       \<and> status (fst (put_handler m r s)) \<in> {200, 400} \<union> C
       \<and> (case fst (patch_handler m r s) of
            Returns resp \<Rightarrow> status resp \<in> {204, 400} \<union> C
          | Panics _ \<Rightarrow> True)"
  using assms
  by (auto simp: codes_within_def post_handler_def get_list_handler_def get_handler_def
      delete_handler_def put_handler_def patch_handler_def Let_def
      split: option.splits sum.splits prod.splits go.splits)

section \<open>List modifiers\<close>

lemma list_modifiers_from_url_restrict:
  "list_modifiers_from_url r k = (if k \<in> set (query_order r) then query (raw_query r) k else None)"
  by (simp add: list_modifiers_from_url_def fold_upd_restrict)


text \<open>
  C14: \<open>ListModifiersFromURL\<close> returns \<open>u.Query()\<close>: whatever order the
  range loop visits the keys in, as long as it visits each key of the query, the
  copy holds every key with its values in the order they appear in the URL.
\<close>

theorem list_modifiers_from_url_query:
  assumes "dom (query (raw_query r)) \<subseteq> set (query_order r)"
  shows "list_modifiers_from_url r = query (raw_query r)"
proof -
  have "k \<notin> set (query_order r) \<Longrightarrow> query (raw_query r) k = None" for k using assms by blast
  then show ?thesis by (auto simp: list_modifiers_from_url_def fold_upd_restrict fun_eq_iff)
qed

theorem list_modifiers_from_url_query_witness:
  "list_modifiers_from_url \<lparr>url_id = [], raw_query = ''orderby=test%20ASC&orderby=pol%20DESC'',
       query_order = [''orderby''], body = [], body_json = None\<rparr> =
     [''orderby'' \<mapsto> [''test ASC'', ''pol DESC'']]"
  using list_modifiers_from_url_query[of "\<lparr>url_id = [], raw_query = ''orderby=test%20ASC&orderby=pol%20DESC'',
       query_order = [''orderby''], body = [], body_json = None\<rparr>"]
  by (simp add: query_orderby_example)

section \<open>Responses\<close>

lemma resp_wf_render [simp]: "resp_wf (render_error e)"
  by (simp add: resp_wf_def render_error_def)

lemma resp_wf_success [simp]:
  "resp_wf \<lparr>status = 200, payload = JsonBody v\<rparr>" "resp_wf \<lparr>status = 201, payload = JsonBody v\<rparr>"
  "resp_wf \<lparr>status = 202, payload = NoBody\<rparr>" "resp_wf \<lparr>status = 204, payload = NoBody\<rparr>"
  by (simp_all add: resp_wf_def)

text \<open>
  C17: every response any of the six handlers writes is well formed, for every
  manager: an error document always carries the status it is written with, and a
  success has the code of the handler's table.
\<close>

theorem handler_responses_wf:
  "resp_wf (fst (post_handler m r s)) \<and> resp_wf (fst (get_list_handler m r s))
   \<and> resp_wf (fst (get_handler m r s)) \<and> resp_wf (fst (delete_handler m r s))
   \<and> resp_wf (fst (put_handler m r s))
   \<and> (case fst (patch_handler m r s) of Returns p \<Rightarrow> resp_wf p | Panics _ \<Rightarrow> True)"
  by (intro conjI)
     (simp_all add: post_handler_def get_list_handler_def get_handler_def delete_handler_def
        put_handler_def patch_handler_def Let_def
        split: option.splits sum.splits prod.splits go.splits)

section \<open>The test helper\<close>

text \<open>
  C18: \<open>GetTestContextWithID\<close> and \<open>parseIDFromRequest\<close> agree: the handlers
  parse back the identifier the helper puts into a request, except the nil
  identifier, refused with the message \<open>parseIDFromRequest(00000000000000000000): <nil>\<close>.
\<close>

theorem parse_test_context_with_id:
  assumes "length x = raw_len"
  shows "parse_id_from_request (get_test_context_with_id r x) =
           (if is_nil x then Inl (GoError ''parseIDFromRequest(00000000000000000000): <nil>'') else Inr x)"
proof (cases "is_nil x")
  case True
  then have "x = nil_id" by (simp add: is_nil_def)
  then show ?thesis
    using from_string_encode[of nil_id]
    by (simp add: parse_id_from_request_def get_test_context_with_id_def encode_nil_id is_nil_def)
next
  case False
  then show ?thesis using assms
    by (simp add: parse_id_from_request_encode get_test_context_with_id_def)
qed

theorem parse_test_context_with_id_witness:
  "parse_id_from_request
     (get_test_context_with_id \<lparr>url_id = [], raw_query = [], query_order = [], body = [], body_json = None\<rparr> nil_id)
   = Inl (GoError ''parseIDFromRequest(00000000000000000000): <nil>'')"
  using parse_test_context_with_id
    [of nil_id "\<lparr>url_id = [], raw_query = [], query_order = [], body = [], body_json = None\<rparr>"]
  by (simp add: is_nil_def)

text \<open>
  C24: \<open>ListModifiersFromURL\<close> keeps repeated keys with all their values in the
  order they appear in the URL, as spec.md (section 3) requires: the modifiers of
  a key are the values of the query's pieces with that key, in order, and a key
  with no such piece is absent.
\<close>

theorem list_modifiers_accumulate:
  assumes "dom (query (raw_query r)) \<subseteq> set (query_order r)"
  shows "list_modifiers_from_url r k =
           (if [v. (k', v) \<leftarrow> query_pairs (raw_query r), k' = k] = [] then None
            else Some [v. (k', v) \<leftarrow> query_pairs (raw_query r), k' = k])"
proof (cases "k \<in> set (query_order r)")
  case False
  then have "query (raw_query r) k = None" using assms by blast
  with False show ?thesis by (simp add: list_modifiers_from_url_restrict query_values split: if_splits)
qed (simp add: list_modifiers_from_url_restrict query_values)

theorem list_modifiers_accumulate_witness:
  "list_modifiers_from_url \<lparr>url_id = [], raw_query = ''premier=1'', query_order = [''premier''],
       body = [], body_json = None\<rparr> ''premier'' = Some [''1'']"
  using list_modifiers_accumulate[of "\<lparr>url_id = [], raw_query = ''premier=1'', query_order = [''premier''],
       body = [], body_json = None\<rparr>" "''premier''"]
  by (simp add: query_premier_example query_pairs_def piece_pair_def cut_def List.map_filter_simps)

end
