(* ===== verification/Mock.thy ===== *)
theory Mock
  imports Crud
begin

text \<open>
  The reference manager, package \<open>mock\<close> (\<open>src/mock/entity.go\<close>,
  \<open>src/mock/manager.go\<close>): an in-memory map from identifier to entity, with one
  flag per operation that makes it fail. Its state is the \<open>Mgr\<close> struct, together
  with what its methods read of the process: the xid generator, the clock that
  \<open>xid.New()\<close> reads, and the order in which Go's map iteration visits the store
  (chosen by the runtime; \<open>GetList\<close> returns the entities in that order). The store
  holds \<open>*Entity\<close> pointers; no pointer it hands out is written after the handler
  has serialised it, so the model stores entities by value (\<open>MockTest\<close> models the
  identical test double with pointers and proves the two indistinguishable through the
  handlers while no two keys share a pointer).
\<close>

section \<open>Entities and errors\<close>

text \<open>\<open>Entity\<close>, with its JSON field names \<open>id\<close> and \<open>status_id\<close>.\<close>

record entity =
  ID :: xid
  StatusID :: int

text \<open>
  The sentinel errors compared by identity in \<open>MapErrorToHTTPError\<close>, and the
  values of \<open>fmt.Errorf\<close>, each a fresh error equal to no sentinel.
\<close>

datatype mock_error = ErrNotFound | ErrBadRequest | ErrForbidden | ErrorF string

text \<open>The \<open>interface{}\<close> values the methods return: an entity, a list, or (from
  \<open>Update\<close>) the \<open>ErrBadRequest\<close> sentinel returned as a value.\<close>

datatype mock_value = VEntity entity | VList "entity list" | VError mock_error

record mgr =
  WantCreateError :: bool
  WantDeleteError :: bool
  WantGetError :: bool
  WantGetListError :: bool
  WantUpdateError :: bool
  WantPartialUpdateError :: bool
  EntityList :: "xid \<rightharpoonup> entity"

record mock_state =
  mgr :: mgr
  xgen :: xid_gen
  clock :: int
  range_order :: "xid set \<Rightarrow> xid list"

definition new_mgr :: mgr where
  "new_mgr =
    \<lparr>WantCreateError = False, WantDeleteError = False, WantGetError = False,
     WantGetListError = False, WantUpdateError = False, WantPartialUpdateError = False,
     EntityList = Map.empty\<rparr>"

definition new_empty_entity_mock :: entity where
  "new_empty_entity_mock = \<lparr>ID = nil_id, StatusID = 0\<rparr>"

definition set_entities :: "(xid \<rightharpoonup> entity) \<Rightarrow> mock_state \<Rightarrow> mock_state" where
  "set_entities es s = s\<lparr>mgr := (mgr s)\<lparr>EntityList := es\<rparr>\<rparr>"

section \<open>Methods\<close>

text \<open>
  \<open>Create\<close>: fails on the flag; otherwise assigns \<open>xid.New()\<close> to the entity and
  stores it under that identifier (overwriting any entity already there). The cast
  \<open>e.(*Entity)\<close> cannot fail here: the handlers pass what \<open>NewEmptyEntity\<close>
  returned.
\<close>

definition mock_create :: "entity \<Rightarrow> string \<Rightarrow> mock_state \<Rightarrow> (mock_error + mock_value) \<times> mock_state" where
  "mock_create e pl s =
    (if WantCreateError (mgr s) then (Inl (ErrorF ''Error create''), s)
     else
       (let (x, g') = new_with_time (clock s) (xgen s);
            ec = e\<lparr>ID := x\<rparr>
        in (Inr (VEntity ec), (set_entities ((EntityList (mgr s))(x \<mapsto> ec)) s)\<lparr>xgen := g'\<rparr>)))"

definition mock_delete :: "xid \<Rightarrow> mock_state \<Rightarrow> mock_error option \<times> mock_state" where
  "mock_delete i s =
    (if WantDeleteError (mgr s) then (Some (ErrorF ''Error delete''), s)
     else if EntityList (mgr s) i = None then (Some ErrNotFound, s)
     else (None, set_entities ((EntityList (mgr s))(i := None)) s))"

definition mock_get :: "xid \<Rightarrow> mock_state \<Rightarrow> (mock_error + mock_value) \<times> mock_state" where
  "mock_get i s =
    (if WantGetError (mgr s) then (Inl (ErrorF ''Error get''), s)
     else case EntityList (mgr s) i of
            Some e \<Rightarrow> (Inr (VEntity e), s)
          | None \<Rightarrow> (Inl ErrNotFound, s))"

text \<open>\<open>GetList\<close>: the modifiers are ignored; an empty store is \<open>ErrNotFound\<close>.\<close>

definition mock_get_list :: "list_modifiers \<Rightarrow> mock_state \<Rightarrow> (mock_error + mock_value) \<times> mock_state" where
  "mock_get_list lm s =
    (if WantGetListError (mgr s) then (Inl (ErrorF ''Error getlist''), s)
     else if go_len (EntityList (mgr s)) = 0 then (Inl ErrNotFound, s)
     else (Inr (VList (List.map_filter (EntityList (mgr s))
                         (range_order s (dom (EntityList (mgr s)))))), s))"

text \<open>
  \<open>Update\<close>: fails on the flag or an unknown identifier; a nil entity fails the
  cast \<open>newE.(*Entity)\<close>, which returns \<open>(ErrBadRequest, nil)\<close>: the error as
  the value and no error. Otherwise the new entity replaces the stored one, as it
  is: its \<open>ID\<close> field is whatever the request body gave.
\<close>

definition mock_update ::
  "xid \<Rightarrow> entity option \<Rightarrow> string \<Rightarrow> mock_state \<Rightarrow> (mock_error + mock_value) \<times> mock_state" where
  "mock_update i new_e pl s =
    (if WantUpdateError (mgr s) then (Inl (ErrorF ''Error update''), s)
     else if EntityList (mgr s) i = None then (Inl ErrNotFound, s)
     else case new_e of
            None \<Rightarrow> (Inr (VError ErrBadRequest), s)
          | Some e \<Rightarrow> (Inr (VEntity e), set_entities ((EntityList (mgr s))(i \<mapsto> e)) s))"

text \<open>
  \<open>PartialUpdate\<close>: fails on the flag, on a patch without \<open>status_id\<close>
  (\<open>ErrBadRequest\<close>, whatever the identifier) and on an unknown identifier; then
  \<open>int(pud["status_id"].(float64))\<close>: a JSON number is converted, any other value
  (string, boolean, \<open>null\<close>, object, array) fails the type assertion, which panics.
\<close>

definition mock_partial_update ::
  "xid \<Rightarrow> partial_update_data \<Rightarrow> string \<Rightarrow> mock_state \<Rightarrow> mock_error option go \<times> mock_state" where
  "mock_partial_update i pud pl s =
    (if WantPartialUpdateError (mgr s) then (Returns (Some (ErrorF ''Error partial update'')), s)
     else if pud ''status_id'' = None then (Returns (Some ErrBadRequest), s)
     else case EntityList (mgr s) i of
            None \<Rightarrow> (Returns (Some ErrNotFound), s)
          | Some e \<Rightarrow>
              (case pud ''status_id'' of
                 Some (JNumber f) \<Rightarrow>
                   (Returns None,
                    set_entities ((EntityList (mgr s))(i \<mapsto> e\<lparr>StatusID := go_float_to_int f\<rparr>)) s)
               | _ \<Rightarrow> (Panics ''interface conversion: interface {} is not float64'', s)))"

text \<open>\<open>Error()\<close> of each error value.\<close>

fun mock_error_value :: "mock_error \<Rightarrow> go_err" where
  "mock_error_value ErrNotFound = GoError ''entity not found''"
| "mock_error_value ErrBadRequest = GoError ''bad request''"
| "mock_error_value ErrForbidden = GoError ''forbidden''"
| "mock_error_value (ErrorF msg) = GoError msg"

text \<open>\<open>MapErrorToHTTPError\<close>: 404 and 403 for their sentinels, 500 for every other error.\<close>

fun mock_map_error_to_http_error :: "mock_error \<Rightarrow> err_response" where
  "mock_map_error_to_http_error ErrNotFound = err_not_found"
| "mock_map_error_to_http_error ErrForbidden = err_forbidden (mock_error_value ErrForbidden)"
| "mock_map_error_to_http_error e = err_internal (mock_error_value e)"

section \<open>Decoding a request body into an Entity\<close>

text \<open>
  \<open>encoding/json\<close> into \<open>*Entity\<close>: object members are matched to the fields by
  their tags, exactly or ignoring ASCII case (the Unicode case folding of
  \<open>encoding/json\<close> is not modelled); unknown members are ignored; \<open>null\<close> leaves
  the entity unchanged; any other value is a type error. The \<open>id\<close> field decodes
  through \<open>xid.ID.UnmarshalJSON\<close>: \<open>null\<close> is the nil identifier, a string goes
  through \<open>UnmarshalText\<close>.
\<close>

definition ascii_upper :: "string \<Rightarrow> string" where
  "ascii_upper s =
    map (\<lambda>c. let n = of_char c :: nat in if 97 \<le> n \<and> n \<le> 122 then char_of (n - 32) else c) s"

definition decode_xid_json :: "json \<Rightarrow> xid \<Rightarrow> xid option" where
  "decode_xid_json j cur =
    (case j of
       JNull \<Rightarrow> Some nil_id
     | JString s \<Rightarrow> (case unmarshal_text s cur of (x, None) \<Rightarrow> Some x | _ \<Rightarrow> None)
     | _ \<Rightarrow> None)"

definition decode_member :: "string \<times> json \<Rightarrow> entity \<Rightarrow> entity option" where
  "decode_member kv e =
    (let (k, v) = kv
     in if ascii_upper k = ''ID'' then map_option (\<lambda>x. e\<lparr>ID := x\<rparr>) (decode_xid_json v (ID e))
        else if ascii_upper k = ''STATUS_ID'' then map_option (\<lambda>n. e\<lparr>StatusID := n\<rparr>) (decode_int v (StatusID e))
        else Some e)"

fun decode_members :: "(string \<times> json) list \<Rightarrow> entity \<Rightarrow> entity option" where
  "decode_members [] e = Some e"
| "decode_members (kv # kvs) e = (case decode_member kv e of None \<Rightarrow> None | Some e' \<Rightarrow> decode_members kvs e')"

definition decode_entity_mock :: "json \<Rightarrow> entity \<Rightarrow> entity option" where
  "decode_entity_mock j e =
    (case j of
       JNull \<Rightarrow> Some e
     | JObject ms \<Rightarrow> decode_members ms e
     | _ \<Rightarrow> None)"

text \<open>
  \<open>encoding/json\<close> of an \<open>Entity\<close>, as \<open>render.JSON\<close> writes a response body:
  the members by their tags, in field order; \<open>xid.ID.MarshalJSON\<close> writes the
  nil identifier as \<open>null\<close> and any other as its text.
\<close>

definition entity_json :: "entity \<Rightarrow> json" where
  "entity_json e =
    JObject [(''id'', if is_nil (ID e) then JNull else JString (encode (ID e))),
             (''status_id'', JNumber (of_int (StatusID e)))]"

section \<open>The manager as an implementation of MgrI\<close>

definition mock_mgr :: "(mock_state, entity, mock_value, mock_error) mgr_i" where
  "mock_mgr =
    \<lparr>new_empty_entity = new_empty_entity_mock,
     create = mock_create,
     delete = mock_delete,
     get = mock_get,
     get_list = mock_get_list,
     update = mock_update,
     partial_update = mock_partial_update,
     map_error_to_http_error = mock_map_error_to_http_error,
     error_value = mock_error_value,
     decode_entity = decode_entity_mock\<rparr>"

section \<open>The store's invariant\<close>

text \<open>
  What every stored entity satisfies: a 12-byte key, a 12-byte \<open>ID\<close> field, and a
  \<open>StatusID\<close> that fits Go's \<open>int\<close>; the store is finite.
\<close>

definition wf_entity :: "entity \<Rightarrow> bool" where
  "wf_entity e \<longleftrightarrow> length (ID e) = raw_len \<and> in_int64 (StatusID e)"

definition wf_store :: "(xid \<rightharpoonup> entity) \<Rightarrow> bool" where
  "wf_store es \<longleftrightarrow> finite (dom es) \<and> (\<forall>k e. es k = Some e \<longrightarrow> length k = raw_len \<and> wf_entity e)"

text \<open>A manager with no fault injected: the flags as \<open>NewMgr\<close> leaves them.\<close>

definition no_faults :: "mgr \<Rightarrow> bool" where
  "no_faults m \<longleftrightarrow>
     \<not> WantCreateError m \<and> \<not> WantDeleteError m \<and> \<not> WantGetError m \<and>
     \<not> WantGetListError m \<and> \<not> WantUpdateError m \<and> \<not> WantPartialUpdateError m"

section \<open>Lemmas\<close>

lemma mock_mgr_simps [simp]:
  "new_empty_entity mock_mgr = new_empty_entity_mock" "create mock_mgr = mock_create"
  "delete mock_mgr = mock_delete" "get mock_mgr = mock_get" "get_list mock_mgr = mock_get_list"
  "update mock_mgr = mock_update" "partial_update mock_mgr = mock_partial_update"
  "map_error_to_http_error mock_mgr = mock_map_error_to_http_error"
  "error_value mock_mgr = mock_error_value" "decode_entity mock_mgr = decode_entity_mock"
  by (simp_all add: mock_mgr_def)

lemma ascii_upper_tags [simp]:
  "ascii_upper ''id'' = ''ID''" "ascii_upper ''status_id'' = ''STATUS_ID''"
  by code_simp+

lemma decode_status_id_member:
  "in_int64 n \<Longrightarrow> decode_entity_mock (JObject [(''status_id'', JNumber (of_int n))]) e =
     Some (e\<lparr>StatusID := n\<rparr>)"
  by (simp add: decode_entity_mock_def decode_member_def decode_int_def)

lemma wf_new_empty_entity: "wf_entity new_empty_entity_mock"
  by (simp add: wf_entity_def new_empty_entity_mock_def in_int64_def int64_min_def int64_max_def)

lemma wf_store_empty: "wf_store Map.empty"
  by (simp add: wf_store_def)

lemma wf_store_upd:
  "wf_store es \<Longrightarrow> length k = raw_len \<Longrightarrow> wf_entity e \<Longrightarrow> wf_store (es(k \<mapsto> e))"
  by (auto simp: wf_store_def)

lemma wf_store_del: "wf_store es \<Longrightarrow> wf_store (es(k := None))"
  by (auto simp: wf_store_def)

lemma wf_store_lookup: "wf_store es \<Longrightarrow> es k = Some e \<Longrightarrow> length k = raw_len \<and> wf_entity e"
  by (auto simp: wf_store_def)

lemma decode_xid_json_length:
  "length cur = raw_len \<Longrightarrow> decode_xid_json j cur = Some x \<Longrightarrow> length x = raw_len"
  by (auto simp: decode_xid_json_def unmarshal_text_length split: json.splits prod.splits option.splits)

lemma decode_member_wf: "wf_entity e \<Longrightarrow> decode_member kv e = Some e' \<Longrightarrow> wf_entity e'"
  by (auto simp: decode_member_def wf_entity_def decode_xid_json_length decode_int_in_int64
           split: prod.splits if_splits)

lemma decode_members_wf: "wf_entity e \<Longrightarrow> decode_members kvs e = Some e' \<Longrightarrow> wf_entity e'"
  by (induction kvs arbitrary: e) (auto dest: decode_member_wf split: option.splits)

lemma decode_entity_mock_wf: "wf_entity e \<Longrightarrow> decode_entity_mock j e = Some e' \<Longrightarrow> wf_entity e'"
  by (auto simp: decode_entity_mock_def decode_members_wf split: json.splits)

lemmas mock_method_defs =
  mock_create_def mock_delete_def mock_get_def mock_get_list_def mock_update_def
  mock_partial_update_def set_entities_def

lemma mock_create_wf:
  assumes "wf_store (EntityList (mgr s))" and "wf_entity e" and "mock_create e pl s = (res, s')"
  shows "wf_store (EntityList (mgr s'))"
  using assms length_new_with_time[of "clock s" "xgen s"]
  by (auto simp: mock_create_def set_entities_def wf_entity_def Let_def
           intro!: wf_store_upd split: if_splits prod.splits)

lemma mock_delete_wf:
  "wf_store (EntityList (mgr s)) \<Longrightarrow> mock_delete i s = (res, s') \<Longrightarrow> wf_store (EntityList (mgr s'))"
  by (auto simp: mock_delete_def set_entities_def intro: wf_store_del split: if_splits)

lemma mock_get_state: "mock_get i s = (res, s') \<Longrightarrow> s' = s"
  by (auto simp: mock_get_def split: if_splits option.splits)

lemma mock_get_list_state: "mock_get_list lm s = (res, s') \<Longrightarrow> s' = s"
  by (auto simp: mock_get_list_def split: if_splits)

lemma mock_update_wf:
  assumes "wf_store (EntityList (mgr s))" and "\<forall>e. new_e = Some e \<longrightarrow> wf_entity e"
    and "mock_update i new_e pl s = (res, s')"
  shows "wf_store (EntityList (mgr s'))"
  using assms
  by (auto simp: mock_update_def set_entities_def wf_store_def split: if_splits option.splits)

lemma mock_partial_update_wf:
  assumes wf: "wf_store (EntityList (mgr s))" and pu: "mock_partial_update i pud pl s = (res, s')"
  shows "wf_store (EntityList (mgr s'))"
proof (cases "EntityList (mgr s) i")
  case None
  with pu wf show ?thesis by (auto simp: mock_partial_update_def split: if_splits)
next
  case (Some e)
  with wf have "length i = raw_len" and "wf_entity e" by (auto dest: wf_store_lookup)
  then have "wf_store ((EntityList (mgr s))(i \<mapsto> e\<lparr>StatusID := go_float_to_int f\<rparr>))" for f
    using wf by (auto simp: wf_entity_def go_float_to_int_in_int64 intro!: wf_store_upd)
  with Some pu wf show ?thesis
    by (auto simp: mock_partial_update_def set_entities_def split: if_splits option.splits json.splits)
qed

section \<open>Encoding and decoding entities\<close>

lemma entity_json_not_null: "entity_json e \<noteq> JNull"
  by (simp add: entity_json_def)

text \<open>An entity's JSON decodes back to the entity, into any target.\<close>

lemma decode_entity_json:
  assumes "wf_entity e"
  shows "decode_entity_mock (entity_json e) cur = Some e"
proof -
  have id: "decode_xid_json (if is_nil (ID e) then JNull else JString (encode (ID e))) (ID cur) = Some (ID e)"
    using assms by (auto simp: decode_xid_json_def is_nil_def wf_entity_def unmarshal_text_encode)
  have st: "decode_int (JNumber (of_int (StatusID e))) c = Some (StatusID e)" for c
    using assms by (simp add: decode_int_def wf_entity_def)
  have "cur\<lparr>ID := ID e, StatusID := StatusID e\<rparr> = e" by (cases e, cases cur) simp
  then show ?thesis using id st
    by (simp add: decode_entity_mock_def entity_json_def decode_member_def)
qed

section \<open>Decoding a status that is not an int64\<close>

lemma decode_status_not_int64:
  assumes "\<not> (f = of_int \<lfloor>f\<rfloor> \<and> in_int64 \<lfloor>f\<rfloor>)"
  shows "decode_entity_mock (JObject [(''status_id'', JNumber f)]) e = None"
  using assms by (simp add: decode_entity_mock_def decode_member_def decode_int_def)

section \<open>Created identifiers sort by creation time\<close>

text \<open>
  C26: identifiers sort by creation time, as spec.md promises (\<open>sortable\<close>): of two
  entities \<open>Create\<close> stores, the one created at a later second (as the 32-bit
  time in its identifier) has the larger identifier text.
\<close>

theorem created_ids_sort_by_time:
  assumes "mock_create e pl s = (Inr (VEntity e1), s1)" and "mock_create e' pl' s' = (Inr (VEntity e2), s2)"
    and "(word_of_int (clock s) :: 32 word) < word_of_int (clock s')"
  shows "encode (ID e1) < encode (ID e2)"
proof -
  have i1: "ID e1 = fst (new_with_time (clock s) (xgen s))" and i2: "ID e2 = fst (new_with_time (clock s') (xgen s'))"
    using assms(1,2) by (auto simp: mock_create_def Let_def split: if_splits prod.splits)
  show ?thesis
    unfolding i1 i2 using new_with_time_time_order[OF assms(3)]
    by (simp add: encode_less_iff length_new_with_time)
qed

end
