(* ===== verification/Contract.thy ===== *)
theory Contract
  imports Mock "HOL-Library.Multiset"
begin

text \<open>
  The contract every \<open>MgrI\<close> implementation promises (spec.md, section 4.1), as
  an abstract specification over a store of entities, and the refinement of it by
  the mock manager of \<open>src/mock/manager.go\<close>.
\<close>

section \<open>The abstract contract\<close>

text \<open>The error kinds of the contract's taxonomy.\<close>

datatype contract_error = NotFound | BadRequest | Forbidden | Internal

text \<open>What an operation answers: an error, one entity, the result set, or nothing.\<close>

datatype 'e answer = AErr contract_error | AOne 'e | AMany "'e multiset" | ADone

type_synonym 'e store = "xid \<rightharpoonup> 'e"

text \<open>The operations of \<open>MgrI\<close> that touch the store.\<close>

datatype 'e op =
  OpCreate 'e | OpGet xid | OpGetList list_modifiers | OpReplace xid 'e
| OpPartialUpdate xid partial_update_data | OpDelete xid

text \<open>
  One step of the contract, given how the manager assigns an identifier, the key a
  patch requires, how a patch value applies, and the identifier a create draws.
  \<open>None\<close>: the contract does not allow the step (a create that would reuse a
  stored identifier). The result set of a listing is the whole store, as the
  reference manager chooses.
\<close>

definition c_step ::
  "(xid \<Rightarrow> 'e \<Rightarrow> 'e) \<Rightarrow> string \<Rightarrow> (json \<Rightarrow> 'e \<Rightarrow> 'e) \<Rightarrow> xid \<Rightarrow> 'e op \<Rightarrow> 'e store
   \<Rightarrow> ('e answer \<times> 'e store) option" where
  "c_step assign req apply x op st =
    (case op of
       OpCreate e \<Rightarrow>
         (if st x \<noteq> None then None else Some (AOne (assign x e), st(x \<mapsto> assign x e)))
     | OpGet i \<Rightarrow> Some (case st i of None \<Rightarrow> AErr NotFound | Some e \<Rightarrow> AOne e, st)
     | OpGetList lm \<Rightarrow>
         Some (if st = Map.empty then AErr NotFound
               else AMany (image_mset (\<lambda>k. the (st k)) (mset_set (dom st))), st)
     | OpReplace i e \<Rightarrow>
         Some (case st i of None \<Rightarrow> (AErr NotFound, st) | Some _ \<Rightarrow> (AOne e, st(i \<mapsto> e)))
     | OpPartialUpdate i pud \<Rightarrow>
         Some (case pud req of
                 None \<Rightarrow> (AErr BadRequest, st)
               | Some v \<Rightarrow>
                   (case st i of None \<Rightarrow> (AErr NotFound, st) | Some e \<Rightarrow> (ADone, st(i \<mapsto> apply v e))))
     | OpDelete i \<Rightarrow>
         Some (case st i of None \<Rightarrow> (AErr NotFound, st) | Some _ \<Rightarrow> (ADone, st(i := None))))"

text \<open>\<open>MapErrorToHTTPError\<close> as the contract states it.\<close>

fun c_http_code :: "contract_error \<Rightarrow> nat" where
  "c_http_code NotFound = 404"
| "c_http_code Forbidden = 403"
| "c_http_code _ = 500"

section \<open>The mock manager as an implementation\<close>

text \<open>The abstraction of the mock's errors and results.\<close>

fun abs_error :: "mock_error \<Rightarrow> contract_error" where
  "abs_error ErrNotFound = NotFound"
| "abs_error ErrBadRequest = BadRequest"
| "abs_error ErrForbidden = Forbidden"
| "abs_error (ErrorF _) = Internal"

fun abs_value :: "mock_value \<Rightarrow> entity answer" where
  "abs_value (VEntity e) = AOne e"
| "abs_value (VList es) = AMany (mset es)"
| "abs_value (VError e) = AErr (abs_error e)"

definition abs_result :: "(mock_error + mock_value) \<times> mock_state \<Rightarrow> entity answer go \<times> mock_state" where
  "abs_result p = (Returns (case fst p of Inl err \<Rightarrow> AErr (abs_error err) | Inr v \<Rightarrow> abs_value v), snd p)"

text \<open>Each operation as the handlers call it (the payload reader is not read by the mock).\<close>

definition mock_answer :: "entity op \<Rightarrow> mock_state \<Rightarrow> entity answer go \<times> mock_state" where
  "mock_answer op s =
    (case op of
       OpCreate e \<Rightarrow> abs_result (mock_create e [] s)
     | OpGet i \<Rightarrow> abs_result (mock_get i s)
     | OpGetList lm \<Rightarrow> abs_result (mock_get_list lm s)
     | OpReplace i e \<Rightarrow> abs_result (mock_update i (Some e) [] s)
     | OpPartialUpdate i pud \<Rightarrow>
         (case mock_partial_update i pud [] s of
            (Panics msg, s') \<Rightarrow> (Panics msg, s')
          | (Returns None, s') \<Rightarrow> (Returns ADone, s')
          | (Returns (Some err), s') \<Rightarrow> (Returns (AErr (abs_error err)), s'))
     | OpDelete i \<Rightarrow>
         (case mock_delete i s of
            (None, s') \<Rightarrow> (Returns ADone, s')
          | (Some err, s') \<Rightarrow> (Returns (AErr (abs_error err)), s')))"

text \<open>How the mock applies the value of \<open>status_id\<close>, when it is a number.\<close>

definition apply_status :: "json \<Rightarrow> entity \<Rightarrow> entity" where
  "apply_status v e = (case v of JNumber f \<Rightarrow> e\<lparr>StatusID := go_float_to_int f\<rparr> | _ \<Rightarrow> e)"

text \<open>
  When the mock meets the contract's preconditions: the identifier a create draws
  is not stored, a patch's \<open>status_id\<close> is a number, and the runtime's iteration
  order visits each key once.
\<close>

definition op_ok :: "entity op \<Rightarrow> mock_state \<Rightarrow> bool" where
  "op_ok op s =
    (case op of
       OpCreate e \<Rightarrow> EntityList (mgr s) (fst (new_with_time (clock s) (xgen s))) = None
     | OpGetList lm \<Rightarrow>
         distinct (range_order s (dom (EntityList (mgr s))))
         \<and> set (range_order s (dom (EntityList (mgr s)))) = dom (EntityList (mgr s))
     | OpPartialUpdate i pud \<Rightarrow>
         (case pud ''status_id'' of None \<Rightarrow> True | Some (JNumber f) \<Rightarrow> True | Some _ \<Rightarrow> False)
     | _ \<Rightarrow> True)"

section \<open>Refinement\<close>

lemma mock_refines_create:
  assumes "\<not> WantCreateError (mgr s)" and "EntityList (mgr s) (fst (new_with_time (clock s) (xgen s))) = None"
  shows "\<exists>a s'. mock_answer (OpCreate e) s = (Returns a, s') \<and>
     c_step (\<lambda>x e. e\<lparr>ID := x\<rparr>) ''status_id'' apply_status (fst (new_with_time (clock s) (xgen s))) (OpCreate e)
       (EntityList (mgr s)) = Some (a, EntityList (mgr s'))"
  using assms
  by (simp add: mock_answer_def c_step_def abs_result_def mock_create_def set_entities_def Let_def split: prod.splits)

lemma mock_refines_get_list:
  assumes "\<not> WantGetListError (mgr s)" and "finite (dom (EntityList (mgr s)))"
    and "distinct (range_order s (dom (EntityList (mgr s))))"
    and "set (range_order s (dom (EntityList (mgr s)))) = dom (EntityList (mgr s))"
  shows "\<exists>a s'. mock_answer (OpGetList lm) s = (Returns a, s') \<and>
     c_step assign req ap x (OpGetList lm) (EntityList (mgr s)) = Some (a, EntityList (mgr s'))"
proof -
  let ?m = "EntityList (mgr s)" and ?ks = "range_order s (dom (EntityList (mgr s)))"
  have "List.map_filter ?m ?ks = map (\<lambda>k. the (?m k)) ?ks" using assms(4) by (simp add: map_filter_dom)
  moreover have "mset ?ks = mset_set (dom ?m)" using assms(3,4) by (metis mset_set_set)
  ultimately show ?thesis using assms(1) go_len_zero_iff[OF assms(2)]
    by (simp add: mock_answer_def c_step_def abs_result_def mock_get_list_def)
qed

lemma mock_refines_partial_update:
  assumes "\<not> WantPartialUpdateError (mgr s)"
    and "case pud ''status_id'' of None \<Rightarrow> True | Some (JNumber f) \<Rightarrow> True | Some _ \<Rightarrow> False"
  shows "\<exists>a s'. mock_answer (OpPartialUpdate i pud) s = (Returns a, s') \<and>
     c_step assign ''status_id'' apply_status x (OpPartialUpdate i pud) (EntityList (mgr s)) = Some (a, EntityList (mgr s'))"
  using assms
  by (auto simp: mock_answer_def c_step_def mock_partial_update_def apply_status_def set_entities_def
      split: option.splits json.splits)

lemma mock_refines_simple:
  assumes "\<not> WantGetError (mgr s)" "\<not> WantUpdateError (mgr s)" "\<not> WantDeleteError (mgr s)"
  shows "\<exists>a s'. mock_answer (OpGet i) s = (Returns a, s') \<and>
           c_step assign req ap x (OpGet i) (EntityList (mgr s)) = Some (a, EntityList (mgr s'))"
    and "\<exists>a s'. mock_answer (OpReplace i e) s = (Returns a, s') \<and>
           c_step assign req ap x (OpReplace i e) (EntityList (mgr s)) = Some (a, EntityList (mgr s'))"
    and "\<exists>a s'. mock_answer (OpDelete i) s = (Returns a, s') \<and>
           c_step assign req ap x (OpDelete i) (EntityList (mgr s)) = Some (a, EntityList (mgr s'))"
  using assms
  by (auto simp: mock_answer_def c_step_def abs_result_def mock_get_def mock_update_def mock_delete_def
      set_entities_def split: option.splits)

text \<open>
  C19: the mock manager implements the contract: in a fault-free state with a
  finite store, every operation whose preconditions hold returns, and its answer
  and new store are the contract's step on the abstract store, with the identifier
  \<open>xid.New()\<close> draws.
\<close>

theorem mock_refines_contract:
  assumes "no_faults (mgr s)" and "finite (dom (EntityList (mgr s)))" and "op_ok op s"
  shows "\<exists>a s'. mock_answer op s = (Returns a, s') \<and>
     c_step (\<lambda>x e. e\<lparr>ID := x\<rparr>) ''status_id'' apply_status (fst (new_with_time (clock s) (xgen s))) op
       (EntityList (mgr s)) = Some (a, EntityList (mgr s'))"
  using assms
  by (cases op)
     (simp_all add: no_faults_def op_ok_def mock_refines_create mock_refines_get_list
        mock_refines_partial_update mock_refines_simple)

end
