(* ===== verification/System.thy ===== *)
theory System
  imports Rest Mock Contract
begin

text \<open>
  The service as \<open>src/example/main.go\<close> wires it: one \<open>mock.NewMgr()\<close> shared by
  the six handlers of the \<open>/e\<close> routes. A request is served by the handler its
  route selects; the states the service can reach are those built from the start by
  served requests, with the clock and the runtime's map iteration order moving
  between requests. The lemmas show the store's invariant in every reachable state
  and the request sequences of the interface's contract.
\<close>

section \<open>Routing\<close>

text \<open>The routes of \<open>r.Route("/e", ...)\<close>, in the order they are registered.\<close>

datatype route = ListRoute | PostRoute | GetRoute | PatchRoute | PutRoute | DeleteRoute

definition respond :: "'v http_response \<times> 's \<Rightarrow> 'v http_response go \<times> 's" where
  "respond p = (Returns (fst p), snd p)"

definition serve :: "route \<Rightarrow> request \<Rightarrow> mock_state \<Rightarrow> mock_value http_response go \<times> mock_state" where
  "serve rt r s =
    (case rt of
       ListRoute \<Rightarrow> respond (get_list_handler mock_mgr r s)
     | PostRoute \<Rightarrow> respond (post_handler mock_mgr r s)
     | GetRoute \<Rightarrow> respond (get_handler mock_mgr r s)
     | PatchRoute \<Rightarrow> patch_handler mock_mgr r s
     | PutRoute \<Rightarrow> respond (put_handler mock_mgr r s)
     | DeleteRoute \<Rightarrow> respond (delete_handler mock_mgr r s))"

text \<open>
  \<open>srv := &http.Server{...}\<close>: the timeouts (in seconds), the address, and the
  router as its handler. \<open>ListenAndServe\<close> and the \<open>log.Fatalf\<close> on its error are
  the process's I/O and are not modelled.
\<close>

record http_server =
  read_timeout :: nat
  write_timeout :: nat
  idle_timeout :: nat
  addr :: string
  server_handler :: "route \<Rightarrow> request \<Rightarrow> mock_state \<Rightarrow> mock_value http_response go \<times> mock_state"

definition main_server :: http_server where
  "main_server = \<lparr>read_timeout = 10, write_timeout = 7200, idle_timeout = 10, addr = '':8080'',
     server_handler = serve\<rparr>"

section \<open>Reachable states\<close>

text \<open>\<open>m := mock.NewMgr()\<close>, with the process's generator, clock and iteration order.\<close>

definition start_state :: "xid_gen \<Rightarrow> int \<Rightarrow> (xid set \<Rightarrow> xid list) \<Rightarrow> mock_state" where
  "start_state g t ro = \<lparr>mgr = new_mgr, xgen = g, clock = t, range_order = ro\<rparr>"

inductive reachable :: "mock_state \<Rightarrow> bool" where
  start: "reachable (start_state g t ro)"
| request: "reachable s \<Longrightarrow> serve rt r s = (resp, s') \<Longrightarrow> reachable s'"
| tick: "reachable s \<Longrightarrow> reachable (s\<lparr>clock := t\<rparr>)"
| reorder: "reachable s \<Longrightarrow> reachable (s\<lparr>range_order := ro\<rparr>)"

text \<open>A runtime iteration order visits each key of the store once.\<close>

definition enumerates :: "'k list \<Rightarrow> 'k set \<Rightarrow> bool" where
  "enumerates ks K \<longleftrightarrow> distinct ks \<and> set ks = K"

section \<open>Runs\<close>

text \<open>
  What happens to the process between two moments: a request served by the router
  (a handler's panic is recovered by \<open>net/http\<close>, which keeps the manager as the
  handler left it), the clock moving, or a new map iteration order. A run is a
  sequence of them, one at a time.
\<close>

datatype event = Request route request | Tick int | Reorder "xid set \<Rightarrow> xid list"

definition step :: "event \<Rightarrow> mock_state \<Rightarrow> mock_state" where
  "step ev s = (case ev of
       Request rt r \<Rightarrow> snd (serve rt r s)
     | Tick t \<Rightarrow> s\<lparr>clock := t\<rparr>
     | Reorder ro \<Rightarrow> s\<lparr>range_order := ro\<rparr>)"

definition run :: "event list \<Rightarrow> mock_state \<Rightarrow> mock_state" where
  "run evs s = fold step evs s"

section \<open>The process: ListenAndServe and log.Fatalf\<close>

text \<open>
  \<open>srv.ListenAndServe()\<close> (\<open>net/http\<close>, modelled from its documentation): the
  server's handler serves the events until the listener fails, and it returns that
  failure; it never returns a nil error. The error is given by its text.
\<close>

definition listen_and_serve ::
  "http_server \<Rightarrow> event list \<Rightarrow> string \<Rightarrow> mock_state \<Rightarrow> mock_state \<times> string option" where
  "listen_and_serve srv evs err s =
    (fold (\<lambda>ev s. case ev of
              Request rt r \<Rightarrow> snd (server_handler srv rt r s)
            | Tick t \<Rightarrow> s\<lparr>clock := t\<rparr>
            | Reorder ro \<Rightarrow> s\<lparr>range_order := ro\<rparr>) evs s,
     Some err)"

text \<open>How the process ends: \<open>main\<close> returns, or \<open>log.Fatalf\<close> writes its line and exits with status 1.\<close>

datatype process_end = Returned | Fatal string

text \<open>
  \<open>main()\<close>: the router over \<open>m := mock.NewMgr()\<close>, the server, then
  \<open>if err := srv.ListenAndServe(); err != nil { log.Fatalf("server error: %v", err) }\<close>.
\<close>

definition main_go ::
  "xid_gen \<Rightarrow> int \<Rightarrow> (xid set \<Rightarrow> xid list) \<Rightarrow> event list \<Rightarrow> string \<Rightarrow> mock_state \<times> process_end" where
  "main_go g t ro evs err =
    (case listen_and_serve main_server evs err (start_state g t ro) of
       (s, Some e) \<Rightarrow> (s, Fatal (''server error: '' @ e))
     | (s, None) \<Rightarrow> (s, Returned))"

section \<open>Requests as operations of the contract\<close>

text \<open>
  The operation of the contract a request denotes once the handler has parsed its
  identifier and decoded its body; \<open>None\<close> when the handler answers before
  calling the manager, or calls \<open>Update\<close> with a nil entity (a body \<open>null\<close>).
\<close>

definition request_op :: "route \<Rightarrow> request \<Rightarrow> entity op option" where
  "request_op rt r =
    (case rt of
       ListRoute \<Rightarrow> Some (OpGetList (list_modifiers_from_url r))
     | PostRoute \<Rightarrow>
         (case body_json r of None \<Rightarrow> None
          | Some j \<Rightarrow> map_option OpCreate (decode_entity_mock j new_empty_entity_mock))
     | GetRoute \<Rightarrow> (case parse_id_from_request r of Inl _ \<Rightarrow> None | Inr i \<Rightarrow> Some (OpGet i))
     | DeleteRoute \<Rightarrow> (case parse_id_from_request r of Inl _ \<Rightarrow> None | Inr i \<Rightarrow> Some (OpDelete i))
     | PutRoute \<Rightarrow>
         (case (parse_id_from_request r, body_json r) of
            (Inr i, Some j) \<Rightarrow>
              (case decode_into_interface mock_mgr j new_empty_entity_mock of
                 Some (Some e) \<Rightarrow> Some (OpReplace i e)
               | _ \<Rightarrow> None)
          | _ \<Rightarrow> None)
     | PatchRoute \<Rightarrow>
         (case (parse_id_from_request r, body_json r) of
            (Inr i, Some j) \<Rightarrow> map_option (OpPartialUpdate i) (decode_object_map j Map.empty)
          | _ \<Rightarrow> None))"

text \<open>
  The status the handler table of spec.md (section 4.2) gives a contract answer:
  a POST's error is 500, other errors are mapped by \<open>MapErrorToHTTPError\<close>.
\<close>

definition route_status :: "route \<Rightarrow> 'e answer \<Rightarrow> nat" where
  "route_status rt a =
    (case a of
       AErr e \<Rightarrow> (if rt = PostRoute then 500 else c_http_code e)
     | AOne _ \<Rightarrow> (if rt = PostRoute then 201 else 200)
     | AMany _ \<Rightarrow> 200
     | ADone \<Rightarrow> (if rt = DeleteRoute then 202 else 204))"

text \<open>The contract's step on the mock's store, with the identifier a create draws.\<close>

abbreviation contract_step :: "mock_state \<Rightarrow> entity op \<Rightarrow> (entity answer \<times> entity store) option" where
  "contract_step s op \<equiv>
     c_step (\<lambda>x e. e\<lparr>ID := x\<rparr>) ''status_id'' apply_status (fst (new_with_time (clock s) (xgen s))) op
       (EntityList (mgr s))"

section \<open>The store's invariant in every reachable state\<close>

lemma mock_ops_keep_flags:
  "mock_create e pl s = (a, s') \<Longrightarrow> mgr s' = (mgr s)\<lparr>EntityList := EntityList (mgr s')\<rparr>"
  "mock_delete i s = (b, s') \<Longrightarrow> mgr s' = (mgr s)\<lparr>EntityList := EntityList (mgr s')\<rparr>"
  "mock_update i ne pl s = (a, s') \<Longrightarrow> mgr s' = (mgr s)\<lparr>EntityList := EntityList (mgr s')\<rparr>"
  "mock_partial_update i pud pl s = (c, s') \<Longrightarrow> mgr s' = (mgr s)\<lparr>EntityList := EntityList (mgr s')\<rparr>"
  by (auto simp: mock_method_defs Let_def split: if_splits prod.splits option.splits json.splits)

lemmas handler_defs =
  get_list_handler_def post_handler_def get_handler_def patch_handler_def put_handler_def
  delete_handler_def

lemma serve_keeps_flags:
  "serve rt r s = (resp, s') \<Longrightarrow> mgr s' = (mgr s)\<lparr>EntityList := EntityList (mgr s')\<rparr>"
  by (cases rt)
     (auto simp: serve_def respond_def handler_defs Let_def
           dest: mock_ops_keep_flags mock_get_state mock_get_list_state
           split: option.splits sum.splits prod.splits go.splits)

lemma post_handler_mock_wf:
  assumes "wf_store (EntityList (mgr s))" and "post_handler mock_mgr r s = (resp, s')"
  shows "wf_store (EntityList (mgr s'))"
proof -
  have dec: "decode_entity_mock j new_empty_entity_mock = Some e \<Longrightarrow> wf_entity e" for j e
    by (rule decode_entity_mock_wf[OF wf_new_empty_entity])
  show ?thesis
    using assms
    by (auto simp: post_handler_def Let_def split: option.splits sum.splits prod.splits
             intro: mock_create_wf dest: dec)
qed

lemma put_handler_mock_wf:
  assumes "wf_store (EntityList (mgr s))" and "put_handler mock_mgr r s = (resp, s')"
  shows "wf_store (EntityList (mgr s'))"
proof -
  have dec: "decode_into_interface mock_mgr j new_empty_entity_mock = Some ne \<Longrightarrow>
      \<forall>e. ne = Some e \<longrightarrow> wf_entity e" for j ne
    by (cases "j = JNull")
       (auto simp: decode_into_interface_def intro: decode_entity_mock_wf[OF wf_new_empty_entity])
  show ?thesis
    using assms
    by (auto simp: put_handler_def Let_def split: option.splits sum.splits prod.splits
             intro: mock_update_wf dest: dec)
qed

lemma serve_wf:
  assumes "wf_store (EntityList (mgr s))" and "serve rt r s = (resp, s')"
  shows "wf_store (EntityList (mgr s'))"
proof (cases rt)
  case PostRoute
  obtain a where "post_handler mock_mgr r s = (a, s')"
    using assms(2) PostRoute by (cases "post_handler mock_mgr r s") (simp add: serve_def respond_def)
  then show ?thesis by (rule post_handler_mock_wf[OF assms(1)])
next
  case PutRoute
  obtain a where "put_handler mock_mgr r s = (a, s')"
    using assms(2) PutRoute by (cases "put_handler mock_mgr r s") (simp add: serve_def respond_def)
  then show ?thesis by (rule put_handler_mock_wf[OF assms(1)])
qed (use assms in \<open>auto simp: serve_def respond_def handler_defs
        dest: mock_get_state mock_get_list_state intro: mock_delete_wf mock_partial_update_wf
        split: sum.splits prod.splits option.splits go.splits\<close>)

lemma reachable_inv:
  "reachable s \<Longrightarrow> no_faults (mgr s) \<and> wf_store (EntityList (mgr s))"
proof (induction rule: reachable.induct)
  case (start g t ro)
  show ?case by (simp add: start_state_def new_mgr_def no_faults_def wf_store_empty)
next
  case (request s rt r resp s')
  from request.hyps(2) have "mgr s' = (mgr s)\<lparr>EntityList := EntityList (mgr s')\<rparr>"
    by (rule serve_keeps_flags)
  moreover have "no_faults (m\<lparr>EntityList := es\<rparr>) = no_faults m" for m es
    by (simp add: no_faults_def)
  ultimately have "no_faults (mgr s')" using request.IH by metis
  moreover from request.IH request.hyps(2) have "wf_store (EntityList (mgr s'))"
    by (blast intro: serve_wf)
  ultimately show ?case ..
qed simp_all

section \<open>The routes over the mock manager\<close>

text \<open>What each route does to a fault-free manager, branch by branch.\<close>

lemma serve_get:
  assumes "no_faults (mgr s)" and "parse_id_from_request r = Inr x"
  shows "serve GetRoute r s =
    (case EntityList (mgr s) x of
       Some e \<Rightarrow> (Returns \<lparr>status = 200, payload = JsonBody (VEntity e)\<rparr>, s)
     | None \<Rightarrow> (Returns \<lparr>status = 404, payload = ErrBody err_not_found\<rparr>, s))"
  using assms
  by (auto simp: serve_def respond_def get_handler_def mock_get_def no_faults_def render_error_def
           split: option.splits)

lemma serve_post:
  assumes "no_faults (mgr s)" and "body_json r = Some j"
    and "decode_entity_mock j new_empty_entity_mock = Some ent"
    and "new_with_time (clock s) (xgen s) = (x, g')"
  shows "serve PostRoute r s =
    (Returns \<lparr>status = 201, payload = JsonBody (VEntity (ent\<lparr>ID := x\<rparr>))\<rparr>,
     (set_entities ((EntityList (mgr s))(x \<mapsto> ent\<lparr>ID := x\<rparr>)) s)\<lparr>xgen := g'\<rparr>)"
  using assms
  by (simp add: serve_def respond_def post_handler_def mock_create_def no_faults_def Let_def)

lemma serve_delete:
  assumes "no_faults (mgr s)" and "parse_id_from_request r = Inr x" and "EntityList (mgr s) x \<noteq> None"
  shows "serve DeleteRoute r s =
    (Returns \<lparr>status = 202, payload = NoBody\<rparr>, set_entities ((EntityList (mgr s))(x := None)) s)"
  using assms
  by (auto simp: serve_def respond_def delete_handler_def mock_delete_def no_faults_def)

lemma serve_patch:
  assumes "no_faults (mgr s)" and "parse_id_from_request r = Inr x"
    and "body_json r = Some j" and "decode_object_map j Map.empty = Some pud"
  shows "serve PatchRoute r s =
    (case pud ''status_id'' of
       None \<Rightarrow> (Returns \<lparr>status = 500, payload = ErrBody (err_internal (GoError ''bad request''))\<rparr>, s)
     | Some v \<Rightarrow>
        (case EntityList (mgr s) x of
           None \<Rightarrow> (Returns \<lparr>status = 404, payload = ErrBody err_not_found\<rparr>, s)
         | Some e \<Rightarrow>
            (case v of
               JNumber f \<Rightarrow> (Returns \<lparr>status = 204, payload = NoBody\<rparr>,
                             set_entities ((EntityList (mgr s))(x \<mapsto> e\<lparr>StatusID := go_float_to_int f\<rparr>)) s)
             | _ \<Rightarrow> (Panics ''interface conversion: interface {} is not float64'', s))))"
  using assms
  by (auto simp: serve_def patch_handler_def mock_partial_update_def no_faults_def render_error_def
           split: option.splits json.splits)

lemma serve_put:
  assumes "no_faults (mgr s)" and "parse_id_from_request r = Inr x" and "EntityList (mgr s) x \<noteq> None"
    and "body_json r = Some j" and "decode_into_interface mock_mgr j new_empty_entity_mock = Some ne"
  shows "serve PutRoute r s =
    (case ne of
       None \<Rightarrow> (Returns \<lparr>status = 200, payload = JsonBody (VError ErrBadRequest)\<rparr>, s)
     | Some e \<Rightarrow> (Returns \<lparr>status = 200, payload = JsonBody (VEntity e)\<rparr>,
                  set_entities ((EntityList (mgr s))(x \<mapsto> e)) s))"
  using assms
  by (auto simp: serve_def respond_def put_handler_def mock_update_def no_faults_def
           split: option.splits)

lemma set_entities_sel [simp]:
  "EntityList (mgr (set_entities es s)) = es" "no_faults (mgr (set_entities es s)) = no_faults (mgr s)"
  "clock (set_entities es s) = clock s" "xgen (set_entities es s) = xgen s"
  by (simp_all add: set_entities_def no_faults_def)

lemma reachable_serve: "reachable s \<Longrightarrow> reachable (snd (serve rt r s))"
  by (rule reachable.request[where rt = rt and r = r and resp = "fst (serve rt r s)"]) simp_all

lemma mock_codes_within: "codes_within mock_mgr {403, 404, 500}"
  unfolding codes_within_def
proof
  fix err show "http_status_code (map_error_to_http_error mock_mgr err) \<in> {403, 404, 500}"
    by (cases err) (simp_all add: err_internal_def err_not_found_def err_forbidden_def)
qed

lemma reachable_run: "reachable s \<Longrightarrow> reachable (run evs s)"
proof (induction evs arbitrary: s)
  case (Cons ev evs)
  have "reachable (step ev s)"
    using Cons.prems by (cases ev) (auto simp: step_def intro: reachable_serve reachable.tick reachable.reorder)
  then show ?case using Cons.IH by (simp add: run_def)
qed (simp add: run_def)

section \<open>Identifiers issued along a run\<close>

text \<open>
  Every key added to the store along a run is the identifier \<open>Create\<close> drew, so
  its counter bytes are those of one of the counter values the run went through.
\<close>

lemma mock_ops_keep_keys:
  "mock_delete i s = (b, s') \<Longrightarrow> xgen s' = xgen s \<and> dom (EntityList (mgr s')) \<subseteq> dom (EntityList (mgr s))"
  "mock_update i ne pl s = (a, s') \<Longrightarrow> xgen s' = xgen s \<and> dom (EntityList (mgr s')) \<subseteq> dom (EntityList (mgr s))"
  "mock_partial_update i pud pl s = (c, s') \<Longrightarrow> xgen s' = xgen s \<and> dom (EntityList (mgr s')) \<subseteq> dom (EntityList (mgr s))"
  by (auto simp: mock_method_defs split: if_splits option.splits json.splits)

lemma mock_create_keys:
  "mock_create e pl s = (a, s') \<Longrightarrow>
     s' = s \<or> (xgen s' = snd (new_with_time (clock s) (xgen s)) \<and>
               dom (EntityList (mgr s')) = insert (fst (new_with_time (clock s) (xgen s))) (dom (EntityList (mgr s))))"
  by (auto simp: mock_create_def set_entities_def Let_def split: if_splits prod.splits)

lemma post_handler_mock_keys:
  assumes "post_handler mock_mgr r s = (resp, s')"
  shows "s' = s \<or> (xgen s' = snd (new_with_time (clock s) (xgen s)) \<and>
               dom (EntityList (mgr s')) = insert (fst (new_with_time (clock s) (xgen s))) (dom (EntityList (mgr s))))"
proof -
  have "s' = s \<or> (\<exists>ent. snd (mock_create ent (body r) s) = s')"
    using assms by (auto simp: post_handler_def Let_def split: option.splits sum.splits prod.splits)
                   (metis snd_conv)+
  then show ?thesis using mock_create_keys by (metis prod.collapse)
qed

lemma serve_keys:
  assumes "serve rt r s = (resp, s')"
  shows "(xgen s' = xgen s \<and> dom (EntityList (mgr s')) \<subseteq> dom (EntityList (mgr s))) \<or>
         (xgen s' = snd (new_with_time (clock s) (xgen s)) \<and>
          dom (EntityList (mgr s')) = insert (fst (new_with_time (clock s) (xgen s))) (dom (EntityList (mgr s))))"
proof (cases rt)
  case PostRoute
  obtain a where "post_handler mock_mgr r s = (a, s')"
    using assms PostRoute by (cases "post_handler mock_mgr r s") (simp add: serve_def respond_def)
  then have "s' = s \<or> (xgen s' = snd (new_with_time (clock s) (xgen s)) \<and>
      dom (EntityList (mgr s')) = insert (fst (new_with_time (clock s) (xgen s))) (dom (EntityList (mgr s))))"
    by (rule post_handler_mock_keys)
  then show ?thesis by auto
qed (use assms in \<open>auto simp: serve_def respond_def handler_defs Let_def
        dest: mock_ops_keep_keys mock_get_state mock_get_list_state
        split: option.splits sum.splits prod.splits go.splits\<close>)


lemma step_keys:
  "(xgen (step ev s) = xgen s \<and> dom (EntityList (mgr (step ev s))) \<subseteq> dom (EntityList (mgr s))) \<or>
   (xgen (step ev s) = snd (new_with_time (clock s) (xgen s)) \<and>
    dom (EntityList (mgr (step ev s))) = insert (fst (new_with_time (clock s) (xgen s))) (dom (EntityList (mgr s))))"
proof (cases ev)
  case (Request rt r)
  then show ?thesis using serve_keys[of rt r s "fst (serve rt r s)" "snd (serve rt r s)"] by (simp add: step_def)
qed (simp_all add: step_def)

lemma run_snoc: "run (evs @ [ev]) s = step ev (run evs s)"
  by (simp add: run_def)

lemma run_counter_inv:
  "\<exists>d \<le> length evs. object_id_counter (xgen (run evs s)) = object_id_counter (xgen s) + of_nat d
      \<and> (\<forall>k \<in> dom (EntityList (mgr (run evs s))). k \<in> dom (EntityList (mgr s)) \<or>
           (\<exists>j. 0 < j \<and> j \<le> d \<and> drop 9 k = counter_bytes (object_id_counter (xgen s) + of_nat j)))"
proof (induction evs rule: rev_induct)
  case Nil
  show ?case by (simp add: run_def)
next
  case (snoc ev evs)
  let ?c = "object_id_counter (xgen s)" and ?s1 = "run evs s"
  from snoc.IH obtain d where d: "d \<le> length evs" and cnt: "object_id_counter (xgen ?s1) = ?c + of_nat d"
    and keys: "\<forall>k \<in> dom (EntityList (mgr ?s1)). k \<in> dom (EntityList (mgr s)) \<or>
           (\<exists>j. 0 < j \<and> j \<le> d \<and> drop 9 k = counter_bytes (?c + of_nat j))"
    by blast
  consider (same) "xgen (step ev ?s1) = xgen ?s1" "dom (EntityList (mgr (step ev ?s1))) \<subseteq> dom (EntityList (mgr ?s1))"
    | (new) "xgen (step ev ?s1) = snd (new_with_time (clock ?s1) (xgen ?s1))"
       "dom (EntityList (mgr (step ev ?s1))) = insert (fst (new_with_time (clock ?s1) (xgen ?s1))) (dom (EntityList (mgr ?s1)))"
    using step_keys by blast
  then show ?case
  proof cases
    case same
    have "\<forall>k \<in> dom (EntityList (mgr (step ev ?s1))). k \<in> dom (EntityList (mgr s)) \<or>
           (\<exists>j. 0 < j \<and> j \<le> d \<and> drop 9 k = counter_bytes (?c + of_nat j))"
      using keys same(2) by blast
    then show ?thesis unfolding run_snoc using d cnt same(1) by (intro exI[where x = d] conjI) auto
  next
    case new
    have c': "object_id_counter (xgen (step ev ?s1)) = ?c + of_nat (Suc d)"
      using new(1) cnt new_with_time_counter(2) by (simp add: add.assoc)
    have e: "object_id_counter (xgen ?s1) + 1 = ?c + of_nat (Suc d)" using cnt by simp
    have "drop 9 (fst (new_with_time (clock ?s1) (xgen ?s1))) = counter_bytes (object_id_counter (xgen ?s1) + 1)"
      by (simp add: new_with_time_counter(1) Let_def)
    then have x: "drop 9 (fst (new_with_time (clock ?s1) (xgen ?s1))) = counter_bytes (?c + of_nat (Suc d))"
      by (simp only: e)
    have "\<forall>k \<in> dom (EntityList (mgr (step ev ?s1))). k \<in> dom (EntityList (mgr s)) \<or>
           (\<exists>j. 0 < j \<and> j \<le> Suc d \<and> drop 9 k = counter_bytes (?c + of_nat j))"
    proof
      fix k assume "k \<in> dom (EntityList (mgr (step ev ?s1)))"
      then consider "k = fst (new_with_time (clock ?s1) (xgen ?s1))" | "k \<in> dom (EntityList (mgr ?s1))"
        using new(2) by blast
      then show "k \<in> dom (EntityList (mgr s)) \<or>
           (\<exists>j. 0 < j \<and> j \<le> Suc d \<and> drop 9 k = counter_bytes (?c + of_nat j))"
      proof cases
        case 1 then show ?thesis using x by blast
      next
        case 2 then show ?thesis using keys le_SucI by blast
      qed
    qed
    then show ?thesis unfolding run_snoc using d c' by (intro exI[where x = "Suc d"] conjI) auto
  qed
qed

lemma serve_post_created:
  assumes "no_faults (mgr s)" and "serve PostRoute r s = (Returns resp, s')" and "status resp = 201"
  shows "\<exists>e. EntityList (mgr s') = (EntityList (mgr s))(fst (new_with_time (clock s) (xgen s)) \<mapsto> e)"
  using assms
  by (auto simp: serve_def respond_def post_handler_def mock_create_def no_faults_def Let_def
      split: option.splits sum.splits prod.splits)

text \<open>A POST whose body is \<open>{"status_id": n}\<close>.\<close>

lemma serve_post_status:
  assumes "no_faults (mgr s)" and "in_int64 n"
  shows "serve PostRoute \<lparr>url_id = u, raw_query = q, query_order = qo, body = b,
            body_json = Some (JObject [(''status_id'', JNumber (of_int n))])\<rparr> s =
    (Returns \<lparr>status = 201, payload = JsonBody (VEntity \<lparr>ID = fst (new_with_time (clock s) (xgen s)), StatusID = n\<rparr>)\<rparr>,
     (set_entities ((EntityList (mgr s))(fst (new_with_time (clock s) (xgen s)) \<mapsto>
        \<lparr>ID = fst (new_with_time (clock s) (xgen s)), StatusID = n\<rparr>)) s)\<lparr>xgen := snd (new_with_time (clock s) (xgen s))\<rparr>)"
  using serve_post[OF assms(1) _ decode_status_id_member[OF assms(2)] prod.collapse[symmetric]]
  by (simp add: new_empty_entity_mock_def)

text \<open>A DELETE of a stored, non-nil key, as the tests build it.\<close>

lemma serve_delete_stored:
  assumes "reachable s" and "EntityList (mgr s) k \<noteq> None" and "\<not> is_nil k"
  shows "snd (serve DeleteRoute (get_test_context_with_id r k) s) = set_entities ((EntityList (mgr s))(k := None)) s"
proof -
  from reachable_inv[OF assms(1)] have nf: "no_faults (mgr s)" and wf: "wf_store (EntityList (mgr s))" by simp_all
  have "length k = raw_len" using wf assms(2) by (auto simp: wf_store_def)
  then have "parse_id_from_request (get_test_context_with_id r k) = Inr k"
    using assms(3) by (simp add: parse_id_from_request_encode get_test_context_with_id_def)
  from serve_delete[OF nf this assms(2)] show ?thesis by simp
qed

section \<open>The service as an implementation of the contract\<close>

lemma serve_refines_none:
  assumes "no_faults (mgr s)" and "request_op rt r = None"
  shows "EntityList (mgr (snd (serve rt r s))) = EntityList (mgr s)"
  using assms
  by (cases rt)
     (auto simp: request_op_def serve_def respond_def handler_defs mock_method_defs no_faults_def
        decode_into_interface_def split: option.splits sum.splits prod.splits)

lemma serve_refines_get:
  assumes "no_faults (mgr s)" and "request_op GetRoute r = Some op"
  shows "\<exists>a resp. fst (serve GetRoute r s) = Returns resp \<and> status resp = route_status GetRoute a \<and>
           contract_step s op = Some (a, EntityList (mgr (snd (serve GetRoute r s))))"
  using assms
  by (auto simp: request_op_def serve_def respond_def get_handler_def mock_get_def no_faults_def c_step_def
      route_status_def split: option.splits sum.splits)

lemma serve_refines_delete:
  assumes "no_faults (mgr s)" and "request_op DeleteRoute r = Some op"
  shows "\<exists>a resp. fst (serve DeleteRoute r s) = Returns resp \<and> status resp = route_status DeleteRoute a \<and>
           contract_step s op = Some (a, EntityList (mgr (snd (serve DeleteRoute r s))))"
  using assms
  by (auto simp: request_op_def serve_def respond_def delete_handler_def mock_delete_def no_faults_def c_step_def
      route_status_def set_entities_def split: option.splits sum.splits)

lemma serve_refines_put:
  assumes "no_faults (mgr s)" and "request_op PutRoute r = Some op"
  shows "\<exists>a resp. fst (serve PutRoute r s) = Returns resp \<and> status resp = route_status PutRoute a \<and>
           contract_step s op = Some (a, EntityList (mgr (snd (serve PutRoute r s))))"
  using assms
  by (auto simp: request_op_def serve_def respond_def put_handler_def mock_update_def no_faults_def c_step_def
      route_status_def set_entities_def split: option.splits sum.splits prod.splits)

lemma serve_refines_patch:
  assumes "no_faults (mgr s)" and "request_op PatchRoute r = Some op" and "op_ok op s"
  shows "\<exists>a resp. fst (serve PatchRoute r s) = Returns resp \<and> status resp = route_status PatchRoute a \<and>
           contract_step s op = Some (a, EntityList (mgr (snd (serve PatchRoute r s))))"
  using assms
  by (auto simp: request_op_def serve_def patch_handler_def mock_partial_update_def no_faults_def c_step_def
      route_status_def set_entities_def op_ok_def apply_status_def
      split: option.splits sum.splits prod.splits json.splits)

lemma serve_refines_post:
  assumes "no_faults (mgr s)" and "request_op PostRoute r = Some op" and "op_ok op s"
  shows "\<exists>a resp. fst (serve PostRoute r s) = Returns resp \<and> status resp = route_status PostRoute a \<and>
           contract_step s op = Some (a, EntityList (mgr (snd (serve PostRoute r s))))"
  using assms
  by (auto simp: request_op_def serve_def respond_def post_handler_def mock_create_def no_faults_def c_step_def
      route_status_def set_entities_def op_ok_def Let_def split: option.splits prod.splits)

lemma serve_refines_list:
  assumes "no_faults (mgr s)" and "finite (dom (EntityList (mgr s)))"
    and "request_op ListRoute r = Some op" and "op_ok op s"
  shows "\<exists>a resp. fst (serve ListRoute r s) = Returns resp \<and> status resp = route_status ListRoute a \<and>
           contract_step s op = Some (a, EntityList (mgr (snd (serve ListRoute r s))))"
proof -
  let ?m = "EntityList (mgr s)" and ?ks = "range_order s (dom (EntityList (mgr s)))"
  have op: "op = OpGetList (list_modifiers_from_url r)" using assms(3) by (simp add: request_op_def)
  have ks: "distinct ?ks" "set ?ks = dom ?m" using assms(4) by (simp_all add: op op_ok_def)
  have "List.map_filter ?m ?ks = map (\<lambda>k. the (?m k)) ?ks" using ks(2) by (simp add: map_filter_dom)
  moreover have "mset ?ks = mset_set (dom ?m)" using ks by (metis mset_set_set)
  ultimately show ?thesis using assms(1) go_len_zero_iff[OF assms(2)]
    by (auto simp: op serve_def respond_def get_list_handler_def mock_get_list_def no_faults_def c_step_def
        route_status_def)
qed

end
