(* ===== verification/MockTest.thy ===== *)
theory MockTest
  imports System
begin

text \<open>
  The test double of package \<open>rest\<close>, \<open>mgrMock\<close> (\<open>src/rest/mock_test.go\<close>), at
  the level of pointers. Its methods are those of \<open>mock.Mgr\<close> line for line, but
  they are modelled here as Go runs them: \<open>EntityList\<close> maps identifiers to
  \<open>*entityMock\<close> pointers, \<open>Create\<close> writes the identifier through the pointer it is
  given and stores that pointer, \<open>PartialUpdate\<close> writes \<open>StatusID\<close> through the
  stored pointer. The heap is an explicit store from addresses to entities, with
  the next free address as the allocator (\<open>&entityMock{}\<close>); Go pointers never
  dangle, so every address below it holds an entity.

  Two results. Driven through the handlers, which allocate a fresh entity for every
  request, no two keys ever share a pointer (\<open>mm_sep\<close>), and the double is
  indistinguishable from the value-level model of \<open>Mock\<close>: \<open>mgr_sim\<close>, a
  simulation of managers that the six handlers preserve, whatever the manager.
  Called directly with one pointer twice, as the fixtures of
  \<open>src/rest/handler_test.go\<close> do, \<open>Create\<close> renames the entity stored first.
\<close>

section \<open>Simulation of managers\<close>

text \<open>
  Two results related when they are equal and their states are related by \<open>R\<close>; a
  manager \<open>mc\<close> simulates \<open>ma\<close> under \<open>R\<close> when their pure parts agree and every
  operation on related states gives related results.
\<close>

definition rel_res :: "('s \<Rightarrow> 't \<Rightarrow> bool) \<Rightarrow> 'a \<times> 's \<Rightarrow> 'a \<times> 't \<Rightarrow> bool" where
  "rel_res R p q \<longleftrightarrow> fst p = fst q \<and> R (snd p) (snd q)"

definition mgr_sim ::
  "('s \<Rightarrow> 't \<Rightarrow> bool) \<Rightarrow> ('s, 'e, 'v, 'err) mgr_i \<Rightarrow> ('t, 'e, 'v, 'err) mgr_i \<Rightarrow> bool" where
  "mgr_sim R mc ma \<longleftrightarrow>
     new_empty_entity mc = new_empty_entity ma \<and>
     map_error_to_http_error mc = map_error_to_http_error ma \<and>
     error_value mc = error_value ma \<and> decode_entity mc = decode_entity ma \<and>
     (\<forall>s t. R s t \<longrightarrow>
        (\<forall>e pl. rel_res R (create mc e pl s) (create ma e pl t)) \<and>
        (\<forall>i. rel_res R (delete mc i s) (delete ma i t)) \<and>
        (\<forall>i. rel_res R (get mc i s) (get ma i t)) \<and>
        (\<forall>lm. rel_res R (get_list mc lm s) (get_list ma lm t)) \<and>
        (\<forall>i eo pl. rel_res R (update mc i eo pl s) (update ma i eo pl t)) \<and>
        (\<forall>i pud pl. rel_res R (partial_update mc i pud pl s) (partial_update ma i pud pl t)))"

section \<open>The heap and the test double\<close>

text \<open>An address of the heap.\<close>

type_synonym ptr = nat

text \<open>\<open>entityMock\<close>: the fields and JSON tags of \<open>mock.Entity\<close>, so the same record.\<close>

type_synonym entity_mock = entity

text \<open>The \<open>interface{}\<close> values the methods return, holding pointers.\<close>

datatype mm_value = PEntity ptr | PList "ptr list" | PError mock_error

record mgr_mock =
  wantCreateError :: bool
  wantDeleteError :: bool
  wantGetError :: bool
  wantGetListError :: bool
  wantUpdateError :: bool
  wantPartialUpdateError :: bool
  EntityList_mock :: "xid \<rightharpoonup> ptr"

text \<open>The \<open>*mgrMock\<close>, the heap it points into, and what \<open>Mock\<close>'s state adds.\<close>

record mm_state =
  mmgr :: mgr_mock
  heap :: "ptr \<Rightarrow> entity_mock"
  next_ptr :: ptr
  mm_xgen :: xid_gen
  mm_clock :: int
  mm_range_order :: "xid set \<Rightarrow> xid list"

definition new_mgr_mock :: mgr_mock where
  "new_mgr_mock =
    \<lparr>wantCreateError = False, wantDeleteError = False, wantGetError = False,
     wantGetListError = False, wantUpdateError = False, wantPartialUpdateError = False,
     EntityList_mock = Map.empty\<rparr>"

text \<open>\<open>&T{...}\<close>: a fresh address holding the value.\<close>

definition alloc :: "entity_mock \<Rightarrow> mm_state \<Rightarrow> ptr \<times> mm_state" where
  "alloc e s = (next_ptr s, s\<lparr>heap := (heap s)(next_ptr s := e), next_ptr := Suc (next_ptr s)\<rparr>)"

definition mm_new_empty_entity :: "mm_state \<Rightarrow> ptr \<times> mm_state" where
  "mm_new_empty_entity s = alloc \<lparr>ID = nil_id, StatusID = 0\<rparr> s"

definition set_list :: "(xid \<rightharpoonup> ptr) \<Rightarrow> mm_state \<Rightarrow> mm_state" where
  "set_list l s = s\<lparr>mmgr := (mmgr s)\<lparr>EntityList_mock := l\<rparr>\<rparr>"

text \<open>
  \<open>Create\<close>: \<open>ec.ID = xid.New()\<close> writes through the pointer, then
  \<open>m.EntityList[ec.ID] = ec\<close>. The cast \<open>e.(*entityMock)\<close> holds: every caller
  passes an \<open>*entityMock\<close>.
\<close>

definition mm_create :: "ptr \<Rightarrow> string \<Rightarrow> mm_state \<Rightarrow> (mock_error + mm_value) \<times> mm_state" where
  "mm_create p pl s =
    (if wantCreateError (mmgr s) then (Inl (ErrorF ''Error create''), s)
     else
       (let (x, g') = new_with_time (mm_clock s) (mm_xgen s);
            s1 = s\<lparr>heap := (heap s)(p := (heap s p)\<lparr>ID := x\<rparr>), mm_xgen := g'\<rparr>
        in (Inr (PEntity p), set_list ((EntityList_mock (mmgr s))(x \<mapsto> p)) s1)))"

definition mm_delete :: "xid \<Rightarrow> mm_state \<Rightarrow> mock_error option \<times> mm_state" where
  "mm_delete i s =
    (if wantDeleteError (mmgr s) then (Some (ErrorF ''Error delete''), s)
     else if EntityList_mock (mmgr s) i = None then (Some ErrNotFound, s)
     else (None, set_list ((EntityList_mock (mmgr s))(i := None)) s))"

definition mm_get :: "xid \<Rightarrow> mm_state \<Rightarrow> (mock_error + mm_value) \<times> mm_state" where
  "mm_get i s =
    (if wantGetError (mmgr s) then (Inl (ErrorF ''Error get''), s)
     else case EntityList_mock (mmgr s) i of
            Some p \<Rightarrow> (Inr (PEntity p), s)
          | None \<Rightarrow> (Inl ErrNotFound, s))"

definition mm_get_list :: "list_modifiers \<Rightarrow> mm_state \<Rightarrow> (mock_error + mm_value) \<times> mm_state" where
  "mm_get_list lm s =
    (if wantGetListError (mmgr s) then (Inl (ErrorF ''Error getlist''), s)
     else if go_len (EntityList_mock (mmgr s)) = 0 then (Inl ErrNotFound, s)
     else (Inr (PList (List.map_filter (EntityList_mock (mmgr s))
                         (mm_range_order s (dom (EntityList_mock (mmgr s)))))), s))"

text \<open>\<open>Update\<close>: \<open>newE\<close> is the interface the handler passes, nil after \<open>null\<close>.\<close>

definition mm_update ::
  "xid \<Rightarrow> ptr option \<Rightarrow> string \<Rightarrow> mm_state \<Rightarrow> (mock_error + mm_value) \<times> mm_state" where
  "mm_update i new_e pl s =
    (if wantUpdateError (mmgr s) then (Inl (ErrorF ''Error update''), s)
     else if EntityList_mock (mmgr s) i = None then (Inl ErrNotFound, s)
     else case new_e of
            None \<Rightarrow> (Inr (PError ErrBadRequest), s)
          | Some p \<Rightarrow> (Inr (PEntity p), set_list ((EntityList_mock (mmgr s))(i \<mapsto> p)) s))"

text \<open>\<open>PartialUpdate\<close>: \<open>m.EntityList[id].StatusID = ...\<close> writes through the stored pointer.\<close>

definition mm_partial_update ::
  "xid \<Rightarrow> partial_update_data \<Rightarrow> string \<Rightarrow> mm_state \<Rightarrow> mock_error option go \<times> mm_state" where
  "mm_partial_update i pud pl s =
    (if wantPartialUpdateError (mmgr s) then (Returns (Some (ErrorF ''Error partial update'')), s)
     else if pud ''status_id'' = None then (Returns (Some ErrBadRequest), s)
     else case EntityList_mock (mmgr s) i of
            None \<Rightarrow> (Returns (Some ErrNotFound), s)
          | Some p \<Rightarrow>
              (case pud ''status_id'' of
                 Some (JNumber f) \<Rightarrow>
                   (Returns None, s\<lparr>heap := (heap s)(p := (heap s p)\<lparr>StatusID := go_float_to_int f\<rparr>)\<rparr>)
               | _ \<Rightarrow> (Panics ''interface conversion: interface {} is not float64'', s)))"

fun mm_map_error_to_http_error :: "mock_error \<Rightarrow> err_response" where
  "mm_map_error_to_http_error ErrNotFound = err_not_found"
| "mm_map_error_to_http_error ErrForbidden = err_forbidden (mock_error_value ErrForbidden)"
| "mm_map_error_to_http_error e = err_internal (mock_error_value e)"

section \<open>The double as the handlers use it\<close>

text \<open>
  A handler renders the value a method returns right after the call, reading the
  entities through the pointers: \<open>deref_result\<close>. \<open>POSTHandler\<close> and
  \<open>PUTHandler\<close> allocate \<open>NewEmptyEntity()\<close>, decode the body into it and pass the
  pointer on; \<open>mm_mgr\<close> allocates the decoded entity when the method is called, which
  no one can tell apart (a decoding failure leaves the allocation unreachable).
\<close>

fun deref_value :: "mm_state \<Rightarrow> mm_value \<Rightarrow> mock_value" where
  "deref_value s (PEntity p) = VEntity (heap s p)"
| "deref_value s (PList ps) = VList (map (heap s) ps)"
| "deref_value s (PError e) = VError e"

definition deref_result :: "(mock_error + mm_value) \<times> mm_state \<Rightarrow> (mock_error + mock_value) \<times> mm_state" where
  "deref_result r = (map_sum id (deref_value (snd r)) (fst r), snd r)"

definition mm_mgr :: "(mm_state, entity_mock, mock_value, mock_error) mgr_i" where
  "mm_mgr =
    \<lparr>new_empty_entity = \<lparr>ID = nil_id, StatusID = 0\<rparr>,
     create = (\<lambda>e pl s. case alloc e s of (p, s1) \<Rightarrow> deref_result (mm_create p pl s1)),
     delete = mm_delete,
     get = (\<lambda>i s. deref_result (mm_get i s)),
     get_list = (\<lambda>lm s. deref_result (mm_get_list lm s)),
     update = (\<lambda>i eo pl s. case eo of
                 None \<Rightarrow> deref_result (mm_update i None pl s)
               | Some e \<Rightarrow> (case alloc e s of (p, s1) \<Rightarrow> deref_result (mm_update i (Some p) pl s1))),
     partial_update = mm_partial_update,
     map_error_to_http_error = mm_map_error_to_http_error,
     error_value = mock_error_value,
     decode_entity = decode_entity_mock\<rparr>"

section \<open>Separation and abstraction\<close>

text \<open>
  No two keys share a pointer and every stored pointer is allocated; the entities
  the keys reach, read through the heap; and the state of \<open>Mock\<close> they make.
\<close>

definition mm_sep :: "mm_state \<Rightarrow> bool" where
  "mm_sep s \<longleftrightarrow>
     inj_on (EntityList_mock (mmgr s)) (dom (EntityList_mock (mmgr s))) \<and>
     (\<forall>p\<in>ran (EntityList_mock (mmgr s)). p < next_ptr s)"

definition mm_store :: "mm_state \<Rightarrow> xid \<rightharpoonup> entity" where
  "mm_store s k = map_option (heap s) (EntityList_mock (mmgr s) k)"

definition mm_abs :: "mm_state \<Rightarrow> mock_state" where
  "mm_abs s =
    \<lparr>mgr = \<lparr>WantCreateError = wantCreateError (mmgr s), WantDeleteError = wantDeleteError (mmgr s),
            WantGetError = wantGetError (mmgr s), WantGetListError = wantGetListError (mmgr s),
            WantUpdateError = wantUpdateError (mmgr s),
            WantPartialUpdateError = wantPartialUpdateError (mmgr s),
            EntityList = mm_store s\<rparr>,
     xgen = mm_xgen s, clock = mm_clock s, range_order = mm_range_order s\<rparr>"

definition mm_rel :: "mm_state \<Rightarrow> mock_state \<Rightarrow> bool" where
  "mm_rel s t \<longleftrightarrow> mm_sep s \<and> t = mm_abs s"

text \<open>\<open>newMgrMock()\<close> over an empty heap, with the process's generator, clock and order.\<close>

definition mm_start :: "xid_gen \<Rightarrow> int \<Rightarrow> (xid set \<Rightarrow> xid list) \<Rightarrow> mm_state" where
  "mm_start g t ro =
    \<lparr>mmgr = new_mgr_mock, heap = (\<lambda>_. \<lparr>ID = nil_id, StatusID = 0\<rparr>), next_ptr = 0,
     mm_xgen = g, mm_clock = t, mm_range_order = ro\<rparr>"

section \<open>Serving requests with the double\<close>

text \<open>
  The handler of each route, as \<open>main.go\<close> builds it, over any manager: the
  tests construct these handlers over \<open>mgrMock\<close> (\<open>GETHandler(m)\<close>, ...).
\<close>

definition handle :: "route \<Rightarrow> ('s, 'e, 'v, 'err) mgr_i \<Rightarrow> request \<Rightarrow> 's \<Rightarrow> 'v http_response go \<times> 's" where
  "handle rt m r s =
    (case rt of
       ListRoute \<Rightarrow> respond (get_list_handler m r s)
     | PostRoute \<Rightarrow> respond (post_handler m r s)
     | GetRoute \<Rightarrow> respond (get_handler m r s)
     | PatchRoute \<Rightarrow> patch_handler m r s
     | PutRoute \<Rightarrow> respond (put_handler m r s)
     | DeleteRoute \<Rightarrow> respond (delete_handler m r s))"

text \<open>
  The states of the double reached from \<open>newMgrMock()\<close> by requests served through
  the handlers, with the clock and the iteration order moving in between; direct
  calls of the methods, as the test fixtures make, are not among them.
\<close>

inductive mm_reachable :: "mm_state \<Rightarrow> bool" where
  start: "mm_reachable (mm_start g t ro)"
| request: "mm_reachable s \<Longrightarrow> handle rt mm_mgr r s = (resp, s') \<Longrightarrow> mm_reachable s'"
| tick: "mm_reachable s \<Longrightarrow> mm_reachable (s\<lparr>mm_clock := t\<rparr>)"
| reorder: "mm_reachable s \<Longrightarrow> mm_reachable (s\<lparr>mm_range_order := ro\<rparr>)"

section \<open>Lemmas: the handlers preserve a simulation\<close>

lemma rel_resI: "fst p = fst q \<Longrightarrow> R (snd p) (snd q) \<Longrightarrow> rel_res R p q"
  by (simp add: rel_res_def)

lemma rel_res_pair: "rel_res R (a, s) (b, t) \<longleftrightarrow> a = b \<and> R s t"
  by (simp add: rel_res_def)

lemma mgr_simD:
  assumes "mgr_sim R mc ma"
  shows "new_empty_entity mc = new_empty_entity ma" "map_error_to_http_error mc = map_error_to_http_error ma"
    "error_value mc = error_value ma" "decode_entity mc = decode_entity ma"
  using assms by (simp_all add: mgr_sim_def)

lemma mgr_sim_ops:
  assumes "mgr_sim R mc ma" and "R s t"
  shows "rel_res R (create mc e pl s) (create ma e pl t)" "rel_res R (delete mc i s) (delete ma i t)"
    "rel_res R (get mc i s) (get ma i t)" "rel_res R (get_list mc lm s) (get_list ma lm t)"
    "rel_res R (update mc i eo pl s) (update ma i eo pl t)"
    "rel_res R (partial_update mc i pud pl s) (partial_update ma i pud pl t)"
  using assms by (simp_all add: mgr_sim_def)

text \<open>A related pair of results, split into its two components.\<close>

lemma rel_res_cases:
  assumes "rel_res R p q"
  obtains a s' t' where "p = (a, s')" and "q = (a, t')" and "R s' t'"
  using assms by (cases p, cases q) (simp add: rel_res_def)

lemma post_handler_sim:
  assumes sim: "mgr_sim R mc ma" and st: "R s t"
  shows "rel_res R (post_handler mc r s) (post_handler ma r t)"
proof -
  note pure = mgr_simD[OF sim]
  show ?thesis
  proof (cases "body_json r")
    case None then show ?thesis using st by (simp add: post_handler_def rel_res_def)
  next
    case (Some j)
    show ?thesis
    proof (cases "decode_entity ma j (new_empty_entity ma)")
      case None then show ?thesis using Some st pure by (simp add: post_handler_def rel_res_def)
    next
      case (Some e)
      obtain a s' t' where "create mc e (body r) s = (a, s')" "create ma e (body r) t = (a, t')" "R s' t'"
        using mgr_sim_ops(1)[OF sim st] by (rule rel_res_cases)
      then show ?thesis using \<open>body_json r = Some j\<close> Some pure
        by (simp add: post_handler_def rel_res_def split: sum.splits)
    qed
  qed
qed

lemma get_list_handler_sim:
  assumes sim: "mgr_sim R mc ma" and st: "R s t"
  shows "rel_res R (get_list_handler mc r s) (get_list_handler ma r t)"
proof -
  obtain a s' t' where "get_list mc (list_modifiers_from_url r) s = (a, s')"
      "get_list ma (list_modifiers_from_url r) t = (a, t')" "R s' t'"
    using mgr_sim_ops(4)[OF sim st] by (rule rel_res_cases)
  then show ?thesis using mgr_simD[OF sim] by (simp add: get_list_handler_def rel_res_def split: sum.splits)
qed

lemma get_handler_sim:
  assumes sim: "mgr_sim R mc ma" and st: "R s t"
  shows "rel_res R (get_handler mc r s) (get_handler ma r t)"
proof (cases "parse_id_from_request r")
  case (Inr i)
  obtain a s' t' where "get mc i s = (a, s')" "get ma i t = (a, t')" "R s' t'"
    using mgr_sim_ops(3)[OF sim st] by (rule rel_res_cases)
  then show ?thesis using Inr mgr_simD[OF sim] by (simp add: get_handler_def rel_res_def split: sum.splits)
qed (simp add: get_handler_def rel_res_def st)

lemma delete_handler_sim:
  assumes sim: "mgr_sim R mc ma" and st: "R s t"
  shows "rel_res R (delete_handler mc r s) (delete_handler ma r t)"
proof (cases "parse_id_from_request r")
  case (Inr i)
  obtain a s' t' where "delete mc i s = (a, s')" "delete ma i t = (a, t')" "R s' t'"
    using mgr_sim_ops(2)[OF sim st] by (rule rel_res_cases)
  then show ?thesis using Inr mgr_simD[OF sim] by (simp add: delete_handler_def rel_res_def split: option.splits)
qed (simp add: delete_handler_def rel_res_def st)

lemma decode_into_interface_sim:
  "mgr_sim R mc ma \<Longrightarrow> decode_into_interface mc j e = decode_into_interface ma j e"
  by (simp add: decode_into_interface_def mgr_simD)

lemma put_handler_sim:
  assumes sim: "mgr_sim R mc ma" and st: "R s t"
  shows "rel_res R (put_handler mc r s) (put_handler ma r t)"
proof (cases "parse_id_from_request r")
  case (Inr i)
  show ?thesis
  proof (cases "body_json r")
    case (Some j)
    show ?thesis
    proof (cases "decode_into_interface ma j (new_empty_entity ma)")
      case (Some eo)
      obtain a s' t' where "update mc i eo (body r) s = (a, s')" "update ma i eo (body r) t = (a, t')" "R s' t'"
        using mgr_sim_ops(5)[OF sim st] by (rule rel_res_cases)
      then show ?thesis using Inr \<open>body_json r = Some j\<close> Some mgr_simD[OF sim] decode_into_interface_sim[OF sim]
        by (simp add: put_handler_def rel_res_def split: sum.splits)
    qed (use Inr \<open>body_json r = Some j\<close> st mgr_simD[OF sim] decode_into_interface_sim[OF sim] in
         \<open>simp add: put_handler_def rel_res_def\<close>)
  qed (use Inr st in \<open>simp add: put_handler_def rel_res_def\<close>)
qed (simp add: put_handler_def rel_res_def st)

lemma patch_handler_sim:
  assumes sim: "mgr_sim R mc ma" and st: "R s t"
  shows "rel_res R (patch_handler mc r s) (patch_handler ma r t)"
proof (cases "parse_id_from_request r")
  case (Inr i)
  show ?thesis
  proof (cases "body_json r")
    case (Some j)
    show ?thesis
    proof (cases "decode_object_map j Map.empty")
      case (Some pud)
      obtain a s' t' where "partial_update mc i pud (body r) s = (a, s')"
          "partial_update ma i pud (body r) t = (a, t')" "R s' t'"
        using mgr_sim_ops(6)[OF sim st] by (rule rel_res_cases)
      then show ?thesis using Inr \<open>body_json r = Some j\<close> Some mgr_simD[OF sim]
        by (simp add: patch_handler_def rel_res_def split: go.splits option.splits)
    qed (use Inr \<open>body_json r = Some j\<close> st in \<open>simp add: patch_handler_def rel_res_def\<close>)
  qed (use Inr st in \<open>simp add: patch_handler_def rel_res_def\<close>)
qed (simp add: patch_handler_def rel_res_def st)

section \<open>Lemmas: maps of pointers\<close>


lemma inj_dom_upd_fresh:
  "inj_on m (dom m) \<Longrightarrow> v \<notin> ran m \<Longrightarrow> inj_on (m(k \<mapsto> v)) (dom (m(k \<mapsto> v)))"
  unfolding inj_on_def ran_def by auto

lemma inj_dom_del: "inj_on m (dom m) \<Longrightarrow> inj_on (m(k := None)) (dom (m(k := None)))"
  unfolding inj_on_def by auto

lemma inj_dom_same: "inj_on m (dom m) \<Longrightarrow> m i = Some p \<Longrightarrow> m k = Some p \<Longrightarrow> k = i"
  unfolding inj_on_def by (metis domI)

lemma map_option_upd_fresh: "p \<notin> ran m \<Longrightarrow> map_option (h(p := e)) (m k) = map_option h (m k)"
  by (cases "m k") (auto simp: ran_def)

lemma map_filter_map_option:
  "List.map_filter (\<lambda>k. map_option f (m k)) xs = map f (List.map_filter m xs)"
  by (induction xs) (auto simp: List.map_filter_simps split: option.splits)

lemma mm_abs_sel [simp]:
  "WantCreateError (mgr (mm_abs s)) = wantCreateError (mmgr s)"
  "WantDeleteError (mgr (mm_abs s)) = wantDeleteError (mmgr s)"
  "WantGetError (mgr (mm_abs s)) = wantGetError (mmgr s)"
  "WantGetListError (mgr (mm_abs s)) = wantGetListError (mmgr s)"
  "WantUpdateError (mgr (mm_abs s)) = wantUpdateError (mmgr s)"
  "WantPartialUpdateError (mgr (mm_abs s)) = wantPartialUpdateError (mmgr s)"
  "EntityList (mgr (mm_abs s)) = mm_store s"
  "xgen (mm_abs s) = mm_xgen s" "clock (mm_abs s) = mm_clock s" "range_order (mm_abs s) = mm_range_order s"
  by (simp_all add: mm_abs_def)

lemma mm_abs_set_list:
  "mm_abs (set_list l s) = set_entities (\<lambda>k. map_option (heap s) (l k)) (mm_abs s)"
  by (simp add: mm_abs_def set_list_def set_entities_def mm_store_def fun_eq_iff)

lemma mm_store_dom [simp]: "dom (mm_store s) = dom (EntityList_mock (mmgr s))"
  by (auto simp: mm_store_def)

lemma alloc_fresh:
  assumes "mm_sep s" and "alloc e s = (p, s1)"
  shows "mm_sep s1" "mm_abs s1 = mm_abs s" "heap s1 p = e" "p \<notin> ran (EntityList_mock (mmgr s1))"
    "p < next_ptr s1" "EntityList_mock (mmgr s1) = EntityList_mock (mmgr s)"
proof -
  have p: "p = next_ptr s" and s1: "s1 = s\<lparr>heap := (heap s)(p := e), next_ptr := Suc p\<rparr>"
    using assms(2) by (auto simp: alloc_def)
  have nr: "p \<notin> ran (EntityList_mock (mmgr s))" using assms(1) p by (auto simp: mm_sep_def)
  show "mm_sep s1" using assms(1) by (auto simp: mm_sep_def s1 p)
  show "mm_abs s1 = mm_abs s"
    using nr by (simp add: s1 mm_abs_def mm_store_def map_option_upd_fresh fun_eq_iff)
  show "heap s1 p = e" "p < next_ptr s1" "EntityList_mock (mmgr s1) = EntityList_mock (mmgr s)"
    by (simp_all add: s1)
  show "p \<notin> ran (EntityList_mock (mmgr s1))" using nr by (simp add: s1)
qed

lemma mm_create_sim:
  assumes sep: "mm_sep s" and nr: "p \<notin> ran (EntityList_mock (mmgr s))" and lt: "p < next_ptr s"
  shows "rel_res mm_rel (deref_result (mm_create p pl s)) (mock_create (heap s p) pl (mm_abs s))"
proof (cases "wantCreateError (mmgr s)")
  case True then show ?thesis using sep
    by (simp add: mm_create_def mock_create_def deref_result_def rel_res_def mm_rel_def mm_abs_def)
next
  case False
  obtain x g' where nw: "new_with_time (mm_clock s) (mm_xgen s) = (x, g')" by fastforce
  let ?m = "EntityList_mock (mmgr s)" and ?e = "(heap s p)\<lparr>ID := x\<rparr>"
  define s2 where "s2 = set_list (?m(x \<mapsto> p)) (s\<lparr>heap := (heap s)(p := ?e), mm_xgen := g'\<rparr>)"
  have c: "mm_create p pl s = (Inr (PEntity p), s2)" using False nw by (simp add: mm_create_def s2_def)
  have m2: "EntityList_mock (mmgr s2) = ?m(x \<mapsto> p)" and h2: "heap s2 = (heap s)(p := ?e)"
    by (simp_all add: s2_def set_list_def)
  have "inj_on (?m(x \<mapsto> p)) (dom (?m(x \<mapsto> p)))"
    using sep nr by (intro inj_dom_upd_fresh) (simp_all add: mm_sep_def)
  moreover have "\<forall>q\<in>ran (?m(x \<mapsto> p)). q < next_ptr s"
    using sep lt ran_map_upd_Some[of ?m x p] by (auto simp: mm_sep_def ran_def)
  ultimately have sep2: "mm_sep s2" by (simp add: mm_sep_def m2) (simp add: s2_def set_list_def)
  have "mm_store s2 = (mm_store s)(x \<mapsto> ?e)"
    using nr by (auto simp: mm_store_def fun_eq_iff m2 h2 map_option_upd_fresh)
  then have abs2: "mm_abs s2 = snd (mock_create (heap s p) pl (mm_abs s))"
    using False nw by (simp add: mm_abs_def mock_create_def set_entities_def Let_def) (simp add: s2_def set_list_def)
  show ?thesis unfolding rel_res_def mm_rel_def deref_result_def c using sep2 abs2 False nw
    by (simp add: h2 mock_create_def Let_def)
qed


lemma mm_sep_set_list:
  "mm_sep s \<Longrightarrow> inj_on l (dom l) \<Longrightarrow> ran l \<subseteq> ran (EntityList_mock (mmgr s)) \<Longrightarrow> mm_sep (set_list l s)"
  by (auto simp: mm_sep_def set_list_def)

lemma ran_map_del: "ran (m(k := None)) \<subseteq> ran m"
  by (auto simp: ran_def)

lemma mm_delete_sim:
  assumes "mm_sep s"
  shows "rel_res mm_rel (mm_delete i s) (mock_delete i (mm_abs s))"
proof -
  have "mm_sep (set_list ((EntityList_mock (mmgr s))(i := None)) s)"
    using assms by (intro mm_sep_set_list inj_dom_del ran_map_del) (simp_all add: mm_sep_def)
  moreover have "mm_store s i = None \<longleftrightarrow> EntityList_mock (mmgr s) i = None"
    by (simp add: mm_store_def)
  moreover have "(\<lambda>k. map_option (heap s) (((EntityList_mock (mmgr s))(i := None)) k)) = (mm_store s)(i := None)"
    by (simp add: mm_store_def fun_eq_iff)
  ultimately show ?thesis using assms
    by (simp add: mm_delete_def mock_delete_def rel_res_def mm_rel_def mm_abs_set_list)
qed

lemma mm_get_sim:
  assumes "mm_sep s"
  shows "rel_res mm_rel (deref_result (mm_get i s)) (mock_get i (mm_abs s))"
  using assms by (simp add: mm_get_def mock_get_def deref_result_def rel_res_def mm_rel_def mm_store_def
      split: option.splits)

lemma mm_get_list_sim:
  assumes "mm_sep s"
  shows "rel_res mm_rel (deref_result (mm_get_list lm s)) (mock_get_list lm (mm_abs s))"
proof -
  have "go_len (mm_store s) = go_len (EntityList_mock (mmgr s))" by (simp add: go_len_def)
  moreover have "List.map_filter (mm_store s) ks = map (heap s) (List.map_filter (EntityList_mock (mmgr s)) ks)" for ks
    using map_filter_map_option[of "heap s" "EntityList_mock (mmgr s)" ks] by (simp add: mm_store_def[abs_def])
  ultimately show ?thesis using assms
    by (simp add: mm_get_list_def mock_get_list_def deref_result_def rel_res_def mm_rel_def)
qed

lemma mm_update_sim:
  assumes sep: "mm_sep s" and fresh: "\<forall>p. eo = Some p \<longrightarrow> p \<notin> ran (EntityList_mock (mmgr s)) \<and> p < next_ptr s"
  shows "rel_res mm_rel (deref_result (mm_update i eo pl s)) (mock_update i (map_option (heap s) eo) pl (mm_abs s))"
proof (cases "wantUpdateError (mmgr s) \<or> EntityList_mock (mmgr s) i = None \<or> eo = None")
  case True then show ?thesis using sep
    by (auto simp: mm_update_def mock_update_def deref_result_def rel_res_def mm_rel_def mm_store_def)
next
  case False
  then obtain p where p: "eo = Some p" and nf: "\<not> wantUpdateError (mmgr s)" and
      i: "EntityList_mock (mmgr s) i \<noteq> None" by auto
  let ?m = "EntityList_mock (mmgr s)"
  have "inj_on (?m(i \<mapsto> p)) (dom (?m(i \<mapsto> p)))"
    using sep fresh p by (intro inj_dom_upd_fresh) (simp_all add: mm_sep_def)
  moreover have "\<forall>q\<in>ran (?m(i \<mapsto> p)). q < next_ptr s"
    using sep fresh p ran_map_upd_Some[of ?m i p] by (auto simp: mm_sep_def ran_def)
  ultimately have "mm_sep (set_list (?m(i \<mapsto> p)) s)" by (simp add: mm_sep_def set_list_def)
  moreover have "(\<lambda>k. map_option (heap s) ((?m(i \<mapsto> p)) k)) = (mm_store s)(i \<mapsto> heap s p)"
    by (simp add: mm_store_def fun_eq_iff)
  moreover have "mm_store s i \<noteq> None" using i by (simp add: mm_store_def)
  ultimately show ?thesis using nf i p
    by (simp add: mm_update_def mock_update_def deref_result_def rel_res_def mm_rel_def mm_abs_set_list)
       (simp add: set_list_def)
qed

lemma mm_partial_update_sim:
  assumes sep: "mm_sep s"
  shows "rel_res mm_rel (mm_partial_update i pud pl s) (mock_partial_update i pud pl (mm_abs s))"
proof (cases "wantPartialUpdateError (mmgr s) \<or> pud ''status_id'' = None \<or> EntityList_mock (mmgr s) i = None")
  case True then show ?thesis using sep
    by (auto simp: mm_partial_update_def mock_partial_update_def rel_res_def mm_rel_def mm_store_def)
next
  case False
  then obtain p v where p: "EntityList_mock (mmgr s) i = Some p" and v: "pud ''status_id'' = Some v"
      and nf: "\<not> wantPartialUpdateError (mmgr s)" by auto
  show ?thesis
  proof (cases "\<exists>f. v = JNumber f")
    case True
    then obtain f where f: "v = JNumber f" by blast
    let ?e = "(heap s p)\<lparr>StatusID := go_float_to_int f\<rparr>"
    define s2 where "s2 = s\<lparr>heap := (heap s)(p := ?e)\<rparr>"
    have "mm_store s2 = (mm_store s)(i \<mapsto> ?e)"
    proof
      fix k show "mm_store s2 k = ((mm_store s)(i \<mapsto> ?e)) k"
      proof (cases "EntityList_mock (mmgr s) k")
        case (Some q)
        then have "k = i \<longleftrightarrow> q = p" using sep p inj_dom_same[of _ i p k] by (auto simp: mm_sep_def)
        then show ?thesis using Some p by (auto simp: mm_store_def s2_def)
      qed (use p in \<open>auto simp: mm_store_def s2_def\<close>)
    qed
    moreover have "mm_sep s2" using sep by (simp add: mm_sep_def s2_def)
    moreover have "mm_abs s2 = set_entities ((mm_store s)(i \<mapsto> ?e)) (mm_abs s)"
      using calculation(1) by (simp add: mm_abs_def set_entities_def) (simp add: s2_def)
    ultimately show ?thesis using nf p v f
      by (simp add: mm_partial_update_def mock_partial_update_def rel_res_def mm_rel_def mm_store_def s2_def)
  next
    case False
    then show ?thesis using sep nf p v
      by (cases v) (simp_all add: mm_partial_update_def mock_partial_update_def rel_res_def mm_rel_def mm_store_def)
  qed
qed


lemma mm_map_error_same: "mm_map_error_to_http_error = mock_map_error_to_http_error"
proof
  fix e show "mm_map_error_to_http_error e = mock_map_error_to_http_error e" by (cases e) simp_all
qed

lemma mm_mgr_sim: "mgr_sim mm_rel mm_mgr mock_mgr"
  unfolding mgr_sim_def
proof (intro conjI allI impI)
  show "new_empty_entity mm_mgr = new_empty_entity mock_mgr"
    by (simp add: mm_mgr_def new_empty_entity_mock_def)
  show "map_error_to_http_error mm_mgr = map_error_to_http_error mock_mgr"
    by (simp add: mm_mgr_def mm_map_error_same)
  show "error_value mm_mgr = error_value mock_mgr" "decode_entity mm_mgr = decode_entity mock_mgr"
    by (simp_all add: mm_mgr_def)
  fix s t assume "mm_rel s t"
  then have sep: "mm_sep s" and t: "t = mm_abs s" by (simp_all add: mm_rel_def)
  show "rel_res mm_rel (delete mm_mgr i s) (delete mock_mgr i t)"
    "rel_res mm_rel (get mm_mgr i s) (get mock_mgr i t)"
    "rel_res mm_rel (get_list mm_mgr lm s) (get_list mock_mgr lm t)"
    "rel_res mm_rel (partial_update mm_mgr i pud pl s) (partial_update mock_mgr i pud pl t)" for i lm pud pl
    using sep by (simp_all add: mm_mgr_def t mm_delete_sim mm_get_sim mm_get_list_sim mm_partial_update_sim)
  show "rel_res mm_rel (create mm_mgr e pl s) (create mock_mgr e pl t)" for e pl
  proof -
    obtain p s1 where a: "alloc e s = (p, s1)" by fastforce
    note f = alloc_fresh[OF sep a]
    show ?thesis using mm_create_sim[OF f(1,4,5), of pl] by (simp add: mm_mgr_def a t f(2,3))
  qed
  show "rel_res mm_rel (update mm_mgr i eo pl s) (update mock_mgr i eo pl t)" for i eo pl
  proof (cases eo)
    case None then show ?thesis using mm_update_sim[OF sep, of None i pl] by (simp add: mm_mgr_def t)
  next
    case (Some e)
    obtain p s1 where a: "alloc e s = (p, s1)" by fastforce
    note f = alloc_fresh[OF sep a]
    show ?thesis using mm_update_sim[OF f(1), of "Some p" i pl] f(4,5) by (simp add: mm_mgr_def a t f(2,3) Some)
  qed
qed

section \<open>Lemmas: states of the double\<close>

lemma mm_start_sel [simp]:
  "mmgr (mm_start g t ro) = new_mgr_mock" "mm_xgen (mm_start g t ro) = g" "mm_clock (mm_start g t ro) = t"
  "mm_range_order (mm_start g t ro) = ro" "next_ptr (mm_start g t ro) = 0"
  by (simp_all add: mm_start_def)

lemma new_mgr_mock_sel [simp]:
  "\<not> wantCreateError new_mgr_mock" "\<not> wantDeleteError new_mgr_mock" "\<not> wantGetError new_mgr_mock"
  "\<not> wantGetListError new_mgr_mock" "\<not> wantUpdateError new_mgr_mock" "\<not> wantPartialUpdateError new_mgr_mock"
  "EntityList_mock new_mgr_mock = Map.empty"
  by (simp_all add: new_mgr_mock_def)

lemma mm_sep_start: "mm_sep (mm_start g t ro)"
  by (simp add: mm_sep_def)

lemma mm_create_ok:
  "\<not> wantCreateError (mmgr s) \<Longrightarrow> new_with_time (mm_clock s) (mm_xgen s) = (x, g') \<Longrightarrow>
   mm_create p pl s = (Inr (PEntity p), set_list ((EntityList_mock (mmgr s))(x \<mapsto> p))
                         (s\<lparr>heap := (heap s)(p := (heap s p)\<lparr>ID := x\<rparr>), mm_xgen := g'\<rparr>))"
  by (simp add: mm_create_def)

lemma handle_sim:
  assumes "mgr_sim R mc ma" and "R s t"
  shows "rel_res R (handle rt mc r s) (handle rt ma r t)"
proof -
  have resp: "rel_res R p q \<Longrightarrow> rel_res R (respond p) (respond q)" for p q :: "'v http_response \<times> _"
    by (simp add: respond_def rel_res_def)
  show ?thesis
    by (cases rt) (simp_all add: handle_def resp post_handler_sim get_list_handler_sim get_handler_sim
        delete_handler_sim put_handler_sim patch_handler_sim assms)
qed

lemma serve_handle: "serve rt r s = handle rt mock_mgr r s"
  by (simp add: serve_def handle_def)

lemma mm_abs_start: "mm_abs (mm_start g t ro) = start_state g t ro"
  by (simp add: mm_abs_def mm_start_def start_state_def new_mgr_def new_mgr_mock_def mm_store_def[abs_def])

lemma mm_abs_tick: "mm_abs (s\<lparr>mm_clock := t\<rparr>) = (mm_abs s)\<lparr>clock := t\<rparr>"
  and mm_abs_reorder: "mm_abs (s\<lparr>mm_range_order := ro\<rparr>) = (mm_abs s)\<lparr>range_order := ro\<rparr>"
  by (simp_all add: mm_abs_def mm_store_def[abs_def])

lemma mm_sep_tick: "mm_sep (s\<lparr>mm_clock := t\<rparr>) = mm_sep s"
  and mm_sep_reorder: "mm_sep (s\<lparr>mm_range_order := ro\<rparr>) = mm_sep s"
  by (simp_all add: mm_sep_def)

section \<open>The double and the value model\<close>

text \<open>
  C27: from any state where no two keys share a pointer, each of the six handlers
  answers over \<open>mgrMock\<close> exactly as over the value model \<open>mock_mgr\<close>, leaves
  the keys separate, and reaches the state of \<open>Mock\<close> that the value model reaches.
  The new state is separate again, so the theorem applies to the next request.
\<close>

theorem mgr_mock_simulates_mock:
  assumes "mm_sep s"
  shows "rel_res mm_rel (post_handler mm_mgr r s) (post_handler mock_mgr r (mm_abs s)) \<and>
         rel_res mm_rel (get_list_handler mm_mgr r s) (get_list_handler mock_mgr r (mm_abs s)) \<and>
         rel_res mm_rel (get_handler mm_mgr r s) (get_handler mock_mgr r (mm_abs s)) \<and>
         rel_res mm_rel (delete_handler mm_mgr r s) (delete_handler mock_mgr r (mm_abs s)) \<and>
         rel_res mm_rel (put_handler mm_mgr r s) (put_handler mock_mgr r (mm_abs s)) \<and>
         rel_res mm_rel (patch_handler mm_mgr r s) (patch_handler mock_mgr r (mm_abs s))"
proof -
  have st: "mm_rel s (mm_abs s)" using assms by (simp add: mm_rel_def)
  note h = mm_mgr_sim st
  show ?thesis
    using post_handler_sim[OF h] get_list_handler_sim[OF h] get_handler_sim[OF h]
      delete_handler_sim[OF h] put_handler_sim[OF h] patch_handler_sim[OF h] by blast
qed

text \<open>
  C28: called twice with the same pointer, \<open>Create\<close> writes the second identifier
  through it: the key the first call returned now reaches an entity whose \<open>id\<close> is
  another identifier, and two keys share one pointer. An identifier is not immutable
  once assigned (spec.md, section 3) for a caller that reuses its entity, as the
  fixtures of \<open>handler_test.go\<close> do.
\<close>

theorem create_same_pointer_renames:
  assumes "\<not> wantCreateError (mmgr s)"
    and "mm_create p pl s = (r1, s1)" and "mm_create p pl' s1 = (r2, s2)"
  shows "mm_store s2 (fst (new_with_time (mm_clock s) (mm_xgen s))) = Some (heap s2 p) \<and>
         ID (heap s2 p) = fst (new_with_time (mm_clock s1) (mm_xgen s1)) \<and>
         ID (heap s2 p) \<noteq> fst (new_with_time (mm_clock s) (mm_xgen s)) \<and>
         \<not> mm_sep s2"
proof -
  obtain x1 g1 where n1: "new_with_time (mm_clock s) (mm_xgen s) = (x1, g1)" by fastforce
  obtain x2 g2 where n2: "new_with_time (mm_clock s) g1 = (x2, g2)" by fastforce
  have "distinct (new_ids [mm_clock s, mm_clock s] (mm_xgen s))" by (rule new_ids_distinct) simp
  then have ne: "x1 \<noteq> x2" using n1 n2 by simp
  have s1: "s1 = set_list ((EntityList_mock (mmgr s))(x1 \<mapsto> p))
                 (s\<lparr>heap := (heap s)(p := (heap s p)\<lparr>ID := x1\<rparr>), mm_xgen := g1\<rparr>)"
    using assms(1,2) n1 by (simp add: mm_create_def)
  have c1: "\<not> wantCreateError (mmgr s1)" "mm_clock s1 = mm_clock s" "mm_xgen s1 = g1"
    "EntityList_mock (mmgr s1) = (EntityList_mock (mmgr s))(x1 \<mapsto> p)"
    using assms(1) by (simp_all add: s1 set_list_def)
  have s2: "s2 = set_list ((EntityList_mock (mmgr s1))(x2 \<mapsto> p))
                 (s1\<lparr>heap := (heap s1)(p := (heap s1 p)\<lparr>ID := x2\<rparr>), mm_xgen := g2\<rparr>)"
    using assms(3) c1 n2 by (simp add: mm_create_def)
  have l2: "EntityList_mock (mmgr s2) x1 = Some p" "EntityList_mock (mmgr s2) x2 = Some p"
    using c1(4) by (simp_all add: s2 set_list_def)
  have "\<not> inj_on (EntityList_mock (mmgr s2)) (dom (EntityList_mock (mmgr s2)))"
    using l2 ne inj_dom_same[of "EntityList_mock (mmgr s2)" x2 p x1] by auto
  then show ?thesis using l2 ne n1 n2 c1
    by (simp add: mm_store_def mm_sep_def) (simp add: s2 set_list_def)
qed


theorem mgr_mock_simulates_mock_witness:
  "mm_sep (mm_start \<lparr>machine_id = [1, 2, 3], pid = 42, object_id_counter = 0\<rparr> 1700000000 (\<lambda>_. [])) \<and>
   rel_res mm_rel (post_handler mm_mgr \<lparr>url_id = [], raw_query = [], query_order = [], body = [], body_json = None\<rparr> (mm_start \<lparr>machine_id = [1, 2, 3], pid = 42, object_id_counter = 0\<rparr> 1700000000 (\<lambda>_. [])))
     (post_handler mock_mgr \<lparr>url_id = [], raw_query = [], query_order = [], body = [], body_json = None\<rparr> (mm_abs (mm_start \<lparr>machine_id = [1, 2, 3], pid = 42, object_id_counter = 0\<rparr> 1700000000 (\<lambda>_. []))))"
  using mm_sep_start mgr_mock_simulates_mock[OF mm_sep_start] by blast

theorem create_same_pointer_renames_witness:
  "\<not> wantCreateError (mmgr (snd (mm_new_empty_entity (mm_start \<lparr>machine_id = [1, 2, 3], pid = 42, object_id_counter = 0\<rparr> 1700000000 (\<lambda>_. []))))) \<and>
   mm_store (snd (mm_create 0 [] (snd (mm_create 0 [] (snd (mm_new_empty_entity (mm_start \<lparr>machine_id = [1, 2, 3], pid = 42, object_id_counter = 0\<rparr> 1700000000 (\<lambda>_. [])))))))) (fst (new_with_time (mm_clock (snd (mm_new_empty_entity (mm_start \<lparr>machine_id = [1, 2, 3], pid = 42, object_id_counter = 0\<rparr> 1700000000 (\<lambda>_. []))))) (mm_xgen (snd (mm_new_empty_entity (mm_start \<lparr>machine_id = [1, 2, 3], pid = 42, object_id_counter = 0\<rparr> 1700000000 (\<lambda>_. []))))))) = Some (heap (snd (mm_create 0 [] (snd (mm_create 0 [] (snd (mm_new_empty_entity (mm_start \<lparr>machine_id = [1, 2, 3], pid = 42, object_id_counter = 0\<rparr> 1700000000 (\<lambda>_. [])))))))) 0) \<and>
   ID (heap (snd (mm_create 0 [] (snd (mm_create 0 [] (snd (mm_new_empty_entity (mm_start \<lparr>machine_id = [1, 2, 3], pid = 42, object_id_counter = 0\<rparr> 1700000000 (\<lambda>_. [])))))))) 0) \<noteq> fst (new_with_time (mm_clock (snd (mm_new_empty_entity (mm_start \<lparr>machine_id = [1, 2, 3], pid = 42, object_id_counter = 0\<rparr> 1700000000 (\<lambda>_. []))))) (mm_xgen (snd (mm_new_empty_entity (mm_start \<lparr>machine_id = [1, 2, 3], pid = 42, object_id_counter = 0\<rparr> 1700000000 (\<lambda>_. [])))))) \<and>
   \<not> mm_sep (snd (mm_create 0 [] (snd (mm_create 0 [] (snd (mm_new_empty_entity (mm_start \<lparr>machine_id = [1, 2, 3], pid = 42, object_id_counter = 0\<rparr> 1700000000 (\<lambda>_. []))))))))"
proof -
  have nf: "\<not> wantCreateError (mmgr (snd (mm_new_empty_entity (mm_start \<lparr>machine_id = [1, 2, 3], pid = 42, object_id_counter = 0\<rparr> 1700000000 (\<lambda>_. [])))))" by (simp add: mm_new_empty_entity_def alloc_def)
  show ?thesis using nf create_same_pointer_renames[OF nf prod.collapse[symmetric] prod.collapse[symmetric]] by blast
qed


text \<open>
  C31: every state the double reaches by requests served through the handlers keeps its
  keys separate and is, read through its pointers, a reachable state of the service
  over \<open>mock.Mgr\<close>; so the invariant of that service holds of the double too: a
  finite store of 12-byte keys and well-formed entities.
\<close>

theorem mm_reachable_refines:
  "mm_reachable s \<Longrightarrow> mm_sep s \<and> reachable (mm_abs s) \<and> wf_store (mm_store s)"
proof -
  assume "mm_reachable s"
  then have "mm_sep s \<and> reachable (mm_abs s)"
  proof (induction rule: mm_reachable.induct)
    case (start g t ro)
    show ?case by (simp add: mm_sep_start mm_abs_start reachable.start)
  next
    case (request s rt r resp s')
    then have rel: "mm_rel s (mm_abs s)" by (simp add: mm_rel_def)
    have "rel_res mm_rel (handle rt mm_mgr r s) (serve rt r (mm_abs s))"
      using handle_sim[OF mm_mgr_sim rel] by (simp add: serve_handle)
    then have "mm_sep s' \<and> mm_abs s' = snd (serve rt r (mm_abs s))"
      using request.hyps(2) by (simp add: rel_res_def mm_rel_def)
    then show ?case using request.IH reachable_serve by metis
  next
    case (tick s t)
    then show ?case by (simp add: mm_sep_tick mm_abs_tick reachable.tick)
  next
    case (reorder s ro)
    then show ?case by (simp add: mm_sep_reorder mm_abs_reorder reachable.reorder)
  qed
  moreover have "wf_store (mm_store s)" if "reachable (mm_abs s)"
    using reachable_inv[OF that] by simp
  ultimately show ?thesis by blast
qed


theorem mm_reachable_refines_witness:
  "mm_reachable (snd (handle PostRoute mm_mgr \<lparr>url_id = [], raw_query = [], query_order = [], body = [], body_json = Some (JObject [(''status_id'', JNumber 1)])\<rparr> (mm_start \<lparr>machine_id = [1, 2, 3], pid = 42, object_id_counter = 0\<rparr> 1700000000 (\<lambda>_. [])))) \<and>
   mm_sep (snd (handle PostRoute mm_mgr \<lparr>url_id = [], raw_query = [], query_order = [], body = [], body_json = Some (JObject [(''status_id'', JNumber 1)])\<rparr> (mm_start \<lparr>machine_id = [1, 2, 3], pid = 42, object_id_counter = 0\<rparr> 1700000000 (\<lambda>_. [])))) \<and> reachable (mm_abs (snd (handle PostRoute mm_mgr \<lparr>url_id = [], raw_query = [], query_order = [], body = [], body_json = Some (JObject [(''status_id'', JNumber 1)])\<rparr> (mm_start \<lparr>machine_id = [1, 2, 3], pid = 42, object_id_counter = 0\<rparr> 1700000000 (\<lambda>_. []))))) \<and> wf_store (mm_store (snd (handle PostRoute mm_mgr \<lparr>url_id = [], raw_query = [], query_order = [], body = [], body_json = Some (JObject [(''status_id'', JNumber 1)])\<rparr> (mm_start \<lparr>machine_id = [1, 2, 3], pid = 42, object_id_counter = 0\<rparr> 1700000000 (\<lambda>_. [])))))"
proof -
  have r: "mm_reachable (snd (handle PostRoute mm_mgr \<lparr>url_id = [], raw_query = [], query_order = [], body = [], body_json = Some (JObject [(''status_id'', JNumber 1)])\<rparr> (mm_start \<lparr>machine_id = [1, 2, 3], pid = 42, object_id_counter = 0\<rparr> 1700000000 (\<lambda>_. []))))"
    by (rule mm_reachable.request[OF mm_reachable.start surjective_pairing])
  show ?thesis using r mm_reachable_refines[OF r] by blast
qed

end
