(* ===== verification/HandlerTest.thy ===== *)
theory HandlerTest
  imports MockTest System
begin

text \<open>
  The tests of package \<open>rest\<close> (\<open>src/rest/handler_test.go\<close>,
  \<open>src/rest/listmodifiers_test.go\<close>) run against the model. Each test is a table of
  cases and a closure run on each; the closure builds a fresh \<open>mgrMock\<close>, prepares it
  with direct calls through the pointer \<open>e := m.NewEmptyEntity()\<close>, builds an
  \<open>httptest\<close> request, calls the handler and compares the status (and, for one
  status, the body) with the case. Here a table is a list of \<open>test_case\<close>
  (the anonymous structs of the tests, zero fields included), and each closure a
  bool-valued function of the case and the process state (generator, clock, map
  iteration order) that says whether the case passes. The response body is read
  back as the value rendered (\<open>decode_entity_json\<close> of \<open>Mock\<close>: rendering then
  decoding gives it back). The request's first JSON value is given with its text,
  as the rest of the development does (the JSON lexer is not modelled).
\<close>

section \<open>Requests built by the tests\<close>

text \<open>\<open>strconv.FormatInt(n, 10)\<close>, as \<open>encoding/json\<close> writes an \<open>int\<close>.\<close>

fun digits_text :: "nat \<Rightarrow> string" where
  "digits_text n = (if n < 10 then [char_of (48 + n)] else digits_text (n div 10) @ [char_of (48 + n mod 10)])"

definition int_text :: "int \<Rightarrow> string" where
  "int_text i = (if i < 0 then CHR ''-'' # digits_text (nat (- i)) else digits_text (nat i))"

text \<open>\<open>json.Marshal(e)\<close> of an \<open>*entityMock\<close>: its fields by their tags, the nil
  identifier as \<open>null\<close> (\<open>entity_json\<close> is the value this text denotes).\<close>

definition marshal_entity :: "entity_mock \<Rightarrow> string" where
  \<open>marshal_entity e =
    ''{"id":'' @ (if is_nil (ID e) then ''null'' else ''"'' @ encode (ID e) @ ''"'') @
    '',"status_id":'' @ int_text (StatusID e) @ ''}''\<close>

text \<open>
  \<open>httptest.NewRequest(method, target, body)\<close>: no route context yet (an empty
  \<open>ID\<close>), the target's raw query and its keys, the body and its first JSON value.
\<close>

definition new_request :: "string \<Rightarrow> string list \<Rightarrow> string \<Rightarrow> json option \<Rightarrow> request" where
  "new_request q ks pl j = \<lparr>url_id = [], raw_query = q, query_order = ks, body = pl, body_json = j\<rparr>"

section \<open>The tables\<close>

text \<open>
  The fields of the six tests' case structs; a case leaves the others at their zero
  value.
\<close>

record test_case =
  tc_name :: string
  withPayloadError :: bool
  withEmpty :: bool
  withEmptyList :: bool
  withBadID :: bool
  withCreateError :: bool
  withGetListError :: bool
  withGetError :: bool
  withDeleteError :: bool
  withUpdateError :: bool
  withPartialUpdateError :: bool
  wantedStatus :: nat

definition tc0 :: test_case where
  "tc0 = \<lparr>tc_name = [], withPayloadError = False, withEmpty = False, withEmptyList = False,
          withBadID = False, withCreateError = False, withGetListError = False, withGetError = False,
          withDeleteError = False, withUpdateError = False, withPartialUpdateError = False,
          wantedStatus = 0\<rparr>"

definition post_tests :: "test_case list" where
  "post_tests =
    [tc0\<lparr>tc_name := ''working POST'', wantedStatus := 201\<rparr>,
     tc0\<lparr>tc_name := ''bad payload, non working POST'', withPayloadError := True, wantedStatus := 400\<rparr>,
     tc0\<lparr>tc_name := ''internal error, non working POST'', withCreateError := True, wantedStatus := 500\<rparr>]"

definition get_list_tests :: "test_case list" where
  "get_list_tests =
    [tc0\<lparr>tc_name := ''working GETList'', wantedStatus := 200\<rparr>,
     tc0\<lparr>tc_name := ''working empty GETList'', withEmptyList := True, wantedStatus := 404\<rparr>,
     tc0\<lparr>tc_name := ''internal error, non working GETList'', withGetListError := True, wantedStatus := 500\<rparr>]"

definition get_tests :: "test_case list" where
  "get_tests =
    [tc0\<lparr>tc_name := ''working GET'', wantedStatus := 200\<rparr>,
     tc0\<lparr>tc_name := ''working empty GET'', withEmpty := True, wantedStatus := 404\<rparr>,
     tc0\<lparr>tc_name := ''internal error, non working GET'', withGetError := True, wantedStatus := 500\<rparr>,
     tc0\<lparr>tc_name := ''id error, non working GET'', withBadID := True, wantedStatus := 400\<rparr>]"

definition delete_tests :: "test_case list" where
  "delete_tests =
    [tc0\<lparr>tc_name := ''working DELETE'', wantedStatus := 202\<rparr>,
     tc0\<lparr>tc_name := ''working empty DELETE'', withEmpty := True, wantedStatus := 404\<rparr>,
     tc0\<lparr>tc_name := ''internal error, non working DELETE'', withDeleteError := True, wantedStatus := 500\<rparr>,
     tc0\<lparr>tc_name := ''id error, non working DELETE'', withBadID := True, wantedStatus := 400\<rparr>]"

definition put_tests :: "test_case list" where
  "put_tests =
    [tc0\<lparr>tc_name := ''working PUT'', wantedStatus := 200\<rparr>,
     tc0\<lparr>tc_name := ''bad payload, non working PUT'', withPayloadError := True, wantedStatus := 400\<rparr>,
     tc0\<lparr>tc_name := ''non existing id, non working PUT'', withEmpty := True, wantedStatus := 404\<rparr>,
     tc0\<lparr>tc_name := ''bad id, non working PUT'', withBadID := True, wantedStatus := 400\<rparr>,
     tc0\<lparr>tc_name := ''internal error, non working PUT'', withUpdateError := True, wantedStatus := 500\<rparr>]"

definition patch_tests :: "test_case list" where
  "patch_tests =
    [tc0\<lparr>tc_name := ''working PATCH'', wantedStatus := 204\<rparr>,
     tc0\<lparr>tc_name := ''bad payload, non working PATCH'', withPayloadError := True, wantedStatus := 400\<rparr>,
     tc0\<lparr>tc_name := ''non existing id, non working PATCH'', withEmpty := True, wantedStatus := 404\<rparr>,
     tc0\<lparr>tc_name := ''bad id, non working PATCH'', withBadID := True, wantedStatus := 400\<rparr>,
     tc0\<lparr>tc_name := ''internal error, non working PATCH'', withPartialUpdateError := True,
        wantedStatus := 500\<rparr>]"

section \<open>The closures\<close>

text \<open>\<open>xid.New()\<close> called by a test: the process's generator, shared with the manager.\<close>

definition test_xid_new :: "mm_state \<Rightarrow> xid \<times> mm_state" where
  "test_xid_new s = (case new_with_time (mm_clock s) (mm_xgen s) of (x, g') \<Rightarrow> (x, s\<lparr>mm_xgen := g'\<rparr>))"

definition set_flags :: "(mgr_mock \<Rightarrow> mgr_mock) \<Rightarrow> mm_state \<Rightarrow> mm_state" where
  "set_flags f s = s\<lparr>mmgr := f (mmgr s)\<rparr>"

text \<open>
  \<open>ec, _ := m.Create(ctx, e, ...)\<close> then \<open>ecc := ec.(*entityMock)\<close>: the pointer
  returned; the assertion on a nil interface panics and fails the test (\<open>None\<close>).
\<close>

definition create_fixture :: "ptr \<Rightarrow> mm_state \<Rightarrow> (ptr \<times> mm_state) option" where
  "create_fixture e s = (case mm_create e [] s of (Inr (PEntity p), s') \<Rightarrow> Some (p, s') | _ \<Rightarrow> None)"

text \<open>\<open>TestPOSTHandler\<close>: an entity with \<open>StatusID = 1\<close>, marshalled, cut when the case says so.\<close>

definition post_test_run :: "mm_state \<Rightarrow> test_case \<Rightarrow> mock_value http_response \<times> mm_state" where
  "post_test_run s0 tt =
    (case mm_new_empty_entity s0 of (e, s1) \<Rightarrow>
     let s2 = s1\<lparr>heap := (heap s1)(e := (heap s1 e)\<lparr>StatusID := 1\<rparr>)\<rparr>;
         pl = marshal_entity (heap s2 e);
         (pl, j) = (if withPayloadError tt then (tl pl, JString ''id'') else (pl, entity_json (heap s2 e)));
         s3 = set_flags (wantCreateError_update (\<lambda>_. withCreateError tt)) s2
     in post_handler mm_mgr (new_request [] [] pl (Some j)) s3)"

definition post_test_passes :: "mm_state \<Rightarrow> test_case \<Rightarrow> bool" where
  "post_test_passes s0 tt =
    (let resp = fst (post_test_run s0 tt)
     in status resp = wantedStatus tt \<and>
        (status resp = 200 \<longrightarrow> (case payload resp of JsonBody (VEntity ent) \<Rightarrow> StatusID ent = 1 | _ \<Rightarrow> False)))"

text \<open>\<open>TestGETListHandler\<close>: five \<open>Create\<close> calls with the same \<open>e\<close>, then \<open>GET /entity?pol=lux\<close>.\<close>

definition get_list_test_run :: "mm_state \<Rightarrow> test_case \<Rightarrow> mock_value http_response \<times> mm_state" where
  "get_list_test_run s0 tt =
    (case mm_new_empty_entity s0 of (e, s1) \<Rightarrow>
     let s2 = (if withEmptyList tt then s1 else ((\<lambda>s. snd (mm_create e [] s)) ^^ 5) s1);
         s3 = set_flags (wantGetListError_update (\<lambda>_. withGetListError tt)) s2
     in get_list_handler mm_mgr (new_request ''pol=lux'' [''pol''] [] None) s3)"

definition get_list_test_passes :: "mm_state \<Rightarrow> test_case \<Rightarrow> bool" where
  "get_list_test_passes s0 tt =
    (let resp = fst (get_list_test_run s0 tt)
     in status resp = wantedStatus tt \<and>
        (status resp = 200 \<longrightarrow> (case payload resp of JsonBody (VList es) \<Rightarrow> length es = 5 | _ \<Rightarrow> False)))"

text \<open>
  \<open>TestGETHandler\<close>: \<open>ecc := &entityMock{}\<close> and \<open>reqID := xid.New()\<close>, replaced by
  the created entity and its identifier unless the case is empty, and by the nil
  identifier for a bad one.
\<close>

definition get_test_passes :: "mm_state \<Rightarrow> test_case \<Rightarrow> bool" where
  "get_test_passes s0 tt =
    (case mm_new_empty_entity s0 of (e, s1) \<Rightarrow>
     case alloc \<lparr>ID = nil_id, StatusID = 0\<rparr> s1 of (ecc0, s2) \<Rightarrow>
     case test_xid_new s2 of (rid0, s3) \<Rightarrow>
     case (if withEmpty tt then Some (ecc0, s3) else create_fixture e s3) of
       None \<Rightarrow> False
     | Some (ecc, s4) \<Rightarrow>
         let rid = (if withEmpty tt then rid0 else ID (heap s4 ecc));
             rid = (if withBadID tt then nil_id else rid);
             s5 = set_flags (wantGetError_update (\<lambda>_. withGetError tt)) s4;
             (resp, s6) = get_handler mm_mgr (get_test_context_with_id (new_request [] [] [] None) rid) s5
         in status resp = wantedStatus tt \<and>
            (status resp = 200 \<longrightarrow>
               (case payload resp of JsonBody (VEntity ent) \<Rightarrow> ID ent = ID (heap s6 ecc) | _ \<Rightarrow> False)))"

text \<open>\<open>TestDELETEHandler\<close>: after a 202 the identifier must be gone from \<open>m.EntityList\<close>.\<close>

definition delete_test_passes :: "mm_state \<Rightarrow> test_case \<Rightarrow> bool" where
  "delete_test_passes s0 tt =
    (case mm_new_empty_entity s0 of (e, s1) \<Rightarrow>
     case test_xid_new s1 of (rid0, s2) \<Rightarrow>
     case (if withEmpty tt then Some (e, s2) else create_fixture e s2) of
       None \<Rightarrow> False
     | Some (ecc, s3) \<Rightarrow>
         let rid = (if withEmpty tt then rid0 else ID (heap s3 ecc));
             rid = (if withBadID tt then nil_id else rid);
             s4 = set_flags (wantDeleteError_update (\<lambda>_. withDeleteError tt)) s3;
             (resp, s5) = delete_handler mm_mgr (get_test_context_with_id (new_request [] [] [] None) rid) s4
         in status resp = wantedStatus tt \<and>
            (status resp = 202 \<longrightarrow> EntityList_mock (mmgr s5) rid = None))"

text \<open>
  \<open>TestPUTHandler\<close>: \<open>e.StatusID = 2\<close> writes through \<open>e\<close> (the stored entity,
  unless the case is empty), then \<open>e\<close> is marshalled as the body.
\<close>

definition put_test_run ::
  "mm_state \<Rightarrow> test_case \<Rightarrow> (mm_state \<times> mock_value http_response \<times> mm_state) option" where
  "put_test_run s0 tt =
    (case mm_new_empty_entity s0 of (e, s1) \<Rightarrow>
     case test_xid_new s1 of (rid0, s2) \<Rightarrow>
     case (if withEmpty tt then Some (e, s2) else create_fixture e s2) of
       None \<Rightarrow> None
     | Some (ecc, s3) \<Rightarrow>
         let rid = (if withEmpty tt then rid0 else ID (heap s3 ecc));
             rid = (if withBadID tt then nil_id else rid);
             s4 = s3\<lparr>heap := (heap s3)(e := (heap s3 e)\<lparr>StatusID := 2\<rparr>)\<rparr>;
             pl = marshal_entity (heap s4 e);
             (pl, j) = (if withPayloadError tt then (tl pl, JString ''id'') else (pl, entity_json (heap s4 e)));
             s5 = set_flags (wantUpdateError_update (\<lambda>_. withUpdateError tt)) s4;
             (resp, s6) = put_handler mm_mgr (get_test_context_with_id (new_request [] [] pl (Some j)) rid) s5
         in Some (s5, resp, s6))"

definition put_test_passes :: "mm_state \<Rightarrow> test_case \<Rightarrow> bool" where
  "put_test_passes s0 tt =
    (case put_test_run s0 tt of
       None \<Rightarrow> False
     | Some (_, resp, _) \<Rightarrow>
         status resp = wantedStatus tt \<and>
         (status resp = 200 \<longrightarrow> (case payload resp of JsonBody (VEntity ent) \<Rightarrow> StatusID ent = 2 | _ \<Rightarrow> False)))"

text \<open>
  \<open>TestPATCHHandler\<close>: the body \<open>{"status_id": 2}\<close>, cut when the case says so; a
  panic of the handler fails the test.
\<close>

definition patch_test_run ::
  "mm_state \<Rightarrow> test_case \<Rightarrow> (mock_value http_response go \<times> mm_state) option" where
  \<open>patch_test_run s0 tt =
    (case mm_new_empty_entity s0 of (e, s1) \<Rightarrow>
     case test_xid_new s1 of (rid0, s2) \<Rightarrow>
     case (if withEmpty tt then Some (e, s2) else create_fixture e s2) of
       None \<Rightarrow> None
     | Some (ecc, s3) \<Rightarrow>
         let rid = (if withEmpty tt then rid0 else ID (heap s3 ecc));
             rid = (if withBadID tt then nil_id else rid);
             pl = ''{"status_id": 2}'';
             (pl, j) = (if withPayloadError tt then (tl pl, JString ''status_id'')
                        else (pl, JObject [(''status_id'', JNumber 2)]));
             s4 = set_flags (wantPartialUpdateError_update (\<lambda>_. withPartialUpdateError tt)) s3
         in Some (patch_handler mm_mgr (get_test_context_with_id (new_request [] [] pl (Some j)) rid) s4))\<close>

definition patch_test_passes :: "mm_state \<Rightarrow> test_case \<Rightarrow> bool" where
  "patch_test_passes s0 tt =
    (case patch_test_run s0 tt of
       Some (Returns resp, _) \<Rightarrow>
         status resp = wantedStatus tt \<and>
         (status resp = 200 \<longrightarrow> (case payload resp of JsonBody (VEntity ent) \<Rightarrow> StatusID ent = 2 | _ \<Rightarrow> False))
     | _ \<Rightarrow> False)"

section \<open>TestListModifiersFromURL\<close>

text \<open>Its two cases: the raw query of the URL, its keys, and the modifiers wanted.\<close>

definition list_modifiers_tests :: "(string \<times> string \<times> string list \<times> list_modifiers) list" where
  "list_modifiers_tests =
    [(''different querystring params'', ''premier=1'', [''premier''], [''premier'' \<mapsto> [''1'']]),
     (''same querystring param name'', ''orderby=test%20ASC&orderby=pol%20DESC'', [''orderby''],
      [''orderby'' \<mapsto> [''test ASC'', ''pol DESC'']])]"

definition list_modifiers_test_passes :: "string \<times> string \<times> string list \<times> list_modifiers \<Rightarrow> bool" where
  "list_modifiers_test_passes c =
    (case c of (_, q, ks, want) \<Rightarrow> list_modifiers_from_url (new_request q ks [] None) = want)"

section \<open>Lemmas: requests and decoding\<close>

lemma decode_entity_mock_string [simp]: "decode_entity_mock (JString x) e = None"
  by (simp add: decode_entity_mock_def)

lemma wf_entity_nil [simp]: "in_int64 n \<Longrightarrow> wf_entity \<lparr>ID = nil_id, StatusID = n\<rparr>"
  by (simp add: wf_entity_def)

lemma in_int64_small [simp]: "in_int64 0" "in_int64 1" "in_int64 2"
  by (simp_all add: in_int64_def int64_min_def int64_max_def)

lemma test_request_sel [simp]:
  "body_json (get_test_context_with_id r x) = body_json r" "body (get_test_context_with_id r x) = body r"
  "body_json (new_request q ks pl j) = j" "body (new_request q ks pl j) = pl"
  "raw_query (new_request q ks pl j) = q" "query_order (new_request q ks pl j) = ks"
  by (simp_all add: get_test_context_with_id_def new_request_def)

lemma parse_nil_request:
  "parse_id_from_request (get_test_context_with_id r nil_id) =
     Inl (GoError (''parseIDFromRequest('' @ encode nil_id @ ''): <nil>''))"
  by (simp add: get_test_context_with_id_def parse_id_from_request_def from_string_encode Let_def is_nil_def)

lemma parse_new_id_request:
  "(word_of_int t :: 32 word) \<noteq> 0 \<Longrightarrow> new_with_time t g = (x, g') \<Longrightarrow>
     parse_id_from_request (get_test_context_with_id r x) = Inr x"
  using length_new_with_time[of t g] new_with_time_not_nil[of t g]
  by (intro parse_id_from_request_encode) (simp_all add: get_test_context_with_id_def)

lemma length_map_filter_dom: "set ks \<subseteq> dom m \<Longrightarrow> length (List.map_filter m ks) = length ks"
  by (simp add: map_filter_dom)

lemma post_tests_pass: "\<forall>tt\<in>set post_tests. post_test_passes (mm_start g t ro) tt"
  by (simp add: post_tests_def tc0_def post_test_passes_def post_test_run_def mm_new_empty_entity_def alloc_def
      post_handler_def mm_mgr_def new_request_def set_flags_def mm_create_def Let_def deref_result_def
      decode_entity_json split: prod.splits)

lemma get_tests_pass:
  assumes "(word_of_int t :: 32 word) \<noteq> 0"
  shows "\<forall>tt\<in>set get_tests. get_test_passes (mm_start g t ro) tt"
proof -
  obtain x0 g1 where n1: "new_with_time t g = (x0, g1)" by fastforce
  obtain x1 g2 where n2: "new_with_time t g1 = (x1, g2)" by fastforce
  note p0 = parse_new_id_request[OF assms n1] and p1 = parse_new_id_request[OF assms n2]
  show ?thesis using n1 n2 p0 p1
    by (simp add: get_tests_def tc0_def get_test_passes_def mm_new_empty_entity_def alloc_def test_xid_new_def
        create_fixture_def parse_nil_request get_handler_def mm_mgr_def set_flags_def mm_create_def mm_get_def Let_def
        deref_result_def set_list_def)
qed

lemma delete_tests_pass:
  assumes "(word_of_int t :: 32 word) \<noteq> 0"
  shows "\<forall>tt\<in>set delete_tests. delete_test_passes (mm_start g t ro) tt"
proof -
  obtain x0 g1 where n1: "new_with_time t g = (x0, g1)" by fastforce
  obtain x1 g2 where n2: "new_with_time t g1 = (x1, g2)" by fastforce
  note p0 = parse_new_id_request[OF assms n1] and p1 = parse_new_id_request[OF assms n2]
  have l1: "length x1 = raw_len" using length_new_with_time[of t g1] n2 by simp
  show ?thesis using n1 n2 p0 p1
    by (simp add: delete_tests_def tc0_def delete_test_passes_def mm_new_empty_entity_def alloc_def test_xid_new_def
        create_fixture_def parse_nil_request delete_handler_def mm_mgr_def set_flags_def mm_create_def mm_delete_def Let_def
        set_list_def)
qed

lemma put_tests_pass:
  assumes "(word_of_int t :: 32 word) \<noteq> 0"
  shows "\<forall>tt\<in>set put_tests. put_test_passes (mm_start g t ro) tt"
proof -
  obtain x0 g1 where n1: "new_with_time t g = (x0, g1)" by fastforce
  obtain x1 g2 where n2: "new_with_time t g1 = (x1, g2)" by fastforce
  note p0 = parse_new_id_request[OF assms n1] and p1 = parse_new_id_request[OF assms n2]
  have l1: "length x1 = raw_len" using length_new_with_time[of t g1] n2 by simp
  show ?thesis using n1 n2 p0 p1 l1
    by (simp add: put_tests_def tc0_def put_test_passes_def put_test_run_def mm_new_empty_entity_def alloc_def test_xid_new_def
        create_fixture_def put_handler_def mm_mgr_def set_flags_def mm_create_def mm_update_def Let_def
        set_list_def deref_result_def decode_into_interface_def decode_entity_json wf_entity_def
        parse_nil_request entity_json_not_null)
qed

lemma patch_tests_pass:
  assumes "(word_of_int t :: 32 word) \<noteq> 0"
  shows "\<forall>tt\<in>set patch_tests. patch_test_passes (mm_start g t ro) tt"
proof -
  obtain x0 g1 where n1: "new_with_time t g = (x0, g1)" by fastforce
  obtain x1 g2 where n2: "new_with_time t g1 = (x1, g2)" by fastforce
  note p0 = parse_new_id_request[OF assms n1] and p1 = parse_new_id_request[OF assms n2]
  have l1: "length x1 = raw_len" using length_new_with_time[of t g1] n2 by simp
  show ?thesis using n1 n2 p0 p1 l1
    by (simp add: patch_tests_def tc0_def patch_test_passes_def patch_test_run_def mm_new_empty_entity_def alloc_def test_xid_new_def
        create_fixture_def patch_handler_def mm_mgr_def set_flags_def mm_create_def mm_partial_update_def Let_def
        set_list_def decode_object_map_def go_float_to_int_def parse_nil_request)
qed

section \<open>Lemmas: the listing fixture\<close>

text \<open>
  Five \<open>Create\<close> calls through one pointer draw five identifiers and store the
  pointer under each; the entity it points to carries the last one.
\<close>

lemma get_list_test_runs:
  assumes ro: "\<forall>K. finite K \<longrightarrow> enumerates (ro K) K"
  shows "fst (get_list_test_run (mm_start g t ro) (get_list_tests ! 0)) =
           \<lparr>status = 200, payload = JsonBody (VList (replicate 5 \<lparr>ID = last (new_ids (replicate 5 t) g), StatusID = 0\<rparr>))\<rparr>"
    "status (fst (get_list_test_run (mm_start g t ro) (get_list_tests ! 1))) = 404"
    "status (fst (get_list_test_run (mm_start g t ro) (get_list_tests ! 2))) = 500"
proof -
  obtain x1 g1 where n1: "new_with_time t g = (x1, g1)" by fastforce
  obtain x2 g2 where n2: "new_with_time t g1 = (x2, g2)" by fastforce
  obtain x3 g3 where n3: "new_with_time t g2 = (x3, g3)" by fastforce
  obtain x4 g4 where n4: "new_with_time t g3 = (x4, g4)" by fastforce
  obtain x5 g5 where n5: "new_with_time t g4 = (x5, g5)" by fastforce
  have d: "distinct [x1, x2, x3, x4, x5]"
    using new_ids_distinct[of "[t, t, t, t, t]" g] n1 n2 n3 n4 n5 by simp
  have last5: "last (new_ids (replicate 5 t) g) = x5" using n1 n2 n3 n4 n5 by (simp add: eval_nat_numeral)
  let ?K = "{x5, x4, x3, x2, x1}"
  have e: "distinct (ro ?K) \<and> set (ro ?K) = ?K" using ro by (simp add: enumerates_def)
  have "card (set [x5, x4, x3, x2, x1]) = 5" using d by (subst distinct_card) auto
  then have c: "card ?K = 5" by simp
  have l: "length (ro ?K) = 5" using e c distinct_card by metis
  obtain s1 where ne: "mm_new_empty_entity (mm_start g t ro) = (0, s1)"
    by (simp add: mm_new_empty_entity_def alloc_def)
  have s1: "mmgr s1 = new_mgr_mock" "mm_range_order s1 = ro" "mm_clock s1 = t" "mm_xgen s1 = g"
    "heap s1 0 = \<lparr>ID = nil_id, StatusID = 0\<rparr>"
    using ne by (auto simp: mm_new_empty_entity_def alloc_def)
  let ?S = "((\<lambda>s. snd (mm_create 0 [] s)) ^^ 5) s1"
  let ?m = "[x1 \<mapsto> 0, x2 \<mapsto> 0, x3 \<mapsto> 0, x4 \<mapsto> 0, x5 \<mapsto> (0::nat)]"
  have S: "mmgr ?S = new_mgr_mock\<lparr>EntityList_mock := ?m\<rparr>" "heap ?S 0 = \<lparr>ID = x5, StatusID = 0\<rparr>"
    "mm_range_order ?S = ro"
    using n1 n2 n3 n4 n5 s1 by (simp_all add: eval_nat_numeral mm_create_ok set_list_def)
  have mf: "List.map_filter ?m (ro ?K) = replicate 5 0"
  proof -
    have "List.map_filter ?m (ro ?K) = map (\<lambda>k. the (?m k)) (ro ?K)" using e by (intro map_filter_dom) auto
    also have "\<dots> = map (\<lambda>_. 0) (ro ?K)" using e by (intro map_cong) auto
    finally show ?thesis using l by (simp add: map_replicate_const)
  qed
  have dm: "dom ?m = ?K" by auto
  have "go_len ?m = 5" using c by (simp add: go_len_def)
  then show "fst (get_list_test_run (mm_start g t ro) (get_list_tests ! 0)) =
           \<lparr>status = 200, payload = JsonBody (VList (replicate 5 \<lparr>ID = last (new_ids (replicate 5 t) g), StatusID = 0\<rparr>))\<rparr>"
    using ne s1 S mf dm last5
    by (simp add: get_list_tests_def tc0_def get_list_test_run_def
        get_list_handler_def mm_mgr_def set_flags_def mm_get_list_def deref_result_def)
  show "status (fst (get_list_test_run (mm_start g t ro) (get_list_tests ! 1))) = 404"
    "status (fst (get_list_test_run (mm_start g t ro) (get_list_tests ! 2))) = 500"
    using ne s1
    by (simp_all add: get_list_tests_def tc0_def get_list_test_run_def Let_def
        get_list_handler_def mm_mgr_def set_flags_def mm_get_list_def deref_result_def)
qed

section \<open>The tests pass\<close>

text \<open>
  C29: every case of \<open>TestPOSTHandler\<close>, \<open>TestGETHandler\<close>,
  \<open>TestDELETEHandler\<close>, \<open>TestPUTHandler\<close> and \<open>TestPATCHHandler\<close> passes
  against the handlers over \<open>mgrMock\<close>, from any generator, whenever the low 32 bits
  of the clock are not zero (so that \<open>xid.New()\<close> never draws the nil identifier,
  which the handlers refuse). The checks of the response body that POST and PATCH guard
  with \<open>StatusOK\<close> never run: these handlers answer 201 and 204.
\<close>

theorem handler_test_tables_pass:
  assumes "(word_of_int t :: 32 word) \<noteq> 0"
  shows "(\<forall>tt\<in>set post_tests. post_test_passes (mm_start g t ro) tt) \<and>
         (\<forall>tt\<in>set get_tests. get_test_passes (mm_start g t ro) tt) \<and>
         (\<forall>tt\<in>set delete_tests. delete_test_passes (mm_start g t ro) tt) \<and>
         (\<forall>tt\<in>set put_tests. put_test_passes (mm_start g t ro) tt) \<and>
         (\<forall>tt\<in>set patch_tests. patch_test_passes (mm_start g t ro) tt)"
  using post_tests_pass get_tests_pass[OF assms] delete_tests_pass[OF assms] put_tests_pass[OF assms]
    patch_tests_pass[OF assms] by blast

theorem handler_test_tables_pass_witness:
  "(word_of_int 1700000000 :: 32 word) \<noteq> 0 \<and>
   get_test_passes (mm_start \<lparr>machine_id = [1, 2, 3], pid = 42, object_id_counter = 0\<rparr> 1700000000 (\<lambda>_. [])) (hd get_tests) \<and>
   put_test_passes (mm_start \<lparr>machine_id = [1, 2, 3], pid = 42, object_id_counter = 0\<rparr> 1700000000 (\<lambda>_. [])) (hd put_tests)"
  using handler_test_tables_pass[of 1700000000 "\<lparr>machine_id = [1, 2, 3], pid = 42, object_id_counter = 0\<rparr>" "\<lambda>_. []"]
  by (simp add: get_tests_def put_tests_def)

text \<open>
  C30: every case of \<open>TestGETListHandler\<close> passes whatever order the runtime lists
  the keys in, and in its working case the handler answers 200 with five copies of one
  entity, which carries the last identifier drawn: the fixture's five \<open>Create\<close>
  calls through the same \<open>e\<close> store one entity under five keys, and the test's
  check \<open>len(entx) == 5\<close> cannot tell.
\<close>

theorem get_list_test_lists_one_entity:
  assumes "\<forall>K. finite K \<longrightarrow> enumerates (ro K) K"
  shows "(\<forall>tt\<in>set get_list_tests. get_list_test_passes (mm_start g t ro) tt) \<and>
         fst (get_list_test_run (mm_start g t ro) (hd get_list_tests)) =
           \<lparr>status = 200, payload = JsonBody (VList (replicate 5 \<lparr>ID = last (new_ids (replicate 5 t) g), StatusID = 0\<rparr>))\<rparr>"
proof -
  note r = get_list_test_runs[OF assms]
  have "set get_list_tests = {get_list_tests ! 0, get_list_tests ! 1, get_list_tests ! 2}"
    by (simp add: get_list_tests_def)
  moreover have "wantedStatus (get_list_tests ! 0) = 200" "wantedStatus (get_list_tests ! 1) = 404"
    "wantedStatus (get_list_tests ! 2) = 500" "hd get_list_tests = get_list_tests ! 0"
    by (simp_all add: get_list_tests_def tc0_def)
  ultimately show ?thesis using r by (simp add: get_list_test_passes_def)
qed

theorem get_list_test_lists_one_entity_witness:
  "get_list_test_passes (mm_start \<lparr>machine_id = [1, 2, 3], pid = 42, object_id_counter = 0\<rparr> 1700000000 sorted_list_of_set) (hd get_list_tests) \<and>
   fst (get_list_test_run (mm_start \<lparr>machine_id = [1, 2, 3], pid = 42, object_id_counter = 0\<rparr> 1700000000 sorted_list_of_set) (hd get_list_tests)) =
     \<lparr>status = 200, payload = JsonBody (VList (replicate 5
        \<lparr>ID = last (new_ids (replicate 5 1700000000) \<lparr>machine_id = [1, 2, 3], pid = 42, object_id_counter = 0\<rparr>), StatusID = 0\<rparr>))\<rparr>"
proof -
  have e: "\<forall>K. finite K \<longrightarrow> enumerates (sorted_list_of_set K) (K :: xid set)"
    by (simp add: enumerates_def)
  show ?thesis
    using get_list_test_lists_one_entity[OF e, of "\<lparr>machine_id = [1, 2, 3], pid = 42, object_id_counter = 0\<rparr>" 1700000000]
    by (simp add: get_list_tests_def)
qed

end
