(* ===== verification/Spec2Isabelle.thy ===== *)
theory Spec2Isabelle
  imports System HandlerTest
begin

text \<open>
  A verification of \<open>github.com/induzo/crud\<close>: a generic REST layer (package
  \<open>rest\<close>) that serves any manager implementing \<open>crud.MgrI\<close>, a mock manager
  (package \<open>mock\<close>) that keeps its entities in a map, and the example server
  (\<open>src/example/main.go\<close>) that routes \<open>/e\<close> to the six handlers over one shared
  mock manager.

  \<^bold>\<open>Theories.\<close>
  \<^item> \<open>Prelude\<close>: bytes as \<^typ>\<open>8 word\<close> and the bit-level lemma collection
    \<open>byte_simps\<close>; Go's \<open>len\<close> of a map; the type \<open>'a go\<close> of a computation that
    returns or panics; digit lists read as numbers (\<open>horner_sum\<close>) and the
    lexicographic order of equal-length lists as the order of those numbers
    (\<open>lex_horner\<close>, \<open>horner_less_iff\<close>).
  \<^item> \<open>Xid\<close>: the identifiers of \<open>github.com/rs/xid\<close> (not under \<open>src/\<close>,
    modelled from its source): the base32hex codec (\<open>encode\<close>, \<open>decode\<close>, the
    \<open>dec\<close> table), \<open>UnmarshalText\<close>, \<open>FromString\<close> and \<open>NewWithTime\<close>.
    The lemmas prove the text round trip (\<open>from_string_encode\<close>), that only canonical
    texts are accepted (\<open>from_string_canonical\<close>), and that a generated identifier is
    never nil while the clock's low 32 bits are not zero. \<open>encode_less_iff\<close>:
    the text order of two identifiers is the byte order of their 12 bytes (the
    alphabet is sorted and a 20-character text is the 96 bits followed by 4 zero
    bits), so identifiers sort by their big-endian time prefix.
  \<^item> \<open>Json\<close>: the values \<open>encoding/json\<close> produces, decoding into \<open>int\<close> and into
    \<open>map[string]interface{}\<close>, and Go's \<open>int(float64)\<close> (numbers are rationals; the
    amd64 result is taken out of range); \<open>is_float64\<close>, the rationals a \<open>float64\<close>
    holds exactly (IEEE 754 binary64, normal and subnormal).
  \<^item> \<open>Crud\<close>: \<open>MgrI\<close> (\<open>src/mgr.go\<close>) as the record \<^typ>\<open>('s, 'e, 'v, 'err) mgr_i\<close> of
    operations over a manager state; \<open>PartialUpdateData\<close> (\<open>src/updates.go\<close>); the
    error responses of \<open>gohttperror\<close> (status code and wrapped error).
  \<^item> \<open>Url\<close>: \<open>url.ParseQuery\<close> of \<open>net/url\<close>, modelled from its source, which
    \<open>ListModifiersFromURL\<close> reads: as a recursive \<open>function\<close>, equal to a
    reference parser over the \<open>&\<close>-separated pieces, and as Go's
    \<open>for query != ""\<close> loop (\<open>parse_query_while\<close>, a \<^term>\<open>while_option\<close> of
    one iteration \<open>parse_query_body\<close>), proved to agree with the function.
  \<^item> \<open>Rest\<close>: \<open>src/rest\<close>: \<open>parseIDFromRequest\<close>, \<open>ListModifiersFromURL\<close>
    and the six handlers of \<open>handler.go\<close>, each a function of a manager, a
    request and the manager's state to the response and the new state; and the test
    helper \<open>GetTestContextWithID\<close>. They are generic over any manager, so their
    lemmas (C1 to C4, C14, C17, C18, C24) hold for every \<open>MgrI\<close>: identifiers parse
    exactly when canonical and non-nil, malformed ones never reach the manager, the
    status codes are those of the handler table, and every response is well formed.
  \<^item> \<open>Mock\<close>: \<open>src/mock\<close>: \<open>Entity\<close>, the \<open>Mgr\<close> struct and every method, over
    a state that adds what the methods read from the process: the xid generator, the
    clock (\<open>time.Now().Unix()\<close>) and the runtime's map iteration order, both
    inputs. JSON encoding and decoding of \<open>Entity\<close> by its struct tags, which
    round-trip (\<open>decode_entity_json\<close>). Invariant
    \<open>wf_store\<close>: every key and stored \<open>ID\<close> is 12 bytes, every \<open>StatusID\<close> an
    \<open>int64\<close>; every method preserves it. C26: of two entities \<open>Create\<close> stores,
    the one created at a later 32-bit second has the larger identifier text.
  \<^item> \<open>Contract\<close>: the contract of \<open>MgrI\<close> (spec.md, section 4.1) as an abstract
    step \<open>c_step\<close> over a store of entities and a datatype of operations, and the
    mock's methods read as contract answers (\<open>mock_answer\<close>, \<open>abs_error\<close>). C19:
    the mock refines the contract on every operation whose preconditions hold (a
    fresh identifier for a create, a numeric \<open>status_id\<close>, an iteration order
    visiting each key once).
  \<^item> \<open>System\<close>: \<open>main.go\<close>'s routing as \<open>serve\<close>, its \<open>http.Server\<close> as
    \<open>main_server\<close>, and the inductive relation
    \<open>reachable\<close> of the states reachable from \<open>NewMgr()\<close> by served requests,
    clock ticks and changes of iteration order; the same events as an executable
    \<open>run\<close> (a fold of \<open>step\<close>), whose states are reachable. By rule induction no
    fault flag is ever set and \<open>wf_store\<close> holds (\<open>reachable_inv\<close>); the lemmas
    \<open>serve_get\<close>, \<open>serve_post\<close>, \<open>serve_delete\<close>, \<open>serve_patch\<close>,
    \<open>serve_put\<close> give each route's behaviour over a fault-free manager. Along a run,
    every key of the store carries the counter bytes of one of the counter values
    the run went through (\<open>run_counter_inv\<close>). \<open>main_go\<close> is \<open>main\<close> itself:
    \<open>ListenAndServe\<close> (from \<open>net/http\<close>'s documentation: it serves until the
    listener fails and always returns a non-nil error, an input of the model) and the
    \<open>log.Fatalf\<close> that follows. No property is stated of \<open>main_go\<close>: that it
    ends in \<open>log.Fatalf\<close> follows from that documentation alone.
  \<^item> \<open>MockTest\<close>: the test double \<open>mgrMock\<close> of \<open>src/rest/mock_test.go\<close> at
    the level of pointers: \<open>EntityList\<close> maps identifiers to addresses of an explicit
    heap (\<open>alloc\<close> is \<open>&entityMock{}\<close>), \<open>Create\<close> and
    \<open>PartialUpdate\<close> write through them (\<open>mm_create\<close>, \<open>mm_partial_update\<close>).
    \<open>mgr_sim\<close> is a simulation of managers that the six handlers preserve for any
    manager; under the invariant that no two keys share a pointer (\<open>mm_sep\<close>) the
    double simulates the value model of \<open>Mock\<close> (C27), which is what justifies
    modelling the mock's store by value. Called twice with one pointer,
    \<open>Create\<close> renames the entity it stored first (C28). \<open>handle\<close> is
    \<open>main.go\<close>'s table of handlers over any manager, and \<open>mm_reachable\<close> (a
    relation of the model, not a function of the code) the states the double reaches
    through it, one request at a time, as the tests drive it; by rule induction they are separate and
    abstract reachable states of the service, whose store invariant they inherit (C31).
  \<^item> \<open>HandlerTest\<close>: the tables and \<open>t.Run\<close> closures of
    \<open>src/rest/handler_test.go\<close> and \<open>src/rest/listmodifiers_test.go\<close>, as
    bool-valued functions of a case and the process state, run on the pointer-level
    double. Every case of the handler tables passes (C29, for a clock whose low 32 bits
    are not zero, so that \<open>xid.New()\<close> never draws the nil identifier); the listing
    test's fixture stores one entity under five keys (C30). The two cases of
    \<open>TestListModifiersFromURL\<close> (\<open>list_modifiers_tests\<close>) are instances of C24.
  \<^item> This theory: the request sequences of the service (C5 to C12), the store's
    listing (C13), the freshness of created identifiers (C15) and
    the tightness of its bound (C16), PUT of
    a GET's body (C20), fault injection (C21) and draining the store (C22), each
    with a witness run from the example start state \<open>demo_state\<close>, the state
    \<open>demo_stored\<close> after one POST, or \<open>demo_faulty\<close> with every fault flag set;
    and C23, the composition of handlers, mock and contract: every request either
    leaves the store as it was or performs the contract's step for the operation it
    denotes (\<open>request_op\<close>), answering the status of the handler table
    (\<open>route_status\<close>).

  \<^bold>\<open>Effects.\<close> Go's \<open>(value, error)\<close> results are sums with \<open>Inl\<close> the error;
  a panic is the value \<^term>\<open>Panics msg\<close>; a response is its status and payload
  (the error responses carry the \<open>gohttperror\<close> record). All definitions are
  executable; the one loop that is not structural, \<open>parseQuery\<close>, is a
  \<open>function\<close> with a termination proof on the remaining query's length, and
  as Go writes it a \<^term>\<open>while_option\<close>, whose result is \<open>None\<close> if it does
  not stop: \<open>Url.parse_query_while_query\<close> proves it stops on every query (each
  iteration consumes at least the first piece and its separator) with the map
  \<open>query\<close> computes, which \<open>ListModifiersFromURL\<close> reads.
  No fuel is needed: every loop of the code runs over a finite map or string.

  \<^bold>\<open>Bounds.\<close> The xid counter is a \<^typ>\<open>32 word\<close> that wraps as
  \<open>atomic.AddUint32\<close> does, and an identifier keeps its low 24 bits. Hence
  identifiers drawn by fewer than \<open>2^24\<close> calls are distinct whatever the clock
  does (\<open>Xid.new_ids_distinct\<close>), and C15 bounds its runs by \<open>2^24\<close> events
  (each event draws at most one identifier). The bound is tight: after \<open>2^24\<close>
  POSTs in the same second the next one draws the first identifier again and
  \<open>Create\<close> overwrites (C16). A \<open>status_id\<close> decoded into an \<open>int\<close> must be an
  integral number within \<open>int64\<close>; C25 shows PUT and POST refuse every other
  \<open>float64\<close> value with 400 while PATCH converts it as \<open>int(float64)\<close> does.

  \<^bold>\<open>Findings.\<close> A PATCH without \<open>status_id\<close> answers 500, not 400 (C9); a
  non-number \<open>status_id\<close> panics (C10); PUT of \<open>null\<close> answers 200 with the error
  as body (C11); PUT replaces the stored entity's identifier by the body's (C12);
  identifiers repeat after \<open>2^24\<close> in one second and POST then overwrites (C16);
  PATCH stores a truncated or out-of-range \<open>status_id\<close> that PUT and POST refuse
  (C25); \<open>Create\<close> writes the identifier through the caller's pointer, so reusing
  an entity renames the one stored first (C28); the GETList test's five entities are
  one (C30); the body checks of the POST and PATCH tests are guarded by status 200,
  which those handlers never answer, so they never run (C29); the PUT test's fixture
  writes the body's entity into the store through the stored pointer before the
  request, so that test cannot tell whether \<open>Update\<close> stores anything.

  \<^bold>\<open>Not modelled.\<close> The sockets behind \<open>ListenAndServe\<close>, the timeouts'
  effect and chi's routing beyond the choice of handler. The deferred
  \<open>log.Fatalf\<close> of each handler on a failed \<open>render.Render\<close>: whether rendering
  an \<open>ErrResponse\<close> can fail depends on \<open>gohttperror\<close>'s \<open>Render\<close> method and
  on \<open>go-chi/render\<close>, neither in the repository, so the model takes rendering to
  succeed and that branch is never reached. The payload the handlers pass to
  \<open>Create\<close> and \<open>Update\<close> is the bytes \<open>json.Decoder\<close> has read through the
  \<open>TeeReader\<close>, which depends on its buffering; the model passes the whole body,
  which no manager of the repository reads. The JSON lexer (a body is given as its first decoded JSON value
  or a failure) and the texts of JSON errors; JSON numbers are kept as rationals,
  so the rounding of a number to \<open>float64\<close> (above 53 bits of mantissa) before it
  is decoded into \<open>interface{}\<close>, and the decoder's error on a number beyond the
  \<open>float64\<close> range (\<open>1e400\<close>), are not modelled: C25 is stated for the numbers
  \<open>float64\<close> holds exactly (\<open>is_float64\<close>), on which the two agree; the request \<open>context.Context\<close>; the
  benchmarks of \<open>handler_test.go\<close> (they only time the handlers). Concurrency is not modelled: the mock's map has no
  lock, and requests are taken one at a time.
\<close>

section \<open>Example inputs\<close>

definition demo_state :: mock_state where
  "demo_state = start_state \<lparr>machine_id = [1, 2, 3], pid = 42, object_id_counter = 0\<rparr> 1700000000 (\<lambda>_. [])"

definition demo_post :: request where
  "demo_post = \<lparr>url_id = [], raw_query = [], query_order = [], body = ''{\"status_id\":1}'',
     body_json = Some (JObject [(''status_id'', JNumber 1)])\<rparr>"

definition demo_id :: xid where
  "demo_id = fst (new_with_time 1700000000 \<lparr>machine_id = [1, 2, 3], pid = 42, object_id_counter = 0\<rparr>)"

definition demo_stored :: mock_state where
  "demo_stored = snd (serve PostRoute demo_post demo_state)"

definition demo_req :: "string \<Rightarrow> json option \<Rightarrow> request" where
  "demo_req p j = \<lparr>url_id = p, raw_query = [], query_order = [], body = [], body_json = j\<rparr>"

definition demo_post2 :: request where
  "demo_post2 = \<lparr>url_id = [], raw_query = [], query_order = [], body = ''{\"status_id\":2}'',
     body_json = Some (JObject [(''status_id'', JNumber 2)])\<rparr>"

text \<open>The example manager with every fault injected, as the handler tests set them.\<close>

definition demo_faulty :: mock_state where
  "demo_faulty = demo_stored\<lparr>mgr := (mgr demo_stored)\<lparr>WantCreateError := True, WantDeleteError := True,
     WantGetError := True, WantGetListError := True, WantUpdateError := True,
     WantPartialUpdateError := True\<rparr>\<rparr>"

section \<open>Facts about the example inputs\<close>

lemma demo_reachable: "reachable demo_state" "reachable demo_stored"
  by (simp_all add: demo_state_def demo_stored_def reachable.start reachable_serve)

lemma demo_state_empty: "EntityList (mgr demo_state) = Map.empty"
  by (simp add: demo_state_def start_state_def new_mgr_def)

lemma demo_stored_entity:
  "EntityList (mgr demo_stored) = [demo_id \<mapsto> \<lparr>ID = demo_id, StatusID = 1\<rparr>]"
proof -
  obtain g' where nw: "new_with_time (clock demo_state) (xgen demo_state) = (demo_id, g')"
    by (cases "new_with_time 1700000000 \<lparr>machine_id = [1, 2, 3], pid = 42, object_id_counter = 0\<rparr>")
       (simp add: demo_id_def demo_state_def start_state_def)
  have nf: "no_faults (mgr demo_state)"
    by (simp add: demo_state_def start_state_def new_mgr_def no_faults_def)
  have dec: "decode_entity_mock (JObject [(''status_id'', JNumber 1)]) new_empty_entity_mock =
      Some \<lparr>ID = nil_id, StatusID = 1\<rparr>"
    by code_simp
  from serve_post[OF nf _ dec nw] show ?thesis
    by (simp add: demo_stored_def demo_post_def demo_state_empty)
qed

lemma demo_req_sel [simp]: "url_id (demo_req p j) = p" "body_json (demo_req p j) = j"
  by (simp_all add: demo_req_def)

lemma demo_id_not_nil: "\<not> is_nil demo_id"
  using new_with_time_not_nil by (simp add: demo_id_def)

lemma demo_id_parsed: "parse_id_from_request (demo_req (encode demo_id) j) = Inr demo_id"
proof (rule parse_id_from_request_encode)
  show "length demo_id = raw_len" using length_new_with_time by (simp add: demo_id_def)
  show "\<not> is_nil demo_id" by (rule demo_id_not_nil)
qed simp

lemmas demo_facts = demo_reachable demo_stored_entity demo_id_parsed demo_state_empty

text \<open>
  The state after \<open>n\<close> POSTs of \<open>{"status_id":1}\<close> in the same second: the
  counter has moved by \<open>n\<close> and every stored entity has status 1.
\<close>

lemma posts_run:
  fixes n :: nat
  defines "s \<equiv> run (replicate n (Request PostRoute demo_post)) demo_state"
  shows "no_faults (mgr s) \<and> clock s = 1700000000
     \<and> xgen s = \<lparr>machine_id = [1, 2, 3], pid = 42, object_id_counter = of_nat n\<rparr>
     \<and> (\<forall>k e. EntityList (mgr s) k = Some e \<longrightarrow> StatusID e = 1)
     \<and> (0 < n \<longrightarrow> EntityList (mgr s) demo_id \<noteq> None)"
  unfolding s_def
proof (induction n)
  case 0
  show ?case by (simp add: run_def demo_state_def start_state_def new_mgr_def no_faults_def)
next
  case (Suc n)
  let ?s = "run (replicate n (Request PostRoute demo_post)) demo_state"
  have step: "run (replicate (Suc n) (Request PostRoute demo_post)) demo_state =
      snd (serve PostRoute demo_post ?s)"
  proof -
    have "replicate (Suc n) (Request PostRoute demo_post) =
        replicate n (Request PostRoute demo_post) @ [Request PostRoute demo_post]"
      by (simp add: replicate_append_same)
    then show ?thesis by (simp only: run_snoc) (simp add: step_def)
  qed
  have sp: "serve PostRoute demo_post ?s =
    (Returns \<lparr>status = 201, payload = JsonBody (VEntity \<lparr>ID = fst (new_with_time (clock ?s) (xgen ?s)), StatusID = 1\<rparr>)\<rparr>,
     (set_entities ((EntityList (mgr ?s))(fst (new_with_time (clock ?s) (xgen ?s)) \<mapsto>
        \<lparr>ID = fst (new_with_time (clock ?s) (xgen ?s)), StatusID = 1\<rparr>)) ?s)\<lparr>xgen := snd (new_with_time (clock ?s) (xgen ?s))\<rparr>)"
    using serve_post_status[of ?s 1] Suc.IH
    by (simp add: demo_post_def in_int64_def int64_min_def int64_max_def)
  have first: "n = 0 \<Longrightarrow> fst (new_with_time (clock ?s) (xgen ?s)) = demo_id"
    using Suc.IH by (simp add: demo_id_def)
  show ?case using Suc.IH first unfolding step sp
    by (auto simp: new_with_time_gen)
qed

section \<open>Request sequences of the contract\<close>

text \<open>
  C5: creating an entity and fetching it by the identifier it was given returns it:
  POST answers 201 with the decoded entity and a fresh non-nil identifier (when the
  clock's low 32 bits are not zero), and a GET whose path parameter is that
  identifier's text answers 200 with the same entity.
\<close>

theorem create_then_get:
  assumes "reachable s" and "(word_of_int (clock s) :: 32 word) \<noteq> 0"
    and "body_json r = Some j" and "decode_entity_mock j new_empty_entity_mock = Some ent"
    and "serve PostRoute r s = (resp, s')"
  shows "\<exists>x. resp = Returns \<lparr>status = 201, payload = JsonBody (VEntity (ent\<lparr>ID := x\<rparr>))\<rparr>
           \<and> \<not> is_nil x
           \<and> (\<forall>r'. url_id r' = encode x \<longrightarrow>
                serve GetRoute r' s' = (Returns \<lparr>status = 200, payload = JsonBody (VEntity (ent\<lparr>ID := x\<rparr>))\<rparr>, s'))"
proof -
  obtain x g' where nw: "new_with_time (clock s) (xgen s) = (x, g')" by fastforce
  from assms(1) have nf: "no_faults (mgr s)" by (simp add: reachable_inv)
  from serve_post[OF nf assms(3,4) nw] assms(5)
  have resp: "resp = Returns \<lparr>status = 201, payload = JsonBody (VEntity (ent\<lparr>ID := x\<rparr>))\<rparr>"
    and s': "s' = (set_entities ((EntityList (mgr s))(x \<mapsto> ent\<lparr>ID := x\<rparr>)) s)\<lparr>xgen := g'\<rparr>"
    by simp_all
  have nn: "\<not> is_nil x" using new_with_time_not_nil[OF assms(2), of "xgen s"] nw by simp
  have len: "length x = raw_len" using length_new_with_time[of "clock s" "xgen s"] nw by simp
  have nf': "no_faults (mgr s')" using nf s' by (simp add: set_entities_def no_faults_def)
  have get: "serve GetRoute r' s' = (Returns \<lparr>status = 200, payload = JsonBody (VEntity (ent\<lparr>ID := x\<rparr>))\<rparr>, s')"
    if "url_id r' = encode x" for r'
  proof -
    have "parse_id_from_request r' = Inr x" using len nn that by (rule parse_id_from_request_encode)
    with nf' s' show ?thesis by (simp add: serve_get set_entities_def)
  qed
  show ?thesis using resp nn get by blast
qed

theorem create_then_get_witness:
  "\<exists>x. fst (serve PostRoute demo_post demo_state) =
         Returns \<lparr>status = 201, payload = JsonBody (VEntity (\<lparr>ID = nil_id, StatusID = 1\<rparr>\<lparr>ID := x\<rparr>))\<rparr>
       \<and> \<not> is_nil x
       \<and> (\<forall>r'. url_id r' = encode x \<longrightarrow>
            serve GetRoute r' (snd (serve PostRoute demo_post demo_state)) =
              (Returns \<lparr>status = 200, payload = JsonBody (VEntity (\<lparr>ID = nil_id, StatusID = 1\<rparr>\<lparr>ID := x\<rparr>))\<rparr>,
               snd (serve PostRoute demo_post demo_state)))"
proof (rule create_then_get)
  show "reachable demo_state" by (rule demo_reachable)
  show "(word_of_int (clock demo_state) :: 32 word) \<noteq> 0" by (simp add: demo_state_def start_state_def)
  show "body_json demo_post = Some (JObject [(''status_id'', JNumber 1)])" by (simp add: demo_post_def)
  show "decode_entity_mock (JObject [(''status_id'', JNumber 1)]) new_empty_entity_mock =
          Some \<lparr>ID = nil_id, StatusID = 1\<rparr>"
    by code_simp
  show "serve PostRoute demo_post demo_state =
          (fst (serve PostRoute demo_post demo_state), snd (serve PostRoute demo_post demo_state))"
    by simp
qed

text \<open>
  C6: deleting an existing entity answers 202, and a GET of the same identifier then
  answers 404 with the not-found error.
\<close>

theorem delete_then_get:
  assumes "reachable s" and "parse_id_from_request r = Inr x" and "EntityList (mgr s) x \<noteq> None"
  shows "\<exists>s'. serve DeleteRoute r s = (Returns \<lparr>status = 202, payload = NoBody\<rparr>, s')
            \<and> serve GetRoute r s' = (Returns \<lparr>status = 404, payload = ErrBody err_not_found\<rparr>, s')"
proof -
  from assms(1) have nf: "no_faults (mgr s)" by (simp add: reachable_inv)
  let ?s' = "set_entities ((EntityList (mgr s))(x := None)) s"
  have "serve GetRoute r ?s' = (Returns \<lparr>status = 404, payload = ErrBody err_not_found\<rparr>, ?s')"
    using serve_get[of ?s' r x] nf assms(2) by simp
  with serve_delete[OF nf assms(2,3)] show ?thesis by blast
qed

theorem delete_then_get_witness:
  "\<exists>s'. serve DeleteRoute (demo_req (encode demo_id) None) demo_stored =
          (Returns \<lparr>status = 202, payload = NoBody\<rparr>, s')
     \<and> serve GetRoute (demo_req (encode demo_id) None) s' =
          (Returns \<lparr>status = 404, payload = ErrBody err_not_found\<rparr>, s')"
  by (rule delete_then_get[where x = demo_id]) (simp_all add: demo_facts)

text \<open>
  C7: a PATCH whose \<open>status_id\<close> is a JSON number \<open>f\<close> answers 204, and a GET of
  the same identifier then returns the entity with \<open>StatusID\<close> set to \<open>int(f)\<close>
  and every other field as it was.
\<close>

theorem patch_then_get:
  assumes "reachable s" and "parse_id_from_request r = Inr x" and "EntityList (mgr s) x = Some e"
    and "body_json r = Some j" and "decode_object_map j Map.empty = Some pud"
    and "pud ''status_id'' = Some (JNumber f)"
  shows "\<exists>s'. serve PatchRoute r s = (Returns \<lparr>status = 204, payload = NoBody\<rparr>, s')
            \<and> serve GetRoute r s' =
                (Returns \<lparr>status = 200, payload = JsonBody (VEntity (e\<lparr>StatusID := go_float_to_int f\<rparr>))\<rparr>, s')"
proof -
  from assms(1) have nf: "no_faults (mgr s)" by (simp add: reachable_inv)
  let ?s' = "set_entities ((EntityList (mgr s))(x \<mapsto> e\<lparr>StatusID := go_float_to_int f\<rparr>)) s"
  have "serve PatchRoute r s = (Returns \<lparr>status = 204, payload = NoBody\<rparr>, ?s')"
    using serve_patch[OF nf assms(2,4,5)] assms(3,6) by simp
  moreover have "serve GetRoute r ?s' =
      (Returns \<lparr>status = 200, payload = JsonBody (VEntity (e\<lparr>StatusID := go_float_to_int f\<rparr>))\<rparr>, ?s')"
    using serve_get[of ?s' r x] nf assms(2) by simp
  ultimately show ?thesis by blast
qed

theorem patch_then_get_witness:
  "\<exists>s'. serve PatchRoute (demo_req (encode demo_id) (Some (JObject [(''status_id'', JNumber 7)]))) demo_stored =
          (Returns \<lparr>status = 204, payload = NoBody\<rparr>, s')
     \<and> serve GetRoute (demo_req (encode demo_id) (Some (JObject [(''status_id'', JNumber 7)]))) s' =
          (Returns \<lparr>status = 200, payload = JsonBody (VEntity (\<lparr>ID = demo_id, StatusID = 1\<rparr>\<lparr>StatusID := go_float_to_int 7\<rparr>))\<rparr>, s')"
  by (rule patch_then_get[where x = demo_id and j = "JObject [(''status_id'', JNumber 7)]"
        and pud = "[''status_id'' \<mapsto> JNumber 7]"])
     (simp_all add: demo_facts decode_object_map_def)

text \<open>
  C8: listing an empty store answers 404 with the not-found error, not an empty list.
\<close>

theorem list_empty_not_found:
  assumes "reachable s" and "EntityList (mgr s) = Map.empty"
  shows "serve ListRoute r s = (Returns \<lparr>status = 404, payload = ErrBody err_not_found\<rparr>, s)"
  using reachable_inv[OF assms(1)] assms(2)
  by (simp add: serve_def respond_def get_list_handler_def mock_get_list_def no_faults_def render_error_def)

theorem list_empty_not_found_witness:
  "serve ListRoute (demo_req [] None) demo_state =
     (Returns \<lparr>status = 404, payload = ErrBody err_not_found\<rparr>, demo_state)"
  by (rule list_empty_not_found) (simp_all add: demo_facts)

text \<open>
  C9: a PATCH without \<open>status_id\<close> is answered 500 with the error \<open>bad request\<close>:
  the mock's \<open>ErrBadRequest\<close> falls to the default case of
  \<open>MapErrorToHTTPError\<close>. This holds whether or not the identifier exists.
\<close>

theorem patch_without_status_id:
  assumes "reachable s" and "parse_id_from_request r = Inr x"
    and "body_json r = Some j" and "decode_object_map j Map.empty = Some pud" and "pud ''status_id'' = None"
  shows "serve PatchRoute r s =
           (Returns \<lparr>status = 500, payload = ErrBody (err_internal (GoError ''bad request''))\<rparr>, s)"
  using serve_patch[OF _ assms(2-4)] reachable_inv[OF assms(1)] assms(5) by simp

theorem patch_without_status_id_witness:
  "serve PatchRoute (demo_req (encode demo_id) (Some (JObject []))) demo_stored =
     (Returns \<lparr>status = 500, payload = ErrBody (err_internal (GoError ''bad request''))\<rparr>, demo_stored)"
  by (rule patch_without_status_id[where x = demo_id and j = "JObject []" and pud = Map.empty])
     (simp_all add: demo_facts decode_object_map_def)

text \<open>
  C10: a PATCH of an existing entity whose \<open>status_id\<close> is not a JSON number
  (a string, a boolean, \<open>null\<close>, an object or an array) makes the manager panic on
  the type assertion \<open>.(float64)\<close>: no response is written.
\<close>

theorem patch_non_number_panics:
  assumes "reachable s" and "parse_id_from_request r = Inr x" and "EntityList (mgr s) x \<noteq> None"
    and "body_json r = Some j" and "decode_object_map j Map.empty = Some pud"
    and "pud ''status_id'' = Some v" and "\<forall>f. v \<noteq> JNumber f"
  shows "serve PatchRoute r s = (Panics ''interface conversion: interface {} is not float64'', s)"
  using serve_patch[OF _ assms(2,4,5)] reachable_inv[OF assms(1)] assms(3,6,7)
  by (auto split: json.splits)

theorem patch_non_number_panics_witness:
  "serve PatchRoute (demo_req (encode demo_id) (Some (JObject [(''status_id'', JString ''1'')]))) demo_stored =
     (Panics ''interface conversion: interface {} is not float64'', demo_stored)"
  by (rule patch_non_number_panics[where x = demo_id and j = "JObject [(''status_id'', JString ''1'')]"
        and pud = "[''status_id'' \<mapsto> JString ''1'']" and v = "JString ''1''"])
     (simp_all add: demo_facts decode_object_map_def)

text \<open>
  C11: a PUT of an existing entity with the body \<open>null\<close> answers 200 with the
  mock's \<open>ErrBadRequest\<close> value as its body and leaves the store as it was:
  \<open>Update\<close> returns the error as its value and a nil error.
\<close>

theorem put_null_answers_error_value:
  assumes "reachable s" and "parse_id_from_request r = Inr x" and "EntityList (mgr s) x \<noteq> None"
    and "body_json r = Some JNull"
  shows "serve PutRoute r s = (Returns \<lparr>status = 200, payload = JsonBody (VError ErrBadRequest)\<rparr>, s)"
  using serve_put[OF _ assms(2-4), of None] reachable_inv[OF assms(1)]
  by (simp add: decode_into_interface_def)

theorem put_null_answers_error_value_witness:
  "serve PutRoute (demo_req (encode demo_id) (Some JNull)) demo_stored =
     (Returns \<lparr>status = 200, payload = JsonBody (VError ErrBadRequest)\<rparr>, demo_stored)"
  by (rule put_null_answers_error_value[where x = demo_id]) (simp_all add: demo_facts)

text \<open>
  C12: a PUT stores the decoded body as it is: a body without \<open>id\<close> replaces the
  entity under the non-nil identifier \<open>x\<close> by one whose \<open>ID\<close> is the nil
  identifier, which the PUT and every later GET of \<open>x\<close> return.
\<close>

theorem put_then_get_loses_id:
  assumes "reachable s" and "parse_id_from_request r = Inr x" and "EntityList (mgr s) x \<noteq> None"
    and "body_json r = Some (JObject [(''status_id'', JNumber (of_int n))])" and "in_int64 n"
  shows "\<exists>s'. serve PutRoute r s = (Returns \<lparr>status = 200, payload = JsonBody (VEntity \<lparr>ID = nil_id, StatusID = n\<rparr>)\<rparr>, s')
            \<and> serve GetRoute r s' = (Returns \<lparr>status = 200, payload = JsonBody (VEntity \<lparr>ID = nil_id, StatusID = n\<rparr>)\<rparr>, s')
            \<and> x \<noteq> nil_id"
proof -
  from assms(1) have nf: "no_faults (mgr s)" by (simp add: reachable_inv)
  have dec: "decode_into_interface mock_mgr (JObject [(''status_id'', JNumber (of_int n))]) new_empty_entity_mock
      = Some (Some \<lparr>ID = nil_id, StatusID = n\<rparr>)"
    using decode_status_id_member[OF assms(5)]
    by (simp add: decode_into_interface_def new_empty_entity_mock_def)
  have x: "x \<noteq> nil_id" using parse_id_from_request_ok[OF assms(2)] by (simp add: is_nil_def)
  let ?e = "\<lparr>ID = nil_id, StatusID = n\<rparr>"
  let ?s' = "set_entities ((EntityList (mgr s))(x \<mapsto> ?e)) s"
  have "serve PutRoute r s = (Returns \<lparr>status = 200, payload = JsonBody (VEntity ?e)\<rparr>, ?s')"
    using serve_put[OF nf assms(2-4) dec] by simp
  moreover have "serve GetRoute r ?s' = (Returns \<lparr>status = 200, payload = JsonBody (VEntity ?e)\<rparr>, ?s')"
    using serve_get[of ?s' r x] nf assms(2) by simp
  ultimately show ?thesis using x by blast
qed

theorem put_then_get_loses_id_witness:
  "\<exists>s'. serve PutRoute (demo_req (encode demo_id) (Some (JObject [(''status_id'', JNumber (of_int 5))]))) demo_stored =
          (Returns \<lparr>status = 200, payload = JsonBody (VEntity \<lparr>ID = nil_id, StatusID = 5\<rparr>)\<rparr>, s')
     \<and> serve GetRoute (demo_req (encode demo_id) (Some (JObject [(''status_id'', JNumber (of_int 5))]))) s' =
          (Returns \<lparr>status = 200, payload = JsonBody (VEntity \<lparr>ID = nil_id, StatusID = 5\<rparr>)\<rparr>, s')
     \<and> demo_id \<noteq> nil_id"
  by (rule put_then_get_loses_id[where x = demo_id])
     (simp_all add: demo_facts in_int64_def int64_min_def int64_max_def)

text \<open>
  C13: listing a non-empty store answers 200 with every stored entity exactly once
  (as a multiset, in the order the runtime's map iteration visits the keys).
\<close>

theorem list_returns_all:
  assumes "reachable s" and "EntityList (mgr s) \<noteq> Map.empty"
    and "enumerates (range_order s (dom (EntityList (mgr s)))) (dom (EntityList (mgr s)))"
  shows "\<exists>es. serve ListRoute r s = (Returns \<lparr>status = 200, payload = JsonBody (VList es)\<rparr>, s)
            \<and> mset es = image_mset (\<lambda>k. the (EntityList (mgr s) k)) (mset_set (dom (EntityList (mgr s))))"
proof -
  let ?m = "EntityList (mgr s)" and ?ks = "range_order s (dom (EntityList (mgr s)))"
  from reachable_inv[OF assms(1)] have nf: "no_faults (mgr s)" and fin: "finite (dom ?m)"
    by (simp_all add: wf_store_def)
  have len: "go_len ?m \<noteq> 0" using go_len_zero_iff[OF fin] assms(2) by simp
  have "List.map_filter ?m ?ks = map (\<lambda>k. the (?m k)) ?ks"
    using assms(3) by (simp add: enumerates_def map_filter_dom)
  moreover have "mset ?ks = mset_set (dom ?m)"
    using assms(3) by (metis enumerates_def mset_set_set)
  ultimately show ?thesis using nf len
    by (simp add: serve_def respond_def get_list_handler_def mock_get_list_def no_faults_def)
qed

theorem list_returns_all_witness:
  "\<exists>es. serve ListRoute (demo_req [] None) (demo_stored\<lparr>range_order := \<lambda>_. [demo_id]\<rparr>) =
          (Returns \<lparr>status = 200, payload = JsonBody (VList es)\<rparr>, demo_stored\<lparr>range_order := \<lambda>_. [demo_id]\<rparr>)
     \<and> mset es = image_mset (\<lambda>k. the (EntityList (mgr (demo_stored\<lparr>range_order := \<lambda>_. [demo_id]\<rparr>)) k))
                   (mset_set (dom (EntityList (mgr (demo_stored\<lparr>range_order := \<lambda>_. [demo_id]\<rparr>)))))"
  by (rule list_returns_all) (simp_all add: demo_facts reachable.reorder enumerates_def)

text \<open>
  C15: POST never overwrites a stored entity while the process has issued fewer
  than \<open>2^24\<close> identifiers: along any run of fewer than \<open>2^24\<close> events from
  \<open>NewMgr()\<close>, a POST answered 201 keeps every stored entity and adds exactly one,
  whatever the clock did, across the wrap-around of the 32-bit counter.
\<close>

theorem post_never_overwrites:
  assumes "length evs < 2 ^ 24" and "s = run evs (start_state g t ro)"
    and "serve PostRoute r s = (Returns resp, s')" and "status resp = 201"
  shows "EntityList (mgr s) \<subseteq>\<^sub>m EntityList (mgr s') \<and> go_len (EntityList (mgr s')) = Suc (go_len (EntityList (mgr s)))"
proof -
  let ?x = "fst (new_with_time (clock s) (xgen s))" and ?c = "object_id_counter g"
  have "reachable s" using assms(2) reachable.start by (simp add: reachable_run)
  then have nf: "no_faults (mgr s)" and fin: "finite (dom (EntityList (mgr s)))"
    using reachable_inv by (simp_all add: wf_store_def)
  obtain d where d: "d \<le> length evs" and cnt: "object_id_counter (xgen s) = ?c + of_nat d"
    and keys: "\<forall>k \<in> dom (EntityList (mgr s)). \<exists>j. 0 < j \<and> j \<le> d \<and> drop 9 k = counter_bytes (?c + of_nat j)"
    using run_counter_inv[of evs "start_state g t ro"] assms(2)
    by (auto simp: start_state_def new_mgr_def)
  have fresh: "EntityList (mgr s) ?x = None"
  proof (rule ccontr)
    assume "EntityList (mgr s) ?x \<noteq> None"
    then obtain j where j: "0 < j" "j \<le> d" and eq: "drop 9 ?x = counter_bytes (?c + of_nat j)"
      using keys by blast
    have e: "object_id_counter (xgen s) + 1 = ?c + of_nat (Suc d)" using cnt by simp
    have "drop 9 ?x = counter_bytes (object_id_counter (xgen s) + 1)"
      by (simp add: new_with_time_counter(1) Let_def)
    then have "drop 9 ?x = counter_bytes (?c + of_nat (Suc d))" by (simp only: e)
    with eq have "take_bit 24 (?c + of_nat j) = take_bit 24 (?c + of_nat (Suc d))"
      by (intro low_bytes_eq) simp
    then have "j = Suc d" using j d assms(1) by (intro take_bit_24_counter) simp_all
    with j show False by simp
  qed
  obtain e where upd: "EntityList (mgr s') = (EntityList (mgr s))(?x \<mapsto> e)"
    using serve_post_created[OF nf assms(3,4)] by blast
  show ?thesis
    using fresh fin upd go_len_upd_fresh[OF fin fresh] by (auto simp: map_le_def)
qed

theorem post_never_overwrites_witness:
  "\<exists>resp s'. serve PostRoute demo_post (run [Request PostRoute demo_post] demo_state) = (Returns resp, s')
     \<and> status resp = 201
     \<and> EntityList (mgr (run [Request PostRoute demo_post] demo_state)) \<subseteq>\<^sub>m EntityList (mgr s')
     \<and> go_len (EntityList (mgr s')) = Suc (go_len (EntityList (mgr (run [Request PostRoute demo_post] demo_state))))"
proof -
  have s: "run [Request PostRoute demo_post] demo_state = demo_stored"
    by (simp add: run_def step_def demo_stored_def)
  obtain x g' where nw: "new_with_time (clock demo_stored) (xgen demo_stored) = (x, g')" by fastforce
  have nf: "no_faults (mgr demo_stored)" using demo_reachable(2) reachable_inv by blast
  have dec: "decode_entity_mock (JObject [(''status_id'', JNumber 1)]) new_empty_entity_mock =
      Some \<lparr>ID = nil_id, StatusID = 1\<rparr>"
    by code_simp
  obtain resp s' where sp: "serve PostRoute demo_post demo_stored = (Returns resp, s')" and st: "status resp = 201"
    using serve_post[OF nf _ dec nw] by (simp add: demo_post_def)
  have "EntityList (mgr demo_stored) \<subseteq>\<^sub>m EntityList (mgr s') \<and>
        go_len (EntityList (mgr s')) = Suc (go_len (EntityList (mgr demo_stored)))"
    by (rule post_never_overwrites[where evs = "[Request PostRoute demo_post]"
          and g = "\<lparr>machine_id = [1, 2, 3], pid = 42, object_id_counter = 0\<rparr>" and t = 1700000000
          and ro = "\<lambda>_. []", OF _ _ sp st])
       (simp_all add: s[symmetric] demo_state_def)
  then show ?thesis using sp st s by auto
qed

text \<open>
  C16: the bound of C15 is tight: after \<open>2^24\<close> POSTs in the same second, the
  next POST draws the first identifier again, answers 201, and replaces the entity
  stored under it: identifiers are not unique over the manager's lifetime.
\<close>

theorem post_overwrites_after_2_24:
  "\<exists>evs resp s'. length evs = 2 ^ 24
     \<and> serve PostRoute demo_post2 (run evs demo_state) = (Returns resp, s') \<and> status resp = 201
     \<and> \<not> (EntityList (mgr (run evs demo_state)) \<subseteq>\<^sub>m EntityList (mgr s'))"
proof -
  let ?evs = "replicate (2 ^ 24) (Request PostRoute demo_post)"
  let ?s = "run ?evs demo_state"
  have inv: "no_faults (mgr ?s)" "clock ?s = 1700000000"
     "xgen ?s = \<lparr>machine_id = [1, 2, 3], pid = 42, object_id_counter = 2 ^ 24\<rparr>"
     "\<forall>k e. EntityList (mgr ?s) k = Some e \<longrightarrow> StatusID e = 1"
     "EntityList (mgr ?s) demo_id \<noteq> None"
    using posts_run[of "2 ^ 24"] by simp_all
  have x: "fst (new_with_time (clock ?s) (xgen ?s)) = demo_id"
    using inv(2,3) new_with_time_wraps[of 1700000000 "\<lparr>machine_id = [1, 2, 3], pid = 42, object_id_counter = 0\<rparr>"]
    by (simp add: demo_id_def)
  obtain e where e: "EntityList (mgr ?s) demo_id = Some e" and st: "StatusID e = 1" using inv(4,5) by blast
  have sp: "serve PostRoute demo_post2 ?s =
    (Returns \<lparr>status = 201, payload = JsonBody (VEntity \<lparr>ID = demo_id, StatusID = 2\<rparr>)\<rparr>,
     (set_entities ((EntityList (mgr ?s))(demo_id \<mapsto> \<lparr>ID = demo_id, StatusID = 2\<rparr>)) ?s)\<lparr>xgen := snd (new_with_time (clock ?s) (xgen ?s))\<rparr>)"
    using serve_post_status[of ?s 2] inv(1) x
    by (simp add: demo_post2_def in_int64_def int64_min_def int64_max_def)
  have "\<not> (EntityList (mgr ?s) \<subseteq>\<^sub>m (EntityList (mgr ?s))(demo_id \<mapsto> \<lparr>ID = demo_id, StatusID = 2\<rparr>))"
    using e st by (auto simp: map_le_def dom_def)
  then show ?thesis using sp by (intro exI[where x = ?evs]) auto
qed

text \<open>
  C19 at the example: deleting the entity the example POST created is the
  contract's delete.
\<close>

theorem mock_refines_contract_witness:
  "\<exists>a s'. mock_answer (OpDelete demo_id) demo_stored = (Returns a, s') \<and>
     c_step (\<lambda>x e. e\<lparr>ID := x\<rparr>) ''status_id'' apply_status (fst (new_with_time (clock demo_stored) (xgen demo_stored)))
       (OpDelete demo_id) (EntityList (mgr demo_stored)) = Some (a, EntityList (mgr s'))"
proof (rule mock_refines_contract)
  show "no_faults (mgr demo_stored)" using demo_reachable(2) reachable_inv by blast
qed (simp_all add: demo_facts op_ok_def)

text \<open>
  C20: a PUT of the very body a GET of an entity returned changes nothing: it answers
  200 with the entity and leaves the state as it was (the entity's JSON decodes back
  to it).
\<close>

theorem put_of_get_body_is_noop:
  assumes "reachable s" and "parse_id_from_request r = Inr x" and "EntityList (mgr s) x = Some e"
    and "body_json r = Some (entity_json e)"
  shows "serve PutRoute r s = (Returns \<lparr>status = 200, payload = JsonBody (VEntity e)\<rparr>, s)"
proof -
  from reachable_inv[OF assms(1)] have nf: "no_faults (mgr s)" and wf: "wf_store (EntityList (mgr s))" by simp_all
  have "wf_entity e" using wf_store_lookup[OF wf assms(3)] by simp
  then have "decode_into_interface mock_mgr (entity_json e) new_empty_entity_mock = Some (Some e)"
    by (simp add: decode_into_interface_def decode_entity_json entity_json_not_null)
  from serve_put[OF nf assms(2) _ assms(4) this] assms(3)
  show ?thesis by (simp add: set_entities_def fun_upd_idem)
qed

theorem put_of_get_body_is_noop_witness:
  "serve PutRoute (demo_req (encode demo_id) (Some (entity_json \<lparr>ID = demo_id, StatusID = 1\<rparr>))) demo_stored =
     (Returns \<lparr>status = 200, payload = JsonBody (VEntity \<lparr>ID = demo_id, StatusID = 1\<rparr>)\<rparr>, demo_stored)"
  by (rule put_of_get_body_is_noop[where x = demo_id]) (simp_all add: demo_facts)

text \<open>
  C21: the fault injection of the mock, as the handler tests use it: with a
  \<open>Want...Error\<close> flag set, its route answers 500 with the flag's error and
  leaves the state as it was.
\<close>

theorem injected_faults_answer_500:
  assumes "parse_id_from_request r = Inr x"
    and "body_json r = Some (JObject [(''status_id'', JNumber (of_int n))])" and "in_int64 n"
  shows "(WantCreateError (mgr s) \<longrightarrow> serve PostRoute r s =
            (Returns \<lparr>status = 500, payload = ErrBody (err_internal (GoError ''Error create''))\<rparr>, s))
   \<and> (WantGetListError (mgr s) \<longrightarrow> serve ListRoute r s =
            (Returns \<lparr>status = 500, payload = ErrBody (err_internal (GoError ''Error getlist''))\<rparr>, s))
   \<and> (WantGetError (mgr s) \<longrightarrow> serve GetRoute r s =
            (Returns \<lparr>status = 500, payload = ErrBody (err_internal (GoError ''Error get''))\<rparr>, s))
   \<and> (WantDeleteError (mgr s) \<longrightarrow> serve DeleteRoute r s =
            (Returns \<lparr>status = 500, payload = ErrBody (err_internal (GoError ''Error delete''))\<rparr>, s))
   \<and> (WantUpdateError (mgr s) \<longrightarrow> serve PutRoute r s =
            (Returns \<lparr>status = 500, payload = ErrBody (err_internal (GoError ''Error update''))\<rparr>, s))
   \<and> (WantPartialUpdateError (mgr s) \<longrightarrow> serve PatchRoute r s =
            (Returns \<lparr>status = 500, payload = ErrBody (err_internal (GoError ''Error partial update''))\<rparr>, s))"
proof -
  have dec: "decode_entity_mock (JObject [(''status_id'', JNumber (of_int n))]) new_empty_entity_mock \<noteq> None"
    using decode_status_id_member[OF assms(3)] by simp
  show ?thesis using assms(1,2) dec
    by (intro conjI impI)
       (auto simp: serve_def respond_def handler_defs mock_method_defs render_error_def
          decode_into_interface_def decode_object_map_def)
qed

theorem injected_faults_answer_500_witness:
  "serve PostRoute (demo_req (encode demo_id) (Some (JObject [(''status_id'', JNumber (of_int 1))]))) demo_faulty =
     (Returns \<lparr>status = 500, payload = ErrBody (err_internal (GoError ''Error create''))\<rparr>, demo_faulty)
   \<and> serve ListRoute (demo_req (encode demo_id) (Some (JObject [(''status_id'', JNumber (of_int 1))]))) demo_faulty =
     (Returns \<lparr>status = 500, payload = ErrBody (err_internal (GoError ''Error getlist''))\<rparr>, demo_faulty)
   \<and> serve GetRoute (demo_req (encode demo_id) (Some (JObject [(''status_id'', JNumber (of_int 1))]))) demo_faulty =
     (Returns \<lparr>status = 500, payload = ErrBody (err_internal (GoError ''Error get''))\<rparr>, demo_faulty)
   \<and> serve DeleteRoute (demo_req (encode demo_id) (Some (JObject [(''status_id'', JNumber (of_int 1))]))) demo_faulty =
     (Returns \<lparr>status = 500, payload = ErrBody (err_internal (GoError ''Error delete''))\<rparr>, demo_faulty)
   \<and> serve PutRoute (demo_req (encode demo_id) (Some (JObject [(''status_id'', JNumber (of_int 1))]))) demo_faulty =
     (Returns \<lparr>status = 500, payload = ErrBody (err_internal (GoError ''Error update''))\<rparr>, demo_faulty)
   \<and> serve PatchRoute (demo_req (encode demo_id) (Some (JObject [(''status_id'', JNumber (of_int 1))]))) demo_faulty =
     (Returns \<lparr>status = 500, payload = ErrBody (err_internal (GoError ''Error partial update''))\<rparr>, demo_faulty)"
  using injected_faults_answer_500[of "demo_req (encode demo_id) (Some (JObject [(''status_id'', JNumber (of_int 1))]))"
      demo_id 1 demo_faulty]
  by (simp add: demo_facts demo_faulty_def in_int64_def int64_min_def int64_max_def)

text \<open>
  C22: the store of any reachable state can always be emptied: DELETEs of its
  non-nil keys, built as the tests build them, one per key in any order, leave no
  entity behind.
\<close>

theorem store_can_be_drained:
  assumes "reachable s" and "distinct ks" and "set ks = dom (EntityList (mgr s))"
    and "\<forall>k \<in> set ks. \<not> is_nil k"
  shows "EntityList (mgr (run (map (\<lambda>k. Request DeleteRoute (get_test_context_with_id r k)) ks) s)) = Map.empty"
  using assms
proof (induction ks arbitrary: s)
  case Nil
  then show ?case by (simp add: run_def dom_eq_empty_conv[symmetric])
next
  case (Cons k ks)
  let ?s' = "snd (serve DeleteRoute (get_test_context_with_id r k) s)"
  have s': "?s' = set_entities ((EntityList (mgr s))(k := None)) s"
    using Cons.prems by (intro serve_delete_stored) auto
  have "reachable ?s'" using Cons.prems(1) by (rule reachable_serve)
  moreover have "set ks = dom (EntityList (mgr ?s'))" using Cons.prems(2,3) s' by auto
  ultimately have "EntityList (mgr (run (map (\<lambda>k. Request DeleteRoute (get_test_context_with_id r k)) ks) ?s')) = Map.empty"
    using Cons.IH Cons.prems(2,4) by simp
  then show ?case by (simp add: run_def step_def)
qed

theorem store_can_be_drained_witness:
  "EntityList (mgr (run [Request DeleteRoute (get_test_context_with_id (demo_req [] None) demo_id)] demo_stored))
     = Map.empty"
  using store_can_be_drained[of demo_stored "[demo_id]" "demo_req [] None"]
  by (simp add: demo_facts demo_id_not_nil)

text \<open>
  C23: the whole service implements the contract. In every reachable state, a
  request the handlers refuse before calling the manager leaves the store as it
  was; any other request, when the contract's preconditions hold, returns the
  status the handler table gives the contract's answer, and its new store is the
  contract's step on the old one.
\<close>

theorem service_refines_contract:
  assumes "reachable s" and "\<forall>op. request_op rt r = Some op \<longrightarrow> op_ok op s"
  shows "case request_op rt r of
           None \<Rightarrow> EntityList (mgr (snd (serve rt r s))) = EntityList (mgr s)
         | Some op \<Rightarrow> \<exists>a resp. fst (serve rt r s) = Returns resp \<and> status resp = route_status rt a \<and>
                        contract_step s op = Some (a, EntityList (mgr (snd (serve rt r s))))"
proof (cases "request_op rt r")
  case None
  from reachable_inv[OF assms(1)] have "no_faults (mgr s)" by simp
  with None show ?thesis by (simp add: serve_refines_none)
next
  case (Some op)
  from reachable_inv[OF assms(1)] have nf: "no_faults (mgr s)" and fin: "finite (dom (EntityList (mgr s)))"
    by (simp_all add: wf_store_def)
  have ok: "op_ok op s" using assms(2) Some by simp
  show ?thesis
    using Some nf fin ok
    by (cases rt) (simp_all add: serve_refines_get serve_refines_delete serve_refines_put serve_refines_patch
        serve_refines_post serve_refines_list)
qed

theorem service_refines_contract_witness:
  "\<exists>a resp. fst (serve DeleteRoute (demo_req (encode demo_id) None) demo_stored) = Returns resp
     \<and> status resp = route_status DeleteRoute a
     \<and> contract_step demo_stored (OpDelete demo_id)
         = Some (a, EntityList (mgr (snd (serve DeleteRoute (demo_req (encode demo_id) None) demo_stored))))"
  using service_refines_contract[of demo_stored DeleteRoute "demo_req (encode demo_id) None"]
  by (simp add: demo_facts request_op_def op_ok_def)

text \<open>
  C25: a \<open>status_id\<close> that is a \<open>float64\<close> value but not an integer of
  \<open>int64\<close> (a fraction, or beyond the range) is refused by PUT and POST with 400, as
  \<open>encoding/json\<close> refuses it for an \<open>int\<close> field, while PATCH accepts it and stores
  \<open>int(f)\<close>: truncated, and the minimum \<open>int64\<close> out of range. The number is taken to
  be one \<open>float64\<close> represents exactly, so that the value PATCH reads from
  \<open>interface{}\<close> is the literal's own.
\<close>

theorem status_id_put_rejects_patch_converts:
  assumes "reachable s" and "parse_id_from_request r = Inr x" and "EntityList (mgr s) x = Some e"
    and "body_json r = Some (JObject [(''status_id'', JNumber f)])"
    and "is_float64 f" and "\<not> (f = of_int \<lfloor>f\<rfloor> \<and> in_int64 \<lfloor>f\<rfloor>)"
  shows "serve PutRoute r s = (Returns \<lparr>status = 400, payload = ErrBody (err_bad_request JsonError)\<rparr>, s)
       \<and> fst (serve PostRoute r s) = Returns \<lparr>status = 400, payload = ErrBody (err_bad_request JsonError)\<rparr>
       \<and> serve PatchRoute r s = (Returns \<lparr>status = 204, payload = NoBody\<rparr>,
            set_entities ((EntityList (mgr s))(x \<mapsto> e\<lparr>StatusID := go_float_to_int f\<rparr>)) s)"
proof -
  from reachable_inv[OF assms(1)] have nf: "no_faults (mgr s)" by simp
  have dec: "decode_entity_mock (JObject [(''status_id'', JNumber f)]) new_empty_entity_mock = None"
    using assms(6) by (rule decode_status_not_int64)
  have put: "serve PutRoute r s = (Returns \<lparr>status = 400, payload = ErrBody (err_bad_request JsonError)\<rparr>, s)"
    using assms(2,4) dec
    by (simp add: serve_def respond_def put_handler_def decode_into_interface_def render_error_def)
  have post: "fst (serve PostRoute r s) = Returns \<lparr>status = 400, payload = ErrBody (err_bad_request JsonError)\<rparr>"
    using assms(4) dec by (simp add: serve_def respond_def post_handler_def render_error_def)
  have patch: "serve PatchRoute r s = (Returns \<lparr>status = 204, payload = NoBody\<rparr>,
            set_entities ((EntityList (mgr s))(x \<mapsto> e\<lparr>StatusID := go_float_to_int f\<rparr>)) s)"
    using serve_patch[OF nf assms(2,4), of "[''status_id'' \<mapsto> JNumber f]"] assms(3)
    by (simp add: decode_object_map_def)
  show ?thesis using put post patch by simp
qed

theorem status_id_put_rejects_patch_converts_witness:
  "is_float64 (5 / 2)
   \<and> serve PutRoute (demo_req (encode demo_id) (Some (JObject [(''status_id'', JNumber (5 / 2))]))) demo_stored =
     (Returns \<lparr>status = 400, payload = ErrBody (err_bad_request JsonError)\<rparr>, demo_stored)
   \<and> fst (serve PostRoute (demo_req (encode demo_id) (Some (JObject [(''status_id'', JNumber (5 / 2))]))) demo_stored) =
     Returns \<lparr>status = 400, payload = ErrBody (err_bad_request JsonError)\<rparr>
   \<and> serve PatchRoute (demo_req (encode demo_id) (Some (JObject [(''status_id'', JNumber (5 / 2))]))) demo_stored =
     (Returns \<lparr>status = 204, payload = NoBody\<rparr>,
      set_entities [demo_id \<mapsto> \<lparr>ID = demo_id, StatusID = 2\<rparr>] demo_stored)"
proof -
  have fl: "\<lfloor>5 / 2 :: rat\<rfloor> = 2" by (simp add: floor_eq_iff)
  have "go_float_to_int (5 / 2) = 2"
    by (simp add: go_float_to_int_def fl in_int64_def int64_min_def int64_max_def)
  moreover have "\<not> ((5 / 2 :: rat) = of_int \<lfloor>5 / 2 :: rat\<rfloor> \<and> in_int64 \<lfloor>5 / 2 :: rat\<rfloor>)" by (simp add: fl)
  moreover have "is_float64 (5 / 2)" by (rule is_float64I[of "-1" 5]) simp_all
  ultimately show ?thesis
    using status_id_put_rejects_patch_converts[of demo_stored "demo_req (encode demo_id) (Some (JObject [(''status_id'', JNumber (5 / 2))]))"
        demo_id "\<lparr>ID = demo_id, StatusID = 1\<rparr>" "5 / 2"]
    by (simp add: demo_facts)
qed

text \<open>C26 at the example: an entity created a second after the example's one sorts after it.\<close>

theorem created_ids_sort_by_time_witness:
  "encode (ID \<lparr>ID = demo_id, StatusID = 1\<rparr>)
     < encode (ID (new_empty_entity_mock\<lparr>ID := fst (new_with_time 1700000001 (xgen demo_stored))\<rparr>))"
proof (rule created_ids_sort_by_time)
  show "mock_create \<lparr>ID = nil_id, StatusID = 1\<rparr> [] demo_state =
      (Inr (VEntity \<lparr>ID = demo_id, StatusID = 1\<rparr>), snd (mock_create \<lparr>ID = nil_id, StatusID = 1\<rparr> [] demo_state))"
    by (simp add: mock_create_def Let_def demo_state_def start_state_def new_mgr_def demo_id_def split: prod.split)
  show "mock_create new_empty_entity_mock [] (demo_stored\<lparr>clock := 1700000001\<rparr>) =
      (Inr (VEntity (new_empty_entity_mock\<lparr>ID := fst (new_with_time 1700000001 (xgen demo_stored))\<rparr>)),
       snd (mock_create new_empty_entity_mock [] (demo_stored\<lparr>clock := 1700000001\<rparr>)))"
    using demo_reachable(2) reachable_inv
    by (simp add: mock_create_def Let_def no_faults_def split: prod.split)
  show "(word_of_int (clock demo_state) :: 32 word) < word_of_int (clock (demo_stored\<lparr>clock := 1700000001\<rparr>))"
    by (simp add: demo_state_def start_state_def)
qed

text \<open>
  C3 and C4 at the service's manager: a malformed identifier is refused before the
  manager is called, and the status codes the handlers answer with the mock's
  error mapping.
\<close>

theorem id_handlers_reject_bad_id_witness:
  "get_handler mock_mgr (demo_req ''abc'' None) demo_state =
     (\<lparr>status = 400, payload = ErrBody (err_bad_request (GoError ''parseIDFromRequest(abc): xid: invalid ID''))\<rparr>, demo_state)"
  using id_handlers_reject_bad_id[of "demo_req ''abc'' None" "GoError ''parseIDFromRequest(abc): xid: invalid ID''"
      mock_mgr demo_state]
  by (simp add: parse_id_from_request_def from_string_wrong_length encoded_len_def)

theorem handler_status_codes_witness:
  "status (fst (post_handler mock_mgr demo_post demo_state)) \<in> {201, 400, 500}
   \<and> status (fst (get_list_handler mock_mgr demo_post demo_state)) \<in> insert 200 {403, 404, 500}"
  using handler_status_codes[OF mock_codes_within, of demo_post demo_state] by simp

end
